theory Spec2Isabelle
  imports Main "HOL-Library.Word" "HOL-Library.AList" "HOL-Library.Char_ord"
      "HOL-Library.List_Lexorder"
begin

section \<open>Values of the Go program\<close>

text \<open>
  The repository holds three versions of one package of HTTP helpers: \<^verbatim>\<open>http-utils.go\<close>
  (package httputils, two entry functions), \<^verbatim>\<open>part_000\<close> (package utils, with token,
  transport, timeout and file upload) and \<^verbatim>\<open>part_001\<close> (package utils, with token and
  transport). The three files define the same names, so every definition below carries
  the suffix of its file: \<open>_hu\<close>, \<open>_p0\<close>, \<open>_p1\<close>.

  A Go \<^verbatim>\<open>string\<close> and a \<^verbatim>\<open>[]byte\<close> are both sequences of bytes: \<open>char list\<close>. The
  conversion \<^verbatim>\<open>string(data)\<close> is the identity on them. A slice that may be \<^verbatim>\<open>nil\<close> is an
  option, and so is every pointer, interface and map argument that the code tests
  against \<^verbatim>\<open>nil\<close>.
\<close>

type_synonym bytes = string

text \<open>An error value made by the standard library (or by \<^verbatim>\<open>fmt.Errorf\<close>), by its message.\<close>

datatype cause = Cause string | InvalidMethod string

text \<open>
  \<^verbatim>\<open>type ResourceError struct { URL string; HTTPCode int; Message string;
  Body interface{}; Err error }\<close>. The only value the code ever stores in \<^verbatim>\<open>Body\<close> is a
  string, so the interface is a string option.
\<close>

record ResourceError =
  URL :: string
  HTTPCode :: int
  Message :: string
  Body :: "string option"
  Err :: "cause option"

text \<open>
  A value of the interface \<^verbatim>\<open>error\<close> as the functions return it: a
  \<^verbatim>\<open>*ResourceError\<close>, or an error of the standard library passed on as it is.
\<close>

datatype goerror = ResourceErr ResourceError | RawErr cause

text \<open>\<^verbatim>\<open>type FileItem struct { Key string; FileName string; Content []byte }\<close>\<close>

record FileItem =
  Key :: string
  FileName :: string
  Content :: bytes

text \<open>
  A Go map \<^verbatim>\<open>map[string]string\<close> is an association list; the order of the list is the
  order in which \<^verbatim>\<open>range\<close> visits the map in this run (Go leaves it unspecified), and a
  map of the program has distinct keys. \<^verbatim>\<open>m[k] = v\<close> is \<^const>\<open>AList.update\<close>.
\<close>

type_synonym gomap = "(string \<times> string) list"

section \<open>The standard library the program calls\<close>

text \<open>
  The program is a thin layer over Go's \<^verbatim>\<open>net/http\<close>, \<^verbatim>\<open>net/url\<close>, \<^verbatim>\<open>strings\<close>,
  \<^verbatim>\<open>mime/multipart\<close>, \<^verbatim>\<open>encoding/json\<close> and \<^verbatim>\<open>encoding/xml\<close>. None of them is part of
  the repository. Their objects are modelled by the data the program can observe, and
  their functions are the fields of a record \<open>world\<close>, a parameter of every function of
  the program: the theorems hold whatever the library and the network do.
\<close>

datatype cookie = Cookie string string

datatype transport = TransportRef nat

text \<open>\<^verbatim>\<open>url.URL\<close>, by the fields a parse fills.\<close>

record url =
  Scheme :: string
  Host :: string
  Path :: string
  RawQuery :: string
  Fragment :: string

text \<open>\<^verbatim>\<open>url.Values\<close>, a \<^verbatim>\<open>map[string][]string\<close>.\<close>

type_synonym url_values = "(string \<times> string list) list"

text \<open>
  \<^verbatim>\<open>http.Request\<close>: the method, the parsed URL, the body, and the calls of
  \<^verbatim>\<open>AddCookie\<close> and of \<^verbatim>\<open>Header.Add\<close> made on it, in order (the header of a new request
  is empty, so the calls determine it).
\<close>

record request =
  Method :: string
  ReqURL :: url
  Cookies :: "cookie list"
  Header :: "(string \<times> string) list"
  ReqBody :: bytes

text \<open>
  \<^verbatim>\<open>http.Client\<close>: \<open>Timeout\<close> is a \<^verbatim>\<open>time.Duration\<close>, a signed 64-bit count of
  nanoseconds; the client applies no time limit when it is not positive.
\<close>

record client =
  Timeout :: "64 word"
  Transport :: "transport option"

text \<open>
  \<^verbatim>\<open>http.Response\<close>: the status code, and what \<^verbatim>\<open>ioutil.ReadAll(response.Body)\<close>
  gives: the bytes, or a read error.
\<close>

record response =
  StatusCode :: int
  RespBody :: "cause + bytes"

datatype codec = JSON | XML

text \<open>
  A \<^verbatim>\<open>multipart.Writer\<close> over a fresh buffer is the list of the calls made on it, in
  order; the library decides the bytes they leave in the buffer.
\<close>

datatype mp_op =
  WriteField string string
  | CreateFormFile string string
  | Write bytes
  | Close

text \<open>
  The type \<open>'s\<close> is the type of the structure the caller wants the response decoded
  into. \<^verbatim>\<open>Unmarshal\<close> gets the bytes and the target (an interface, possibly \<^verbatim>\<open>nil\<close>),
  and gives the target as it leaves it and its error.
\<close>

record 's world =
  strings_ToUpper :: "string \<Rightarrow> string"
  strings_TrimSpace :: "string \<Rightarrow> string"
  url_Parse :: "string \<Rightarrow> cause + url"
  URL_Query :: "url \<Rightarrow> url_values"
  Values_Encode :: "url_values \<Rightarrow> string"
  URL_String :: "url \<Rightarrow> string"
  client_Do :: "client \<Rightarrow> request \<Rightarrow> cause + response"
  json_Unmarshal :: "bytes \<Rightarrow> 's option \<Rightarrow> 's option \<times> cause option"
  xml_Unmarshal :: "bytes \<Rightarrow> 's option \<Rightarrow> 's option \<times> cause option"
  multipart_CreateFormFile :: "mp_op list \<Rightarrow> string \<Rightarrow> string \<Rightarrow> cause option"
  multipart_FormDataContentType :: string
  multipart_Bytes :: "mp_op list \<Rightarrow> bytes"

text \<open>
  \<^verbatim>\<open>http.NewRequest(method, url, body)\<close> as \<^verbatim>\<open>net/http\<close> implements it: an empty method
  stands for GET, the method must be a token of RFC 7230, and the URL of the request is
  what \<^verbatim>\<open>url.Parse\<close> makes of the string; each failure is returned as the error.
  The library also drops an empty port from the host of the request (\<open>h:\<close> becomes
  \<open>h\<close>); this is left out, no function of the program reads the host.
\<close>

definition isToken :: "char \<Rightarrow> bool" where
  "isToken c =
     (c \<in> set (''!#$%&*+-.^_|~0123456789abcdefghijklmnopqrstuvwxyzABCDEFGHIJKLMNOPQRSTUVWXYZ''
               @ [CHR 0x27, CHR 0x60]))"

definition validMethod :: "string \<Rightarrow> bool" where
  "validMethod method = (method \<noteq> [] \<and> list_all isToken method)"

definition http_NewRequest :: "'s world \<Rightarrow> string \<Rightarrow> string \<Rightarrow> bytes \<Rightarrow> cause + request" where
  "http_NewRequest w method urlStr body =
     (let method = (if method = [] then ''GET'' else method) in
      if \<not> validMethod method then Inl (InvalidMethod method)
      else case url_Parse w urlStr of
             Inl e \<Rightarrow> Inl e
           | Inr u \<Rightarrow> Inr \<lparr>Method = method, ReqURL = u, Cookies = [], Header = [], ReqBody =
               body\<rparr>)"

definition AddCookie :: "request \<Rightarrow> cookie \<Rightarrow> request" where
  "AddCookie r c = r\<lparr>Cookies := Cookies r @ [c]\<rparr>"

definition Header_Add :: "request \<Rightarrow> string \<Rightarrow> string \<Rightarrow> request" where
  "Header_Add r key v = r\<lparr>Header := Header r @ [(key, v)]\<rparr>"

definition strings_ContainsAny :: "string \<Rightarrow> string \<Rightarrow> bool" where
  "strings_ContainsAny s chars = list_ex (\<lambda>c. c \<in> set chars) s"

text \<open>\<^verbatim>\<open>time.Second\<close>, in nanoseconds.\<close>

definition Second :: "64 word" where
  "Second = 1000000000"

text \<open>\<^verbatim>\<open>len\<close> of a slice; a \<^verbatim>\<open>nil\<close> slice has length 0 and no bytes.\<close>

fun len :: "bytes option \<Rightarrow> nat" where
  "len None = 0"
| "len (Some b) = length b"

fun bytes_of :: "bytes option \<Rightarrow> bytes" where
  "bytes_of None = []"
| "bytes_of (Some b) = b"

section \<open>The dispatcher\<close>

text \<open>
  What a call of \<^verbatim>\<open>sendHttpReq\<close> does and returns: \<open>sent\<close> is the call
  \<^verbatim>\<open>client.Do(request)\<close> it made (\<open>None\<close> when it returned before), the other three
  fields are its results \<^verbatim>\<open>(httpStatus int, buf []byte, err error)\<close>.
\<close>

record send_result =
  sent :: "(client \<times> request) option"
  httpStatus :: int
  buf :: "bytes option"
  err :: "goerror option"

text \<open>
  \<^verbatim>\<open>sendHttpReq\<close> of \<^verbatim>\<open>part_000\<close> (lines 236 to 303). The parameter \<^verbatim>\<open>timeout int\<close> is a
  64-bit integer; \<^verbatim>\<open>time.Duration(timeout) * time.Second\<close> is a product of 64-bit
  integers and wraps around. The variable \<^verbatim>\<open>urlString\<close> is assigned in the query block;
  \<open>urlString'\<close> is its value after the block.
\<close>

definition sendHttpReq_p0 ::
  "'s world \<Rightarrow> string \<Rightarrow> string \<Rightarrow> string \<Rightarrow> bytes \<Rightarrow> gomap \<Rightarrow> cookie option \<Rightarrow>
   transport option \<Rightarrow> 64 word \<Rightarrow> send_result" where
  "sendHttpReq_p0 w method urlString token data headers cookie transport timeout =
    (let defaultTimeout = (if 0 < sint timeout then timeout * Second else 30 * Second);
         client = \<lparr>Timeout = defaultTimeout, Transport = transport\<rparr>
     in
     case http_NewRequest w method urlString data of
       Inl e \<Rightarrow>
         \<lparr>sent = None, httpStatus = 0, buf = None,
          err = Some (ResourceErr \<lparr>URL = urlString, HTTPCode = 0, Message = [], Body = None,
                                   Err = Some e\<rparr>)\<rparr>
     | Inr request0 \<Rightarrow>
        (let request1 = (case cookie of None \<Rightarrow> request0 | Some c \<Rightarrow> AddCookie request0 c);
             request2 = fold (\<lambda>(key, v) r. Header_Add r key v) headers request1;
             request = (if token \<noteq> [] then Header_Add request2 ''Authorization'' token
                        else request2)
         in
         case (if strings_ContainsAny urlString ''?''
               then (case url_Parse w urlString of
                       Inl e \<Rightarrow> Inl e
                     | Inr urlTemp \<Rightarrow>
                         Inr (URL_String w
                               (urlTemp\<lparr>RawQuery := Values_Encode w (URL_Query w urlTemp)\<rparr>)))
               else Inr urlString) of
           Inl e \<Rightarrow>
             \<lparr>sent = None, httpStatus = 0, buf = None,
              err = Some (ResourceErr \<lparr>URL = urlString, HTTPCode = 0, Message = [], Body = None,
                                       Err = Some e\<rparr>)\<rparr>
         | Inr urlString' \<Rightarrow>
            (case client_Do w client request of
               Inl e \<Rightarrow>
                 \<lparr>sent = Some (client, request), httpStatus = 0, buf = None,
                  err = Some (ResourceErr \<lparr>URL = urlString', HTTPCode = 0, Message = [],
                                           Body = None, Err = Some e\<rparr>)\<rparr>
             | Inr response \<Rightarrow>
                (case RespBody response of
                   Inl e \<Rightarrow>
                     \<lparr>sent = Some (client, request), httpStatus = 0, buf = None,
                      err = Some (ResourceErr \<lparr>URL = urlString', HTTPCode = StatusCode response,
                                               Message = [], Body = None, Err = Some e\<rparr>)\<rparr>
                 | Inr b \<Rightarrow>
                     if StatusCode response > 399
                     then \<lparr>sent = Some (client, request), httpStatus = StatusCode response,
                           buf = Some b,
                           err = Some (ResourceErr
                                   \<lparr>URL = urlString', HTTPCode = StatusCode response,
                                    Message = ''incorrect response.StatusCode'',
                                    Body = Some data,
                                    Err = Some (Cause ''incorrect status code'')\<rparr>)\<rparr>
                     else \<lparr>sent = Some (client, request), httpStatus = StatusCode response,
                           buf = Some b, err = None\<rparr>))))"

text \<open>
  \<^verbatim>\<open>sendHttpReq\<close> of \<^verbatim>\<open>part_001\<close> (lines 151 to 212): no timeout parameter, the client
  is built with \<^verbatim>\<open>Timeout: 30 * time.Second\<close>.
\<close>

definition sendHttpReq_p1 ::
  "'s world \<Rightarrow> string \<Rightarrow> string \<Rightarrow> string \<Rightarrow> bytes \<Rightarrow> gomap \<Rightarrow> cookie option \<Rightarrow>
   transport option \<Rightarrow> send_result" where
  "sendHttpReq_p1 w method urlString token data headers cookie transport =
    (let client = \<lparr>Timeout = 30 * Second, Transport = transport\<rparr>
     in
     case http_NewRequest w method urlString data of
       Inl e \<Rightarrow>
         \<lparr>sent = None, httpStatus = 0, buf = None,
          err = Some (ResourceErr \<lparr>URL = urlString, HTTPCode = 0, Message = [], Body = None,
                                   Err = Some e\<rparr>)\<rparr>
     | Inr request0 \<Rightarrow>
        (let request1 = (case cookie of None \<Rightarrow> request0 | Some c \<Rightarrow> AddCookie request0 c);
             request2 = fold (\<lambda>(key, v) r. Header_Add r key v) headers request1;
             request = (if token \<noteq> [] then Header_Add request2 ''Authorization'' token
                        else request2)
         in
         case (if strings_ContainsAny urlString ''?''
               then (case url_Parse w urlString of
                       Inl e \<Rightarrow> Inl e
                     | Inr urlTemp \<Rightarrow>
                         Inr (URL_String w
                               (urlTemp\<lparr>RawQuery := Values_Encode w (URL_Query w urlTemp)\<rparr>)))
               else Inr urlString) of
           Inl e \<Rightarrow>
             \<lparr>sent = None, httpStatus = 0, buf = None,
              err = Some (ResourceErr \<lparr>URL = urlString, HTTPCode = 0, Message = [], Body = None,
                                       Err = Some e\<rparr>)\<rparr>
         | Inr urlString' \<Rightarrow>
            (case client_Do w client request of
               Inl e \<Rightarrow>
                 \<lparr>sent = Some (client, request), httpStatus = 0, buf = None,
                  err = Some (ResourceErr \<lparr>URL = urlString', HTTPCode = 0, Message = [],
                                           Body = None, Err = Some e\<rparr>)\<rparr>
             | Inr response \<Rightarrow>
                (case RespBody response of
                   Inl e \<Rightarrow>
                     \<lparr>sent = Some (client, request), httpStatus = 0, buf = None,
                      err = Some (ResourceErr \<lparr>URL = urlString', HTTPCode = StatusCode response,
                                               Message = [], Body = None, Err = Some e\<rparr>)\<rparr>
                 | Inr b \<Rightarrow>
                     if StatusCode response > 399
                     then \<lparr>sent = Some (client, request), httpStatus = StatusCode response,
                           buf = Some b,
                           err = Some (ResourceErr
                                   \<lparr>URL = urlString', HTTPCode = StatusCode response,
                                    Message = ''incorrect response.StatusCode'',
                                    Body = Some data,
                                    Err = Some (Cause ''incorrect status code'')\<rparr>)\<rparr>
                     else \<lparr>sent = Some (client, request), httpStatus = StatusCode response,
                           buf = Some b, err = None\<rparr>))))"

text \<open>
  \<^verbatim>\<open>sendHttpReq\<close> of \<^verbatim>\<open>http-utils.go\<close> (lines 72 to 123): no token, no transport, no
  timeout; the client is the zero value \<^verbatim>\<open>&http.Client{}\<close>.
\<close>

definition sendHttpReq_hu ::
  "'s world \<Rightarrow> string \<Rightarrow> string \<Rightarrow> bytes \<Rightarrow> gomap \<Rightarrow> cookie option \<Rightarrow> send_result" where
  "sendHttpReq_hu w method urlString data headers cookie =
    (let client = \<lparr>Timeout = 0, Transport = None\<rparr>
     in
     case http_NewRequest w method urlString data of
       Inl e \<Rightarrow>
         \<lparr>sent = None, httpStatus = 0, buf = None,
          err = Some (ResourceErr \<lparr>URL = urlString, HTTPCode = 0, Message = [], Body = None,
                                   Err = Some e\<rparr>)\<rparr>
     | Inr request0 \<Rightarrow>
        (let request1 = (case cookie of None \<Rightarrow> request0 | Some c \<Rightarrow> AddCookie request0 c);
             request = fold (\<lambda>(key, v) r. Header_Add r key v) headers request1
         in
         case (if strings_ContainsAny urlString ''?''
               then (case url_Parse w urlString of
                       Inl e \<Rightarrow> Inl e
                     | Inr urlTemp \<Rightarrow>
                         Inr (URL_String w
                               (urlTemp\<lparr>RawQuery := Values_Encode w (URL_Query w urlTemp)\<rparr>)))
               else Inr urlString) of
           Inl e \<Rightarrow>
             \<lparr>sent = None, httpStatus = 0, buf = None,
              err = Some (ResourceErr \<lparr>URL = urlString, HTTPCode = 0, Message = [], Body = None,
                                       Err = Some e\<rparr>)\<rparr>
         | Inr urlString' \<Rightarrow>
            (case client_Do w client request of
               Inl e \<Rightarrow>
                 \<lparr>sent = Some (client, request), httpStatus = 0, buf = None,
                  err = Some (ResourceErr \<lparr>URL = urlString', HTTPCode = 0, Message = [],
                                           Body = None, Err = Some e\<rparr>)\<rparr>
             | Inr response \<Rightarrow>
                (case RespBody response of
                   Inl e \<Rightarrow>
                     \<lparr>sent = Some (client, request), httpStatus = 0, buf = None,
                      err = Some (ResourceErr \<lparr>URL = urlString', HTTPCode = StatusCode response,
                                               Message = [], Body = None, Err = Some e\<rparr>)\<rparr>
                 | Inr b \<Rightarrow>
                     if StatusCode response > 399
                     then \<lparr>sent = Some (client, request), httpStatus = StatusCode response,
                           buf = Some b,
                           err = Some (ResourceErr
                                   \<lparr>URL = urlString', HTTPCode = StatusCode response,
                                    Message = ''incorrect response.StatusCode'',
                                    Body = Some data,
                                    Err = Some (Cause ''incorrect status code'')\<rparr>)\<rparr>
                     else \<lparr>sent = Some (client, request), httpStatus = StatusCode response,
                           buf = Some b, err = None\<rparr>))))"

section \<open>The entry functions\<close>

text \<open>
  What a call of an entry function does and returns. It extends the dispatcher's record
  (\<open>buf\<close> is the result \<^verbatim>\<open>responseBody\<close>) by the effects the caller can see:
  \<open>headers_after\<close> is the value of the variable \<^verbatim>\<open>headers\<close> when the function returns (the
  caller's own map when one was passed, since a Go map is a reference), \<open>decoded\<close> is
  the call of \<^verbatim>\<open>Unmarshal\<close> the function made (\<open>None\<close> when it made none), and
  \<open>target\<close> is the caller's structure when the function returns.
\<close>

record 's call_result = send_result +
  headers_after :: "gomap option"
  decoded :: "(codec \<times> bytes) option"
  target :: "'s option"

text \<open>\<^verbatim>\<open>return\<close> with the dispatcher's three results, no decoding done.\<close>

definition returning :: "send_result \<Rightarrow> gomap option \<Rightarrow> 's option \<Rightarrow> 's call_result" where
  "returning r h t =
     \<lparr>sent = sent r, httpStatus = httpStatus r, buf = buf r, err = err r,
      headers_after = h, decoded = None, target = t\<rparr>"

text \<open>
  \<^verbatim>\<open>err = json.Unmarshal(responseBody, responseStruct); return\<close> (or the same with
  \<^verbatim>\<open>xml\<close>): the codec's error, \<^verbatim>\<open>nil\<close> or not, replaces \<^verbatim>\<open>err\<close>.
\<close>

definition unmarshalling ::
  "codec \<Rightarrow> (bytes \<Rightarrow> 's option \<Rightarrow> 's option \<times> cause option) \<Rightarrow> send_result \<Rightarrow> gomap option \<Rightarrow>
   's option \<Rightarrow> 's call_result" where
  "unmarshalling cd Unmarshal r h t =
     (case Unmarshal (bytes_of (buf r)) t of
        (t', e) \<Rightarrow>
          \<lparr>sent = sent r, httpStatus = httpStatus r, buf = buf r, err = map_option RawErr e,
           headers_after = h, decoded = Some (cd, bytes_of (buf r)), target = t'\<rparr>)"

subsection \<open>The entry functions of \<^verbatim>\<open>http-utils.go\<close>\<close>

text \<open>\<^verbatim>\<open>HttpReqXML\<close>, lines 32 to 49. The method goes to the dispatcher as the caller gave it.\<close>

definition HttpReqXML_hu ::
  "'s world \<Rightarrow> string \<Rightarrow> string \<Rightarrow> bytes \<Rightarrow> gomap option \<Rightarrow> cookie option \<Rightarrow> 's option \<Rightarrow>
   's call_result" where
  "HttpReqXML_hu w method urlString body headers cookie resultStruct =
    (let headers' = (case headers of
                       None \<Rightarrow> [(''Content-Type'', ''text/xml'')]
                     | Some h \<Rightarrow> AList.update ''Content-Type'' ''text/xml'' h);
         r = sendHttpReq_hu w method urlString body headers' cookie
     in
     if err r \<noteq> None then returning r (Some headers') resultStruct
     else if resultStruct \<noteq> None \<and> len (buf r) > 0
     then unmarshalling XML (xml_Unmarshal w) r (Some headers') resultStruct
     else returning r (Some headers') resultStruct)"

text \<open>\<^verbatim>\<open>HttpReqJSON\<close>, lines 51 to 70.\<close>

definition HttpReqJSON_hu ::
  "'s world \<Rightarrow> string \<Rightarrow> string \<Rightarrow> bytes \<Rightarrow> gomap option \<Rightarrow> cookie option \<Rightarrow> 's option \<Rightarrow>
   's call_result" where
  "HttpReqJSON_hu w method urlString body headers cookie resultStruct =
    (let method' = strings_TrimSpace w (strings_ToUpper w method);
         headers' = (case headers of
                       None \<Rightarrow> [(''Content-Type'', ''application/json'')]
                     | Some h \<Rightarrow> AList.update ''Content-Type'' ''application/json'' h);
         r = sendHttpReq_hu w method' urlString body headers' cookie
     in
     if err r \<noteq> None then returning r (Some headers') resultStruct
     else if resultStruct \<noteq> None \<and> len (buf r) > 0
     then unmarshalling JSON (json_Unmarshal w) r (Some headers') resultStruct
     else returning r (Some headers') resultStruct)"

subsection \<open>The entry functions of \<^verbatim>\<open>part_000\<close>\<close>

text \<open>\<^verbatim>\<open>HttpReqAuthXML\<close>, lines 40 to 58.\<close>

definition HttpReqAuthXML_p0 ::
  "'s world \<Rightarrow> string \<Rightarrow> string \<Rightarrow> string \<Rightarrow> bytes \<Rightarrow> gomap option \<Rightarrow> cookie option \<Rightarrow>
   transport option \<Rightarrow> 64 word \<Rightarrow> 's option \<Rightarrow>
   's call_result" where
  "HttpReqAuthXML_p0 w method urlString token body headers cookie transport timeout responseStruct
      =
    (let method' = strings_TrimSpace w (strings_ToUpper w method);
         headers' = (case headers of
                       None \<Rightarrow> [(''Content-Type'', ''text/xml'')]
                     | Some h \<Rightarrow> AList.update ''Content-Type'' ''text/xml'' h);
         r = sendHttpReq_p0 w method' urlString token body headers' cookie transport timeout
     in
     if err r \<noteq> None then returning r (Some headers') responseStruct
     else if responseStruct \<noteq> None \<and> len (buf r) \<noteq> 0
     then unmarshalling XML (xml_Unmarshal w) r (Some headers') responseStruct
     else returning r (Some headers') responseStruct)"

text \<open>\<^verbatim>\<open>HttpReqAuthJSON\<close>, lines 60 to 78.\<close>

definition HttpReqAuthJSON_p0 ::
  "'s world \<Rightarrow> string \<Rightarrow> string \<Rightarrow> string \<Rightarrow> bytes \<Rightarrow> gomap option \<Rightarrow> cookie option \<Rightarrow>
   transport option \<Rightarrow> 64 word \<Rightarrow> 's option \<Rightarrow>
   's call_result" where
  "HttpReqAuthJSON_p0 w method urlString token body headers cookie transport timeout
      responseStruct =
    (let method' = strings_TrimSpace w (strings_ToUpper w method);
         headers' = (case headers of
                       None \<Rightarrow> [(''Content-Type'', ''application/json'')]
                     | Some h \<Rightarrow> AList.update ''Content-Type'' ''application/json'' h);
         r = sendHttpReq_p0 w method' urlString token body headers' cookie transport timeout
     in
     if err r \<noteq> None then returning r (Some headers') responseStruct
     else if responseStruct \<noteq> None \<and> len (buf r) \<noteq> 0
     then unmarshalling JSON (json_Unmarshal w) r (Some headers') responseStruct
     else returning r (Some headers') responseStruct)"

text \<open>\<^verbatim>\<open>HttpReqXML\<close>, lines 80 to 99.\<close>

definition HttpReqXML_p0 ::
  "'s world \<Rightarrow> string \<Rightarrow> string \<Rightarrow> bytes \<Rightarrow> gomap option \<Rightarrow> cookie option \<Rightarrow>
   transport option \<Rightarrow> 64 word \<Rightarrow> 's option \<Rightarrow>
   's call_result" where
  "HttpReqXML_p0 w method urlString body headers cookie transport timeout responseStruct =
    (let method' = strings_TrimSpace w (strings_ToUpper w method);
         headers' = (case headers of
                       None \<Rightarrow> [(''Content-Type'', ''text/xml'')]
                     | Some h \<Rightarrow> AList.update ''Content-Type'' ''text/xml'' h);
         r = sendHttpReq_p0 w method' urlString [] body headers' cookie transport timeout
     in
     if err r \<noteq> None then returning r (Some headers') responseStruct
     else if responseStruct \<noteq> None \<and> len (buf r) > 0
     then unmarshalling XML (xml_Unmarshal w) r (Some headers') responseStruct
     else returning r (Some headers') responseStruct)"

text \<open>\<^verbatim>\<open>HttpReqJSON\<close>, lines 101 to 120.\<close>

definition HttpReqJSON_p0 ::
  "'s world \<Rightarrow> string \<Rightarrow> string \<Rightarrow> bytes \<Rightarrow> gomap option \<Rightarrow> cookie option \<Rightarrow>
   transport option \<Rightarrow> 64 word \<Rightarrow> 's option \<Rightarrow>
   's call_result" where
  "HttpReqJSON_p0 w method urlString body headers cookie transport timeout responseStruct =
    (let method' = strings_TrimSpace w (strings_ToUpper w method);
         headers' = (case headers of
                       None \<Rightarrow> [(''Content-Type'', ''application/json'')]
                     | Some h \<Rightarrow> AList.update ''Content-Type'' ''application/json'' h);
         r = sendHttpReq_p0 w method' urlString [] body headers' cookie transport timeout
     in
     if err r \<noteq> None then returning r (Some headers') responseStruct
     else if responseStruct \<noteq> None \<and> len (buf r) > 0
     then unmarshalling JSON (json_Unmarshal w) r (Some headers') responseStruct
     else returning r (Some headers') responseStruct)"

text \<open>\<^verbatim>\<open>HttpReqPostFormJSON\<close>, lines 122 to 137.\<close>

definition HttpReqPostFormJSON_p0 ::
  "'s world \<Rightarrow> string \<Rightarrow> bytes \<Rightarrow> gomap option \<Rightarrow> cookie option \<Rightarrow>
   transport option \<Rightarrow> 64 word \<Rightarrow> 's option \<Rightarrow>
   's call_result" where
  "HttpReqPostFormJSON_p0 w urlString body headers cookie transport timeout responseStruct =
    (let headers' = (case headers of
                       None \<Rightarrow> [(''Content-Type'', ''application/x-www-form-urlencoded'')]
                     | Some h \<Rightarrow> AList.update ''Content-Type''
                         ''application/x-www-form-urlencoded'' h);
         r = sendHttpReq_p0 w ''POST'' urlString [] body headers' cookie transport timeout
     in
     if err r \<noteq> None then returning r (Some headers') responseStruct
     else if responseStruct \<noteq> None \<and> len (buf r) \<noteq> 0
     then unmarshalling JSON (json_Unmarshal w) r (Some headers') responseStruct
     else returning r (Some headers') responseStruct)"

text \<open>\<^verbatim>\<open>HttpReqPostFormXML\<close>, lines 139 to 156.\<close>

definition HttpReqPostFormXML_p0 ::
  "'s world \<Rightarrow> string \<Rightarrow> bytes \<Rightarrow> gomap option \<Rightarrow> cookie option \<Rightarrow>
   transport option \<Rightarrow> 64 word \<Rightarrow> 's option \<Rightarrow>
   's call_result" where
  "HttpReqPostFormXML_p0 w urlString body headers cookie transport timeout responseStruct =
    (let headers' = (case headers of
                       None \<Rightarrow> [(''Content-Type'', ''application/x-www-form-urlencoded'')]
                     | Some h \<Rightarrow>
                         (if map_of h ''Content-Type'' = None
                          then AList.update ''Content-Type'' ''application/x-www-form-urlencoded''
                              h
                          else h));
         r = sendHttpReq_p0 w ''POST'' urlString [] body headers' cookie transport timeout
     in
     if err r \<noteq> None then returning r (Some headers') responseStruct
     else if responseStruct \<noteq> None \<and> len (buf r) \<noteq> 0
     then unmarshalling XML (xml_Unmarshal w) r (Some headers') responseStruct
     else returning r (Some headers') responseStruct)"


text \<open>
  \<^verbatim>\<open>HttpReqPostFile\<close>, lines 158 to 191. \<open>paramTexts\<close> is only ranged over, so a \<^verbatim>\<open>nil\<close>
  map is the empty list. The writer is the list of the calls made on it so far; the
  errors of \<^verbatim>\<open>WriteField\<close>, \<^verbatim>\<open>Write\<close> and \<^verbatim>\<open>Close\<close> are dropped by the code.
\<close>

definition HttpReqPostFile_p0 ::
  "'s world \<Rightarrow> string \<Rightarrow> gomap \<Rightarrow> FileItem \<Rightarrow> gomap option \<Rightarrow> cookie option \<Rightarrow>
   transport option \<Rightarrow> 64 word \<Rightarrow> 's option \<Rightarrow>
   's call_result" where
  "HttpReqPostFile_p0 w urlString paramTexts paramFile headers cookie transport timeout
      responseStruct =
    (let writer0 = fold (\<lambda>(k, v) ops. ops @ [WriteField k v]) paramTexts []
     in
     case multipart_CreateFormFile w writer0 (Key paramFile) (FileName paramFile) of
       Some e \<Rightarrow>
         \<lparr>sent = None, httpStatus = 0, buf = None, err = Some (RawErr e),
          headers_after = headers, decoded = None, target = responseStruct\<rparr>
     | None \<Rightarrow>
        (let writer1 = writer0 @ [CreateFormFile (Key paramFile) (FileName paramFile)];
             writer2 = writer1 @ [Write (Content paramFile)];
             headers' = (case headers of
                           None \<Rightarrow> [(''Content-Type'', multipart_FormDataContentType w)]
                         | Some h \<Rightarrow>
                             AList.update ''Content-Type'' (multipart_FormDataContentType w) h);
             writer3 = writer2 @ [Close];
             r = sendHttpReq_p0 w ''POST'' urlString [] (multipart_Bytes w writer3) headers'
                   cookie transport timeout
         in
         if err r \<noteq> None then returning r (Some headers') responseStruct
         else if responseStruct \<noteq> None \<and> len (buf r) > 0
         then unmarshalling JSON (json_Unmarshal w) r (Some headers') responseStruct
         else returning r (Some headers') responseStruct))"

text \<open>\<^verbatim>\<open>httpReqAuthFile\<close>, lines 201 to 234.\<close>

definition httpReqAuthFile_p0 ::
  "'s world \<Rightarrow> string \<Rightarrow> string \<Rightarrow> string \<Rightarrow> gomap \<Rightarrow> FileItem \<Rightarrow> gomap option \<Rightarrow> cookie option \<Rightarrow>
   transport option \<Rightarrow> 64 word \<Rightarrow> 's option \<Rightarrow>
   's call_result" where
  "httpReqAuthFile_p0 w method urlString token paramTexts paramFile headers cookie transport
      timeout responseStruct =
    (let writer0 = fold (\<lambda>(k, v) ops. ops @ [WriteField k v]) paramTexts []
     in
     case multipart_CreateFormFile w writer0 (Key paramFile) (FileName paramFile) of
       Some e \<Rightarrow>
         \<lparr>sent = None, httpStatus = 0, buf = None, err = Some (RawErr e),
          headers_after = headers, decoded = None, target = responseStruct\<rparr>
     | None \<Rightarrow>
        (let writer1 = writer0 @ [CreateFormFile (Key paramFile) (FileName paramFile)];
             writer2 = writer1 @ [Write (Content paramFile)];
             headers' = (case headers of
                           None \<Rightarrow> [(''Content-Type'', multipart_FormDataContentType w)]
                         | Some h \<Rightarrow>
                             AList.update ''Content-Type'' (multipart_FormDataContentType w) h);
             writer3 = writer2 @ [Close];
             r = sendHttpReq_p0 w method urlString token (multipart_Bytes w writer3) headers'
                   cookie transport timeout
         in
         if err r \<noteq> None then returning r (Some headers') responseStruct
         else if responseStruct \<noteq> None \<and> len (buf r) > 0
         then unmarshalling JSON (json_Unmarshal w) r (Some headers') responseStruct
         else returning r (Some headers') responseStruct))"

text \<open>\<^verbatim>\<open>HttpReqAuthPutFile\<close>, lines 193 to 195, and \<^verbatim>\<open>HttpReqAuthPostFile\<close>, lines 197 to 199.\<close>

definition HttpReqAuthPutFile_p0 ::
  "'s world \<Rightarrow> string \<Rightarrow> string \<Rightarrow> gomap \<Rightarrow> FileItem \<Rightarrow> gomap option \<Rightarrow> cookie option \<Rightarrow>
   transport option \<Rightarrow> 64 word \<Rightarrow> 's option \<Rightarrow>
   's call_result" where
  "HttpReqAuthPutFile_p0 w urlString token paramTexts paramFile headers cookie transport timeout
      responseStruct =
     httpReqAuthFile_p0 w ''PUT'' urlString token paramTexts paramFile headers cookie transport
       timeout responseStruct"

definition HttpReqAuthPostFile_p0 ::
  "'s world \<Rightarrow> string \<Rightarrow> string \<Rightarrow> gomap \<Rightarrow> FileItem \<Rightarrow> gomap option \<Rightarrow> cookie option \<Rightarrow>
   transport option \<Rightarrow> 64 word \<Rightarrow> 's option \<Rightarrow>
   's call_result" where
  "HttpReqAuthPostFile_p0 w urlString token paramTexts paramFile headers cookie transport timeout
      responseStruct =
     httpReqAuthFile_p0 w ''POST'' urlString token paramTexts paramFile headers cookie transport
       timeout responseStruct"


subsection \<open>The entry functions of \<^verbatim>\<open>part_001\<close>\<close>

text \<open>\<^verbatim>\<open>HttpReqAuthXML\<close>, lines 33 to 51.\<close>

definition HttpReqAuthXML_p1 ::
  "'s world \<Rightarrow> string \<Rightarrow> string \<Rightarrow> string \<Rightarrow> bytes \<Rightarrow> gomap option \<Rightarrow> cookie option \<Rightarrow>
   transport option \<Rightarrow> 's option \<Rightarrow>
   's call_result" where
  "HttpReqAuthXML_p1 w method urlString token body headers cookie transport responseStruct =
    (let method' = strings_TrimSpace w (strings_ToUpper w method);
         headers' = (case headers of
                       None \<Rightarrow> [(''Content-Type'', ''text/xml'')]
                     | Some h \<Rightarrow> AList.update ''Content-Type'' ''text/xml'' h);
         r = sendHttpReq_p1 w method' urlString token body headers' cookie transport
     in
     if err r \<noteq> None then returning r (Some headers') responseStruct
     else if responseStruct \<noteq> None \<and> len (buf r) \<noteq> 0
     then unmarshalling XML (xml_Unmarshal w) r (Some headers') responseStruct
     else returning r (Some headers') responseStruct)"

text \<open>\<^verbatim>\<open>HttpReqAuthJSON\<close>, lines 53 to 71.\<close>

definition HttpReqAuthJSON_p1 ::
  "'s world \<Rightarrow> string \<Rightarrow> string \<Rightarrow> string \<Rightarrow> bytes \<Rightarrow> gomap option \<Rightarrow> cookie option \<Rightarrow>
   transport option \<Rightarrow> 's option \<Rightarrow>
   's call_result" where
  "HttpReqAuthJSON_p1 w method urlString token body headers cookie transport responseStruct =
    (let method' = strings_TrimSpace w (strings_ToUpper w method);
         headers' = (case headers of
                       None \<Rightarrow> [(''Content-Type'', ''application/json'')]
                     | Some h \<Rightarrow> AList.update ''Content-Type'' ''application/json'' h);
         r = sendHttpReq_p1 w method' urlString token body headers' cookie transport
     in
     if err r \<noteq> None then returning r (Some headers') responseStruct
     else if responseStruct \<noteq> None \<and> len (buf r) \<noteq> 0
     then unmarshalling JSON (json_Unmarshal w) r (Some headers') responseStruct
     else returning r (Some headers') responseStruct)"

text \<open>\<^verbatim>\<open>HttpReqXML\<close>, lines 73 to 92.\<close>

definition HttpReqXML_p1 ::
  "'s world \<Rightarrow> string \<Rightarrow> string \<Rightarrow> bytes \<Rightarrow> gomap option \<Rightarrow> cookie option \<Rightarrow>
   transport option \<Rightarrow> 's option \<Rightarrow>
   's call_result" where
  "HttpReqXML_p1 w method urlString body headers cookie transport resultStruct =
    (let method' = strings_TrimSpace w (strings_ToUpper w method);
         headers' = (case headers of
                       None \<Rightarrow> [(''Content-Type'', ''text/xml'')]
                     | Some h \<Rightarrow> AList.update ''Content-Type'' ''text/xml'' h);
         r = sendHttpReq_p1 w method' urlString [] body headers' cookie transport
     in
     if err r \<noteq> None then returning r (Some headers') resultStruct
     else if resultStruct \<noteq> None \<and> len (buf r) > 0
     then unmarshalling XML (xml_Unmarshal w) r (Some headers') resultStruct
     else returning r (Some headers') resultStruct)"

text \<open>\<^verbatim>\<open>HttpReqJSON\<close>, lines 94 to 113.\<close>

definition HttpReqJSON_p1 ::
  "'s world \<Rightarrow> string \<Rightarrow> string \<Rightarrow> bytes \<Rightarrow> gomap option \<Rightarrow> cookie option \<Rightarrow>
   transport option \<Rightarrow> 's option \<Rightarrow>
   's call_result" where
  "HttpReqJSON_p1 w method urlString body headers cookie transport resultStruct =
    (let method' = strings_TrimSpace w (strings_ToUpper w method);
         headers' = (case headers of
                       None \<Rightarrow> [(''Content-Type'', ''application/json'')]
                     | Some h \<Rightarrow> AList.update ''Content-Type'' ''application/json'' h);
         r = sendHttpReq_p1 w method' urlString [] body headers' cookie transport
     in
     if err r \<noteq> None then returning r (Some headers') resultStruct
     else if resultStruct \<noteq> None \<and> len (buf r) > 0
     then unmarshalling JSON (json_Unmarshal w) r (Some headers') resultStruct
     else returning r (Some headers') resultStruct)"

text \<open>\<^verbatim>\<open>HttpReqPostFormJSON\<close>, lines 115 to 130.\<close>

definition HttpReqPostFormJSON_p1 ::
  "'s world \<Rightarrow> string \<Rightarrow> bytes \<Rightarrow> gomap option \<Rightarrow> cookie option \<Rightarrow>
   transport option \<Rightarrow> 's option \<Rightarrow>
   's call_result" where
  "HttpReqPostFormJSON_p1 w urlString body headers cookie transport responseStruct =
    (let headers' = (case headers of
                       None \<Rightarrow> [(''Content-Type'', ''application/x-www-form-urlencoded'')]
                     | Some h \<Rightarrow> AList.update ''Content-Type''
                         ''application/x-www-form-urlencoded'' h);
         r = sendHttpReq_p1 w ''POST'' urlString [] body headers' cookie transport
     in
     if err r \<noteq> None then returning r (Some headers') responseStruct
     else if responseStruct \<noteq> None \<and> len (buf r) \<noteq> 0
     then unmarshalling JSON (json_Unmarshal w) r (Some headers') responseStruct
     else returning r (Some headers') responseStruct)"

text \<open>\<^verbatim>\<open>HttpReqPostFormXML\<close>, lines 132 to 149.\<close>

definition HttpReqPostFormXML_p1 ::
  "'s world \<Rightarrow> string \<Rightarrow> bytes \<Rightarrow> gomap option \<Rightarrow> cookie option \<Rightarrow>
   transport option \<Rightarrow> 's option \<Rightarrow>
   's call_result" where
  "HttpReqPostFormXML_p1 w urlString body headers cookie transport responseStruct =
    (let headers' = (case headers of
                       None \<Rightarrow> [(''Content-Type'', ''application/x-www-form-urlencoded'')]
                     | Some h \<Rightarrow>
                         (if map_of h ''Content-Type'' = None
                          then AList.update ''Content-Type'' ''application/x-www-form-urlencoded''
                              h
                          else h));
         r = sendHttpReq_p1 w ''POST'' urlString [] body headers' cookie transport
     in
     if err r \<noteq> None then returning r (Some headers') responseStruct
     else if responseStruct \<noteq> None \<and> len (buf r) \<noteq> 0
     then unmarshalling XML (xml_Unmarshal w) r (Some headers') responseStruct
     else returning r (Some headers') responseStruct)"

section \<open>Observations on a call\<close>

text \<open>
  What the network answered to the request a call sent: \<open>None\<close> when the call sent
  nothing, otherwise the result of \<^verbatim>\<open>client.Do\<close>.
\<close>

definition reply :: "'s world \<Rightarrow> 'a send_result_scheme \<Rightarrow> (cause + response) option" where
  "reply w r = (case sent r of None \<Rightarrow> None | Some (c, rq) \<Rightarrow> Some (client_Do w c rq))"

text \<open>
  The status code and the body a server delivered to the call: the request was sent,
  \<^verbatim>\<open>client.Do\<close> gave a response and its body was read to the end.
\<close>

definition served :: "'s world \<Rightarrow> 'a send_result_scheme \<Rightarrow> (int \<times> bytes) option" where
  "served w r =
     (case reply w r of
        Some (Inr resp) \<Rightarrow>
          (case RespBody resp of Inl e \<Rightarrow> None | Inr b \<Rightarrow> Some (StatusCode resp, b))
      | _ \<Rightarrow> None)"

text \<open>
  The value of the variable \<^verbatim>\<open>urlString\<close> after the query block of \<^verbatim>\<open>sendHttpReq\<close>, on
  the paths that go past the block.
\<close>

definition requeried :: "'s world \<Rightarrow> string \<Rightarrow> string" where
  "requeried w urlString =
     (if strings_ContainsAny urlString ''?''
      then (case url_Parse w urlString of
              Inl e \<Rightarrow> urlString
            | Inr urlTemp \<Rightarrow>
                URL_String w (urlTemp\<lparr>RawQuery := Values_Encode w (URL_Query w urlTemp)\<rparr>))
      else urlString)"

text \<open>
  The timeout in seconds that a caller's \<^verbatim>\<open>timeout\<close> stands for: the value itself when it
  is positive, 30 otherwise.
\<close>

definition timeout_seconds :: "64 word \<Rightarrow> int" where
  "timeout_seconds timeout = (if 0 < sint timeout then sint timeout else 30)"

text \<open>
  The rule of the header step: with no map from the caller the headers are the one
  entry for \<open>Content-Type\<close>; with a map, the map has the variant's \<open>Content-Type\<close> and
  every other key as the caller set it.
\<close>

definition content_type_rule :: "string \<Rightarrow> gomap option \<Rightarrow> 's call_result \<Rightarrow> bool" where
  "content_type_rule ct hdrs r =
     (case hdrs of
        None \<Rightarrow> headers_after r = Some [(''Content-Type'', ct)]
      | Some h \<Rightarrow>
          (case headers_after r of
             None \<Rightarrow> False
           | Some h' \<Rightarrow> map_of h' = (map_of h)(''Content-Type'' \<mapsto> ct)))"

text \<open>The rule of \<^verbatim>\<open>HttpReqPostFormXML\<close>: a map that has the key is left as it is.\<close>

definition content_type_if_absent_rule :: "string \<Rightarrow> gomap option \<Rightarrow> 's call_result \<Rightarrow> bool" where
  "content_type_if_absent_rule ct hdrs r =
     (case hdrs of
        None \<Rightarrow> headers_after r = Some [(''Content-Type'', ct)]
      | Some h \<Rightarrow>
          (case headers_after r of
             None \<Rightarrow> False
           | Some h' \<Rightarrow>
               (if map_of h ''Content-Type'' = None
                then map_of h' = (map_of h)(''Content-Type'' \<mapsto> ct)
                else h' = h)))"

text \<open>
  The rule of the decoding step, for a call \<open>r\<close> with the target \<open>t\<close>: \<^verbatim>\<open>Unmarshal\<close> is
  called exactly when a server delivered a status below 400 and a body that is not
  empty and the target is not \<^verbatim>\<open>nil\<close>; it is called on that body and that target, its
  error (or \<^verbatim>\<open>nil\<close>) is the error of the call, and the status of the call is the
  server's.
\<close>

definition decode_rule ::
  "'s world \<Rightarrow> codec \<Rightarrow> (bytes \<Rightarrow> 's option \<Rightarrow> 's option \<times> cause option) \<Rightarrow> 's option \<Rightarrow>
   's call_result \<Rightarrow> bool" where
  "decode_rule w cd Unmarshal t r =
     (case served w r of
        None \<Rightarrow> decoded r = None
      | Some (st, b) \<Rightarrow>
          (if st \<le> 399 \<and> t \<noteq> None \<and> b \<noteq> []
           then decoded r = Some (cd, b) \<and>
                err r = map_option RawErr (snd (Unmarshal b t)) \<and>
                target r = fst (Unmarshal b t) \<and>
                httpStatus r = st \<and> buf r = Some b
           else decoded r = None))"

text \<open>
  The decoding step against the dispatcher's result \<open>r\<close> on the function's inputs, for a
  call \<open>c\<close> with the target \<open>t\<close>: the call sent what the dispatcher sent; when the
  dispatcher returned no error, the target is not \<^verbatim>\<open>nil\<close> and the dispatcher's bytes are
  not empty, \<^verbatim>\<open>Unmarshal\<close> was called on these bytes and the target, its error (or
  \<^verbatim>\<open>nil\<close>) is the error of the call and the status code is the dispatcher's; in every
  other case \<^verbatim>\<open>Unmarshal\<close> was not called and the call returns the dispatcher's three
  results.
\<close>

definition decode_after ::
  "codec \<Rightarrow> (bytes \<Rightarrow> 's option \<Rightarrow> 's option \<times> cause option) \<Rightarrow> 's option \<Rightarrow>
   send_result \<Rightarrow> 's call_result \<Rightarrow> bool" where
  "decode_after cd Unmarshal t r c =
     (sent c = sent r \<and>
      (if err r = None \<and> t \<noteq> None \<and> len (buf r) \<noteq> 0
       then decoded c = Some (cd, bytes_of (buf r)) \<and>
            err c = map_option RawErr (snd (Unmarshal (bytes_of (buf r)) t)) \<and>
            target c = fst (Unmarshal (bytes_of (buf r)) t) \<and>
            httpStatus c = httpStatus r \<and> buf c = buf r
       else decoded c = None \<and> err c = err r \<and> target c = t \<and>
            httpStatus c = httpStatus r \<and> buf c = buf r))"

text \<open>The last statements that all entry functions share, after the dispatcher returned.\<close>

definition finish ::
  "codec \<Rightarrow> (bytes \<Rightarrow> 's option \<Rightarrow> 's option \<times> cause option) \<Rightarrow> send_result \<Rightarrow> gomap option \<Rightarrow>
   's option \<Rightarrow> 's call_result" where
  "finish cd Unmarshal r h t =
     (if err r \<noteq> None then returning r h t
      else if t \<noteq> None \<and> len (buf r) \<noteq> 0 then unmarshalling cd Unmarshal r h t
      else returning r h t)"

section \<open>The dispatcher in parts\<close>

text \<open>
  The three versions of \<^verbatim>\<open>sendHttpReq\<close> differ in the client only. The parts they
  share are named here, for the proofs: the return before anything is sent, the request
  after the cookie, header and token steps, and the statements from \<^verbatim>\<open>client.Do\<close> on.
  Each version is proved equal to their composition below.
\<close>

definition failure :: "string \<Rightarrow> cause \<Rightarrow> send_result" where
  "failure urlString e =
     \<lparr>sent = None, httpStatus = 0, buf = None,
      err = Some (ResourceErr \<lparr>URL = urlString, HTTPCode = 0, Message = [], Body = None,
                               Err = Some e\<rparr>)\<rparr>"

definition equip :: "request \<Rightarrow> cookie option \<Rightarrow> gomap \<Rightarrow> string \<Rightarrow> request" where
  "equip rq0 cookie hdrs token =
     rq0\<lparr>Cookies := Cookies rq0 @ (case cookie of None \<Rightarrow> [] | Some c \<Rightarrow> [c]),
         Header := Header rq0 @ hdrs @ (if token = [] then [] else [(''Authorization'', token)])\<rparr>"

definition after_Do :: "'s world \<Rightarrow> client \<Rightarrow> request \<Rightarrow> string \<Rightarrow> bytes \<Rightarrow> send_result" where
  "after_Do w c rq urlString' data =
     (case client_Do w c rq of
        Inl e \<Rightarrow>
          \<lparr>sent = Some (c, rq), httpStatus = 0, buf = None,
           err = Some (ResourceErr \<lparr>URL = urlString', HTTPCode = 0, Message = [],
                                    Body = None, Err = Some e\<rparr>)\<rparr>
      | Inr resp \<Rightarrow>
          (case RespBody resp of
             Inl e \<Rightarrow>
               \<lparr>sent = Some (c, rq), httpStatus = 0, buf = None,
                err = Some (ResourceErr \<lparr>URL = urlString', HTTPCode = StatusCode resp,
                                         Message = [], Body = None, Err = Some e\<rparr>)\<rparr>
           | Inr b \<Rightarrow>
               if StatusCode resp > 399
               then \<lparr>sent = Some (c, rq), httpStatus = StatusCode resp, buf = Some b,
                     err = Some (ResourceErr
                             \<lparr>URL = urlString', HTTPCode = StatusCode resp,
                              Message = ''incorrect response.StatusCode'',
                              Body = Some data,
                              Err = Some (Cause ''incorrect status code'')\<rparr>)\<rparr>
               else \<lparr>sent = Some (c, rq), httpStatus = StatusCode resp, buf = Some b,
                     err = None\<rparr>))"

text \<open>The header step of every entry function but \<^verbatim>\<open>HttpReqPostFormXML\<close>.\<close>

definition with_content_type :: "string \<Rightarrow> gomap option \<Rightarrow> gomap" where
  "with_content_type ct hdrs =
     (case hdrs of
        None \<Rightarrow> [(''Content-Type'', ct)]
      | Some h \<Rightarrow> AList.update ''Content-Type'' ct h)"

text \<open>The header step of \<^verbatim>\<open>HttpReqPostFormXML\<close>.\<close>

definition with_content_type_if_absent :: "string \<Rightarrow> gomap option \<Rightarrow> gomap" where
  "with_content_type_if_absent ct hdrs =
     (case hdrs of
        None \<Rightarrow> [(''Content-Type'', ct)]
      | Some h \<Rightarrow>
          (if map_of h ''Content-Type'' = None then AList.update ''Content-Type'' ct h else h))"

text \<open>The calls on the multipart writer up to the file part: one field for each text.\<close>

definition text_fields :: "gomap \<Rightarrow> mp_op list" where
  "text_fields paramTexts = map (\<lambda>(k, v). WriteField k v) paramTexts"


section \<open>A small world for evaluation\<close>

text \<open>
  One library and one network on which the functions can be run. It agrees with Go's
  library on the plain ASCII inputs used below: methods and URLs of letters, digits and
  the URL delimiters, query strings with nothing to escape, a JSON or XML boolean as
  the body. The decoding target is a \<open>bool\<close>.
\<close>

definition ascii_upper :: "char \<Rightarrow> char" where
  "ascii_upper c =
     (case map_of (zip ''abcdefghijklmnopqrstuvwxyz'' ''ABCDEFGHIJKLMNOPQRSTUVWXYZ'') c of
        Some u \<Rightarrow> u
      | None \<Rightarrow> c)"

definition ascii_space :: "char \<Rightarrow> bool" where
  "ascii_space c = (c \<in> set [CHR 0x09, CHR 0x0A, CHR 0x0B, CHR 0x0C, CHR 0x0D, CHR 0x20])"

definition ascii_TrimSpace :: "string \<Rightarrow> string" where
  "ascii_TrimSpace s = rev (dropWhile ascii_space (rev (dropWhile ascii_space s)))"

definition cut :: "char \<Rightarrow> string \<Rightarrow> string \<times> string" where
  "cut c s = (takeWhile (\<lambda>x. x \<noteq> c) s, drop 1 (dropWhile (\<lambda>x. x \<noteq> c) s))"

definition is_ctl :: "char \<Rightarrow> bool" where
  "is_ctl c = (of_char c < (32 :: nat) \<or> of_char c = (127 :: nat))"

definition demo_url_Parse :: "string \<Rightarrow> cause + url" where
  "demo_url_Parse s =
     (if list_ex is_ctl s then Inl (Cause ''net/url: invalid control character in URL'')
      else (case cut CHR ''#'' s of (rest, frag) \<Rightarrow>
            (case cut CHR ''?'' rest of (rest', query) \<Rightarrow>
             (case cut CHR '':'' rest' of (sch, hp) \<Rightarrow>
                if take 2 hp = ''//''
                then Inr \<lparr>Scheme = sch, Host = takeWhile (\<lambda>x. x \<noteq> CHR ''/'') (drop 2 hp),
                          Path = dropWhile (\<lambda>x. x \<noteq> CHR ''/'') (drop 2 hp),
                          RawQuery = query, Fragment = frag\<rparr>
                else Inr \<lparr>Scheme = [], Host = [], Path = rest', RawQuery = query,
                          Fragment = frag\<rparr>))))"

fun split_on :: "char \<Rightarrow> string \<Rightarrow> string list" where
  "split_on c [] = [[]]"
| "split_on c (x # xs) =
     (if x = c then [] # split_on c xs
      else (case split_on c xs of [] \<Rightarrow> [[x]] | y # ys \<Rightarrow> (x # y) # ys))"

definition demo_Query :: "url \<Rightarrow> url_values" where
  "demo_Query u =
     fold (\<lambda>kv m. case cut CHR ''='' kv of
                     (k, v) \<Rightarrow>
                       AList.update k ((case map_of m k of None \<Rightarrow> [] | Some vs \<Rightarrow> vs) @ [v]) m)
          (filter (\<lambda>s. s \<noteq> []) (split_on CHR ''&'' (RawQuery u))) []"

fun join :: "string \<Rightarrow> string list \<Rightarrow> string" where
  "join sep [] = []"
| "join sep [x] = x"
| "join sep (x # y # ys) = x @ sep @ join sep (y # ys)"

definition demo_Encode :: "url_values \<Rightarrow> string" where
  "demo_Encode m =
     join ''&'' (concat (map (\<lambda>(k, vs). map (\<lambda>v. k @ ''='' @ v) vs) (sort_key fst m)))"

definition demo_URL_String :: "url \<Rightarrow> string" where
  "demo_URL_String u =
     (if Scheme u = [] then [] else Scheme u @ ''://'') @ Host u @ Path u
     @ (if RawQuery u = [] then [] else ''?'' @ RawQuery u)
     @ (if Fragment u = [] then [] else ''#'' @ Fragment u)"

text \<open>
  The network: the host \<open>down\<close> refuses the connection; on any other host the path
  decides the response.
\<close>

definition demo_Do :: "client \<Rightarrow> request \<Rightarrow> cause + response" where
  "demo_Do c rq =
     (if Host (ReqURL rq) = ''down'' then Inl (Cause ''dial tcp: connection refused'')
      else if Path (ReqURL rq) = ''/missing''
      then Inr \<lparr>StatusCode = 404, RespBody = Inr ''not found''\<rparr>
      else if Path (ReqURL rq) = ''/cut''
      then Inr \<lparr>StatusCode = 200, RespBody = Inl (Cause ''unexpected EOF'')\<rparr>
      else if Path (ReqURL rq) = ''/bad''
      then Inr \<lparr>StatusCode = 200, RespBody = Inr ''tru''\<rparr>
      else if Path (ReqURL rq) = ''/xml''
      then Inr \<lparr>StatusCode = 200, RespBody = Inr ''<Ok>true</Ok>''\<rparr>
      else Inr \<lparr>StatusCode = 200, RespBody = Inr ''true''\<rparr>)"

definition demo_json_Unmarshal :: "bytes \<Rightarrow> bool option \<Rightarrow> bool option \<times> cause option" where
  "demo_json_Unmarshal b t =
     (case t of
        None \<Rightarrow> (None, Some (Cause ''json: Unmarshal(nil)''))
      | Some v \<Rightarrow>
          if b = ''true'' then (Some True, None)
          else if b = ''false'' then (Some False, None)
          else (Some v, Some (Cause ''json: cannot decode the input'')))"

definition demo_xml_Unmarshal :: "bytes \<Rightarrow> bool option \<Rightarrow> bool option \<times> cause option" where
  "demo_xml_Unmarshal b t =
     (case t of
        None \<Rightarrow> (None, Some (Cause ''non-pointer passed to Unmarshal''))
      | Some v \<Rightarrow>
          if b = ''<Ok>true</Ok>'' then (Some True, None)
          else if b = ''<Ok>false</Ok>'' then (Some False, None)
          else (Some v, Some (Cause ''xml: cannot decode the input'')))"

text \<open>
  The multipart writer of \<^verbatim>\<open>mime/multipart\<close> with the boundary \<open>bd\<close>: a part starts with
  the boundary line (after a line break when it is not the first) and its header lines,
  \<^verbatim>\<open>Close\<close> writes the terminator. \<open>started\<close> says that a part was written before.
\<close>

definition crlf :: string where
  "crlf = [CHR 0x0D, CHR 0x0A]"

definition quoted :: "string \<Rightarrow> string" where
  "quoted s = [CHR 0x22] @ s @ [CHR 0x22]"

definition part_start :: "string \<Rightarrow> bool \<Rightarrow> string" where
  "part_start bd started = (if started then crlf else []) @ ''--'' @ bd @ crlf"

fun demo_multipart :: "string \<Rightarrow> bool \<Rightarrow> mp_op list \<Rightarrow> bytes" where
  "demo_multipart bd started [] = []"
| "demo_multipart bd started (WriteField k v # ops) =
     part_start bd started @ ''Content-Disposition: form-data; name='' @ quoted k @ crlf
     @ crlf @ v @ demo_multipart bd True ops"
| "demo_multipart bd started (CreateFormFile k f # ops) =
     part_start bd started @ ''Content-Disposition: form-data; name='' @ quoted k
     @ ''; filename='' @ quoted f @ crlf @ ''Content-Type: application/octet-stream'' @ crlf
     @ crlf @ demo_multipart bd True ops"
| "demo_multipart bd started (Write c # ops) = c @ demo_multipart bd started ops"
| "demo_multipart bd started (Close # ops) =
     crlf @ ''--'' @ bd @ ''--'' @ crlf @ demo_multipart bd started ops"

definition demo :: "bool world" where
  "demo =
     \<lparr>strings_ToUpper = map ascii_upper,
      strings_TrimSpace = ascii_TrimSpace,
      url_Parse = demo_url_Parse,
      URL_Query = demo_Query,
      Values_Encode = demo_Encode,
      URL_String = demo_URL_String,
      client_Do = demo_Do,
      json_Unmarshal = demo_json_Unmarshal,
      xml_Unmarshal = demo_xml_Unmarshal,
      multipart_CreateFormFile = (\<lambda>ops key name. None),
      multipart_FormDataContentType = ''multipart/form-data; boundary=b0b0'',
      multipart_Bytes = demo_multipart ''b0b0'' False\<rparr>"

section \<open>The dispatcher, path by path\<close>

text \<open>
  The request that \<^verbatim>\<open>http.NewRequest\<close> returns holds the parse of the URL string, so
  the second parse of the same string in the query block gives the same URL.
\<close>

lemma NewRequest_Parse:
  "http_NewRequest w m u d = Inr rq \<Longrightarrow> url_Parse w u = Inr (ReqURL rq)"
  by (auto simp: http_NewRequest_def Let_def split: if_splits sum.splits)

lemma fold_Header_Add:
  "fold (\<lambda>(key, v) r. Header_Add r key v) hdrs r = r\<lparr>Header := Header r @ hdrs\<rparr>"
  by (induction hdrs arbitrary: r) (auto simp: Header_Add_def)

lemma request_steps:
  "(if tok \<noteq> []
    then Header_Add (fold (\<lambda>(key, v) r. Header_Add r key v) h
           (case ck of None \<Rightarrow> rq0 | Some c \<Rightarrow> AddCookie rq0 c)) ''Authorization'' tok
    else fold (\<lambda>(key, v) r. Header_Add r key v) h
           (case ck of None \<Rightarrow> rq0 | Some c \<Rightarrow> AddCookie rq0 c))
   = equip rq0 ck h tok"
  by (cases ck; simp only: fold_Header_Add option.case)
    (simp_all add: Header_Add_def AddCookie_def equip_def)

lemma request_steps_hu:
  "fold (\<lambda>(key, v) r. Header_Add r key v) h
     (case ck of None \<Rightarrow> rq0 | Some c \<Rightarrow> AddCookie rq0 c)
   = equip rq0 ck h []"
  by (cases ck; simp only: fold_Header_Add option.case)
    (simp_all add: Header_Add_def AddCookie_def equip_def)

lemma sendHttpReq_p0_eq:
  "sendHttpReq_p0 w m u tok d h ck tr tmo =
     (case http_NewRequest w m u d of
        Inl e \<Rightarrow> failure u e
      | Inr rq0 \<Rightarrow>
          after_Do w \<lparr>Timeout = (if 0 < sint tmo then tmo * Second else 30 * Second),
                      Transport = tr\<rparr>
            (equip rq0 ck h tok) (requeried w u) d)"
proof (cases "http_NewRequest w m u d")
  case (Inl e)
  then show ?thesis by (simp add: sendHttpReq_p0_def failure_def)
next
  case (Inr rq0)
  have p: "url_Parse w u = Inr (ReqURL rq0)" by (rule NewRequest_Parse [OF Inr])
  show ?thesis
    apply (simp only: sendHttpReq_p0_def Let_def Inr sum.case request_steps p requeried_def
        after_Do_def)
    apply (cases "strings_ContainsAny u ''?''")
     apply (simp_all only: if_True if_False sum.case)
    done
qed

lemma sendHttpReq_p1_eq:
  "sendHttpReq_p1 w m u tok d h ck tr =
     (case http_NewRequest w m u d of
        Inl e \<Rightarrow> failure u e
      | Inr rq0 \<Rightarrow>
          after_Do w \<lparr>Timeout = 30 * Second, Transport = tr\<rparr>
            (equip rq0 ck h tok) (requeried w u) d)"
proof (cases "http_NewRequest w m u d")
  case (Inl e)
  then show ?thesis by (simp add: sendHttpReq_p1_def failure_def)
next
  case (Inr rq0)
  have p: "url_Parse w u = Inr (ReqURL rq0)" by (rule NewRequest_Parse [OF Inr])
  show ?thesis
    apply (simp only: sendHttpReq_p1_def Let_def Inr sum.case request_steps p requeried_def
        after_Do_def)
    apply (cases "strings_ContainsAny u ''?''")
     apply (simp_all only: if_True if_False sum.case)
    done
qed

lemma sendHttpReq_hu_eq:
  "sendHttpReq_hu w m u d h ck =
     (case http_NewRequest w m u d of
        Inl e \<Rightarrow> failure u e
      | Inr rq0 \<Rightarrow>
          after_Do w \<lparr>Timeout = 0, Transport = None\<rparr>
            (equip rq0 ck h []) (requeried w u) d)"
proof (cases "http_NewRequest w m u d")
  case (Inl e)
  then show ?thesis by (simp add: sendHttpReq_hu_def failure_def)
next
  case (Inr rq0)
  have p: "url_Parse w u = Inr (ReqURL rq0)" by (rule NewRequest_Parse [OF Inr])
  show ?thesis
    apply (simp only: sendHttpReq_hu_def Let_def Inr sum.case request_steps_hu p requeried_def
        after_Do_def)
    apply (cases "strings_ContainsAny u ''?''")
     apply (simp_all only: if_True if_False sum.case)
    done
qed

lemma sent_failure: "sent (failure u e) = None"
  by (simp add: failure_def)

lemma sent_after_Do: "sent (after_Do w c rq u' d) = Some (c, rq)"
  by (simp add: after_Do_def split: sum.splits)

lemma reply_failure: "reply w (failure u e) = None"
  by (simp add: reply_def failure_def)

lemma reply_after_Do: "reply w (after_Do w c rq u' d) = Some (client_Do w c rq)"
  by (simp add: reply_def sent_after_Do)

lemma served_failure: "served w (failure u e) = None"
  by (simp add: served_def reply_failure)

lemma sent_returning: "sent (returning r h t) = sent r"
  by (simp add: returning_def)

lemma sent_unmarshalling: "sent (unmarshalling cd U r h t) = sent r"
  by (simp add: unmarshalling_def split: prod.splits)

lemma sent_finish: "sent (finish cd U r h t) = sent r"
  by (simp add: finish_def sent_returning sent_unmarshalling)

lemma headers_after_finish: "headers_after (finish cd U r h t) = h"
  by (simp add: finish_def returning_def unmarshalling_def split: prod.splits)

lemma reply_finish: "reply w (finish cd U r h t) = reply w r"
  by (simp add: reply_def sent_finish)

lemma served_finish: "served w (finish cd U r h t) = served w r"
  by (simp add: served_def reply_finish)

lemma served_after_Do:
  "served w (after_Do w c rq u' d) =
     (case client_Do w c rq of
        Inl e \<Rightarrow> None
      | Inr resp \<Rightarrow>
          (case RespBody resp of Inl e \<Rightarrow> None | Inr b \<Rightarrow> Some (StatusCode resp, b)))"
  by (simp add: served_def reply_after_Do)

lemma decode_rule_failure: "decode_rule w cd U t (finish cd U (failure u e) h t)"
  unfolding decode_rule_def served_finish served_failure
  by (simp add: finish_def failure_def returning_def)

lemma decode_rule_after_Do: "decode_rule w cd U t (finish cd U (after_Do w c rq u' d) h t)"
proof (cases "client_Do w c rq")
  case (Inl e)
  then show ?thesis
    unfolding decode_rule_def served_finish served_after_Do
    by (simp add: finish_def after_Do_def returning_def)
next
  case (Inr resp)
  show ?thesis
  proof (cases "RespBody resp")
    case (Inl e)
    with Inr show ?thesis
      unfolding decode_rule_def served_finish served_after_Do
      by (simp add: finish_def after_Do_def returning_def)
  next
    case body: (Inr b)
    with Inr show ?thesis
      unfolding decode_rule_def served_finish served_after_Do
      by (auto simp: finish_def after_Do_def returning_def unmarshalling_def split: prod.splits)
  qed
qed

lemma decode_rule_p0:
  "decode_rule w cd U t (finish cd U (sendHttpReq_p0 w m u tok d hs ck tr tmo) h t)"
  by (cases "http_NewRequest w m u d")
    (simp_all only: sendHttpReq_p0_eq sum.case decode_rule_failure decode_rule_after_Do)

lemma decode_rule_p1:
  "decode_rule w cd U t (finish cd U (sendHttpReq_p1 w m u tok d hs ck tr) h t)"
  by (cases "http_NewRequest w m u d")
    (simp_all only: sendHttpReq_p1_eq sum.case decode_rule_failure decode_rule_after_Do)

lemma decode_rule_hu:
  "decode_rule w cd U t (finish cd U (sendHttpReq_hu w m u d hs ck) h t)"
  by (cases "http_NewRequest w m u d")
    (simp_all only: sendHttpReq_hu_eq sum.case decode_rule_failure decode_rule_after_Do)

lemma content_type_rule_with:
  "headers_after r = Some (with_content_type ct hdrs) \<Longrightarrow> content_type_rule ct hdrs r"
  by (cases hdrs) (simp_all add: content_type_rule_def with_content_type_def update_conv')

lemma content_type_if_absent_rule_with:
  "headers_after r = Some (with_content_type_if_absent ct hdrs) \<Longrightarrow>
   content_type_if_absent_rule ct hdrs r"
  by (cases hdrs)
    (simp_all add: content_type_if_absent_rule_def with_content_type_if_absent_def update_conv')

lemma fold_WriteField:
  "fold (\<lambda>(k, v) ops. ops @ [WriteField k v]) ps acc = acc @ text_fields ps"
  by (induction ps arbitrary: acc) (auto simp: text_fields_def)

section \<open>The entry functions as dispatcher call and decoding step\<close>

lemma HttpReqXML_hu_eq:
  "HttpReqXML_hu w m u b hs ck rs =
     finish XML (xml_Unmarshal w)
       (sendHttpReq_hu w m u b (with_content_type ''text/xml'' hs) ck)
       (Some (with_content_type ''text/xml'' hs)) rs"
  by (simp add: HttpReqXML_hu_def finish_def with_content_type_def Let_def)

lemma HttpReqJSON_hu_eq:
  "HttpReqJSON_hu w m u b hs ck rs =
     finish JSON (json_Unmarshal w)
       (sendHttpReq_hu w (strings_TrimSpace w (strings_ToUpper w m)) u b (with_content_type
           ''application/json'' hs) ck)
       (Some (with_content_type ''application/json'' hs)) rs"
  by (simp add: HttpReqJSON_hu_def finish_def with_content_type_def Let_def)

lemma HttpReqAuthXML_p0_eq:
  "HttpReqAuthXML_p0 w m u tok b hs ck tr tmo rs =
     finish XML (xml_Unmarshal w)
       (sendHttpReq_p0 w (strings_TrimSpace w (strings_ToUpper w m)) u tok b (with_content_type
           ''text/xml'' hs) ck tr tmo)
       (Some (with_content_type ''text/xml'' hs)) rs"
  by (simp add: HttpReqAuthXML_p0_def finish_def with_content_type_def Let_def)

lemma HttpReqAuthJSON_p0_eq:
  "HttpReqAuthJSON_p0 w m u tok b hs ck tr tmo rs =
     finish JSON (json_Unmarshal w)
       (sendHttpReq_p0 w (strings_TrimSpace w (strings_ToUpper w m)) u tok b (with_content_type
           ''application/json'' hs) ck tr tmo)
       (Some (with_content_type ''application/json'' hs)) rs"
  by (simp add: HttpReqAuthJSON_p0_def finish_def with_content_type_def Let_def)

lemma HttpReqXML_p0_eq:
  "HttpReqXML_p0 w m u b hs ck tr tmo rs =
     finish XML (xml_Unmarshal w)
       (sendHttpReq_p0 w (strings_TrimSpace w (strings_ToUpper w m)) u [] b (with_content_type
           ''text/xml'' hs) ck tr tmo)
       (Some (with_content_type ''text/xml'' hs)) rs"
  by (simp add: HttpReqXML_p0_def finish_def with_content_type_def Let_def)

lemma HttpReqJSON_p0_eq:
  "HttpReqJSON_p0 w m u b hs ck tr tmo rs =
     finish JSON (json_Unmarshal w)
       (sendHttpReq_p0 w (strings_TrimSpace w (strings_ToUpper w m)) u [] b (with_content_type
           ''application/json'' hs) ck tr tmo)
       (Some (with_content_type ''application/json'' hs)) rs"
  by (simp add: HttpReqJSON_p0_def finish_def with_content_type_def Let_def)

lemma HttpReqPostFormJSON_p0_eq:
  "HttpReqPostFormJSON_p0 w u b hs ck tr tmo rs =
     finish JSON (json_Unmarshal w)
       (sendHttpReq_p0 w ''POST'' u [] b (with_content_type ''application/x-www-form-urlencoded''
           hs) ck tr tmo)
       (Some (with_content_type ''application/x-www-form-urlencoded'' hs)) rs"
  by (simp add: HttpReqPostFormJSON_p0_def finish_def with_content_type_def Let_def)

lemma HttpReqPostFormXML_p0_eq:
  "HttpReqPostFormXML_p0 w u b hs ck tr tmo rs =
     finish XML (xml_Unmarshal w)
       (sendHttpReq_p0 w ''POST'' u [] b (with_content_type_if_absent
           ''application/x-www-form-urlencoded'' hs) ck tr tmo)
       (Some (with_content_type_if_absent ''application/x-www-form-urlencoded'' hs)) rs"
  by (simp add: HttpReqPostFormXML_p0_def finish_def with_content_type_if_absent_def Let_def)

lemma HttpReqAuthXML_p1_eq:
  "HttpReqAuthXML_p1 w m u tok b hs ck tr rs =
     finish XML (xml_Unmarshal w)
       (sendHttpReq_p1 w (strings_TrimSpace w (strings_ToUpper w m)) u tok b (with_content_type
           ''text/xml'' hs) ck tr)
       (Some (with_content_type ''text/xml'' hs)) rs"
  by (simp add: HttpReqAuthXML_p1_def finish_def with_content_type_def Let_def)

lemma HttpReqAuthJSON_p1_eq:
  "HttpReqAuthJSON_p1 w m u tok b hs ck tr rs =
     finish JSON (json_Unmarshal w)
       (sendHttpReq_p1 w (strings_TrimSpace w (strings_ToUpper w m)) u tok b (with_content_type
           ''application/json'' hs) ck tr)
       (Some (with_content_type ''application/json'' hs)) rs"
  by (simp add: HttpReqAuthJSON_p1_def finish_def with_content_type_def Let_def)

lemma HttpReqXML_p1_eq:
  "HttpReqXML_p1 w m u b hs ck tr rs =
     finish XML (xml_Unmarshal w)
       (sendHttpReq_p1 w (strings_TrimSpace w (strings_ToUpper w m)) u [] b (with_content_type
           ''text/xml'' hs) ck tr)
       (Some (with_content_type ''text/xml'' hs)) rs"
  by (simp add: HttpReqXML_p1_def finish_def with_content_type_def Let_def)

lemma HttpReqJSON_p1_eq:
  "HttpReqJSON_p1 w m u b hs ck tr rs =
     finish JSON (json_Unmarshal w)
       (sendHttpReq_p1 w (strings_TrimSpace w (strings_ToUpper w m)) u [] b (with_content_type
           ''application/json'' hs) ck tr)
       (Some (with_content_type ''application/json'' hs)) rs"
  by (simp add: HttpReqJSON_p1_def finish_def with_content_type_def Let_def)

lemma HttpReqPostFormJSON_p1_eq:
  "HttpReqPostFormJSON_p1 w u b hs ck tr rs =
     finish JSON (json_Unmarshal w)
       (sendHttpReq_p1 w ''POST'' u [] b (with_content_type ''application/x-www-form-urlencoded''
           hs) ck tr)
       (Some (with_content_type ''application/x-www-form-urlencoded'' hs)) rs"
  by (simp add: HttpReqPostFormJSON_p1_def finish_def with_content_type_def Let_def)

lemma HttpReqPostFormXML_p1_eq:
  "HttpReqPostFormXML_p1 w u b hs ck tr rs =
     finish XML (xml_Unmarshal w)
       (sendHttpReq_p1 w ''POST'' u [] b (with_content_type_if_absent
           ''application/x-www-form-urlencoded'' hs) ck tr)
       (Some (with_content_type_if_absent ''application/x-www-form-urlencoded'' hs)) rs"
  by (simp add: HttpReqPostFormXML_p1_def finish_def with_content_type_if_absent_def Let_def)

lemma HttpReqPostFile_p0_eq:
  "multipart_CreateFormFile w (text_fields ps) (Key pf) (FileName pf) = None \<Longrightarrow>
   HttpReqPostFile_p0 w u ps pf hs ck tr tmo rs =
     finish JSON (json_Unmarshal w)
       (sendHttpReq_p0 w ''POST'' u [] (multipart_Bytes w (text_fields ps @ [CreateFormFile (Key
           pf) (FileName pf), Write (Content pf), Close])) (with_content_type
           (multipart_FormDataContentType w) hs) ck tr tmo)
       (Some (with_content_type (multipart_FormDataContentType w) hs)) rs"
  by (simp add: HttpReqPostFile_p0_def finish_def with_content_type_def Let_def fold_WriteField)

lemma HttpReqPostFile_p0_early:
  "multipart_CreateFormFile w (text_fields ps) (Key pf) (FileName pf) = Some e \<Longrightarrow>
   HttpReqPostFile_p0 w u ps pf hs ck tr tmo rs =
     \<lparr>sent = None, httpStatus = 0, buf = None, err = Some (RawErr e),
      headers_after = hs, decoded = None, target = rs\<rparr>"
  by (simp add: HttpReqPostFile_p0_def Let_def fold_WriteField)

lemma httpReqAuthFile_p0_eq:
  "multipart_CreateFormFile w (text_fields ps) (Key pf) (FileName pf) = None \<Longrightarrow>
   httpReqAuthFile_p0 w m u tok ps pf hs ck tr tmo rs =
     finish JSON (json_Unmarshal w)
       (sendHttpReq_p0 w m u tok (multipart_Bytes w (text_fields ps @ [CreateFormFile (Key pf)
           (FileName pf), Write (Content pf), Close])) (with_content_type
           (multipart_FormDataContentType w) hs) ck tr tmo)
       (Some (with_content_type (multipart_FormDataContentType w) hs)) rs"
  by (simp add: httpReqAuthFile_p0_def finish_def with_content_type_def Let_def fold_WriteField)

lemma httpReqAuthFile_p0_early:
  "multipart_CreateFormFile w (text_fields ps) (Key pf) (FileName pf) = Some e \<Longrightarrow>
   httpReqAuthFile_p0 w m u tok ps pf hs ck tr tmo rs =
     \<lparr>sent = None, httpStatus = 0, buf = None, err = Some (RawErr e),
      headers_after = hs, decoded = None, target = rs\<rparr>"
  by (simp add: httpReqAuthFile_p0_def Let_def fold_WriteField)

lemma HttpReqAuthPutFile_p0_eq:
  "multipart_CreateFormFile w (text_fields ps) (Key pf) (FileName pf) = None \<Longrightarrow>
   HttpReqAuthPutFile_p0 w u tok ps pf hs ck tr tmo rs =
     finish JSON (json_Unmarshal w)
       (sendHttpReq_p0 w ''PUT'' u tok (multipart_Bytes w (text_fields ps @ [CreateFormFile (Key
           pf) (FileName pf), Write (Content pf), Close])) (with_content_type
           (multipart_FormDataContentType w) hs) ck tr tmo)
       (Some (with_content_type (multipart_FormDataContentType w) hs)) rs"
  by (simp add: HttpReqAuthPutFile_p0_def httpReqAuthFile_p0_eq)

lemma HttpReqAuthPutFile_p0_early:
  "multipart_CreateFormFile w (text_fields ps) (Key pf) (FileName pf) = Some e \<Longrightarrow>
   HttpReqAuthPutFile_p0 w u tok ps pf hs ck tr tmo rs =
     \<lparr>sent = None, httpStatus = 0, buf = None, err = Some (RawErr e),
      headers_after = hs, decoded = None, target = rs\<rparr>"
  by (simp add: HttpReqAuthPutFile_p0_def httpReqAuthFile_p0_early)

lemma HttpReqAuthPostFile_p0_eq:
  "multipart_CreateFormFile w (text_fields ps) (Key pf) (FileName pf) = None \<Longrightarrow>
   HttpReqAuthPostFile_p0 w u tok ps pf hs ck tr tmo rs =
     finish JSON (json_Unmarshal w)
       (sendHttpReq_p0 w ''POST'' u tok (multipart_Bytes w (text_fields ps @ [CreateFormFile (Key
           pf) (FileName pf), Write (Content pf), Close])) (with_content_type
           (multipart_FormDataContentType w) hs) ck tr tmo)
       (Some (with_content_type (multipart_FormDataContentType w) hs)) rs"
  by (simp add: HttpReqAuthPostFile_p0_def httpReqAuthFile_p0_eq)

lemma HttpReqAuthPostFile_p0_early:
  "multipart_CreateFormFile w (text_fields ps) (Key pf) (FileName pf) = Some e \<Longrightarrow>
   HttpReqAuthPostFile_p0 w u tok ps pf hs ck tr tmo rs =
     \<lparr>sent = None, httpStatus = 0, buf = None, err = Some (RawErr e),
      headers_after = hs, decoded = None, target = rs\<rparr>"
  by (simp add: HttpReqAuthPostFile_p0_def httpReqAuthFile_p0_early)

section \<open>The claims on the dispatcher\<close>

text \<open>
  A call that sent its request went through \<^verbatim>\<open>client.Do\<close>; what it returns is fixed by
  the answer.
\<close>

lemma reply_cases_p0:
  assumes "reply w (sendHttpReq_p0 w m u tok d h ck tr tmo) = Some x"
  obtains c rq where "sendHttpReq_p0 w m u tok d h ck tr tmo = after_Do w c rq (requeried w u) d"
    and "client_Do w c rq = x"
  using assms
  by (cases "http_NewRequest w m u d")
    (auto simp: sendHttpReq_p0_eq reply_failure reply_after_Do)

lemma reply_cases_p1:
  assumes "reply w (sendHttpReq_p1 w m u tok d h ck tr) = Some x"
  obtains c rq where "sendHttpReq_p1 w m u tok d h ck tr = after_Do w c rq (requeried w u) d"
    and "client_Do w c rq = x"
  using assms
  by (cases "http_NewRequest w m u d")
    (auto simp: sendHttpReq_p1_eq reply_failure reply_after_Do)

lemma reply_cases_hu:
  assumes "reply w (sendHttpReq_hu w m u d h ck) = Some x"
  obtains c rq where "sendHttpReq_hu w m u d h ck = after_Do w c rq (requeried w u) d"
    and "client_Do w c rq = x"
  using assms
  by (cases "http_NewRequest w m u d")
    (auto simp: sendHttpReq_hu_eq reply_failure reply_after_Do)

lemma after_Do_transport_error:
  "client_Do w c rq = Inl e \<Longrightarrow>
   after_Do w c rq u' d =
     \<lparr>sent = Some (c, rq), httpStatus = 0, buf = None,
      err = Some (ResourceErr \<lparr>URL = u', HTTPCode = 0, Message = [], Body = None,
                               Err = Some e\<rparr>)\<rparr>"
  by (simp add: after_Do_def)

lemma after_Do_read_error:
  "client_Do w c rq = Inr resp \<Longrightarrow> RespBody resp = Inl e \<Longrightarrow>
   after_Do w c rq u' d =
     \<lparr>sent = Some (c, rq), httpStatus = 0, buf = None,
      err = Some (ResourceErr \<lparr>URL = u', HTTPCode = StatusCode resp, Message = [],
                               Body = None, Err = Some e\<rparr>)\<rparr>"
  by (simp add: after_Do_def)

lemma after_Do_bad_status:
  "client_Do w c rq = Inr resp \<Longrightarrow> RespBody resp = Inr b \<Longrightarrow> 400 \<le> StatusCode resp \<Longrightarrow>
   after_Do w c rq u' d =
     \<lparr>sent = Some (c, rq), httpStatus = StatusCode resp, buf = Some b,
      err = Some (ResourceErr \<lparr>URL = u', HTTPCode = StatusCode resp,
                               Message = ''incorrect response.StatusCode'', Body = Some d,
                               Err = Some (Cause ''incorrect status code'')\<rparr>)\<rparr>"
  by (simp add: after_Do_def)

text \<open>The definitions that evaluate a call in the small world.\<close>

lemmas demo_eval =
  http_NewRequest_def validMethod_def isToken_def demo_def demo_url_Parse_def cut_def is_ctl_def
  demo_Do_def after_Do_def equip_def requeried_def strings_ContainsAny_def failure_def
  demo_Query_def demo_Encode_def demo_URL_String_def Second_def reply_def


text \<open>
  C2. When the server answers with a status code of 400 or more and the body is read,
  every version of \<^verbatim>\<open>sendHttpReq\<close> returns that status code, the bytes of the response
  body, and a \<^verbatim>\<open>ResourceError\<close> whose \<open>Body\<close> is the request body \<open>d\<close> as a string
  and whose \<open>Message\<close> is \<open>incorrect response.StatusCode\<close>; the content of the response
  plays no part.
\<close>

theorem status_over_399_is_error:
  "(reply w (sendHttpReq_p0 w m u tok d h ck tr tmo) = Some (Inr resp) \<and>
    RespBody resp = Inr b \<and> 400 \<le> StatusCode resp \<longrightarrow>
    (\<exists>c rq. sendHttpReq_p0 w m u tok d h ck tr tmo =
       \<lparr>sent = Some (c, rq), httpStatus = StatusCode resp, buf = Some b,
        err = Some (ResourceErr \<lparr>URL = requeried w u, HTTPCode = StatusCode resp,
          Message = ''incorrect response.StatusCode'', Body = Some d,
          Err = Some (Cause ''incorrect status code'')\<rparr>)\<rparr>))
   \<and>
   (reply w (sendHttpReq_p1 w m u tok d h ck tr) = Some (Inr resp) \<and>
    RespBody resp = Inr b \<and> 400 \<le> StatusCode resp \<longrightarrow>
    (\<exists>c rq. sendHttpReq_p1 w m u tok d h ck tr =
       \<lparr>sent = Some (c, rq), httpStatus = StatusCode resp, buf = Some b,
        err = Some (ResourceErr \<lparr>URL = requeried w u, HTTPCode = StatusCode resp,
          Message = ''incorrect response.StatusCode'', Body = Some d,
          Err = Some (Cause ''incorrect status code'')\<rparr>)\<rparr>))
   \<and>
   (reply w (sendHttpReq_hu w m u d h ck) = Some (Inr resp) \<and>
    RespBody resp = Inr b \<and> 400 \<le> StatusCode resp \<longrightarrow>
    (\<exists>c rq. sendHttpReq_hu w m u d h ck =
       \<lparr>sent = Some (c, rq), httpStatus = StatusCode resp, buf = Some b,
        err = Some (ResourceErr \<lparr>URL = requeried w u, HTTPCode = StatusCode resp,
          Message = ''incorrect response.StatusCode'', Body = Some d,
          Err = Some (Cause ''incorrect status code'')\<rparr>)\<rparr>))"
proof (intro conjI impI; elim conjE)
  assume "reply w (sendHttpReq_p0 w m u tok d h ck tr tmo) = Some (Inr resp)"
    and b: "RespBody resp = Inr b" "400 \<le> StatusCode resp"
  then obtain c rq
    where "sendHttpReq_p0 w m u tok d h ck tr tmo = after_Do w c rq (requeried w u) d"
      and "client_Do w c rq = Inr resp"
    by (auto elim: reply_cases_p0)
  with b show "\<exists>c rq. sendHttpReq_p0 w m u tok d h ck tr tmo =
       \<lparr>sent = Some (c, rq), httpStatus = StatusCode resp, buf = Some b,
        err = Some (ResourceErr \<lparr>URL = requeried w u, HTTPCode = StatusCode resp,
          Message = ''incorrect response.StatusCode'', Body = Some d,
          Err = Some (Cause ''incorrect status code'')\<rparr>)\<rparr>"
    by (auto simp only: after_Do_bad_status)
next
  assume "reply w (sendHttpReq_p1 w m u tok d h ck tr) = Some (Inr resp)"
    and b: "RespBody resp = Inr b" "400 \<le> StatusCode resp"
  then obtain c rq
    where "sendHttpReq_p1 w m u tok d h ck tr = after_Do w c rq (requeried w u) d"
      and "client_Do w c rq = Inr resp"
    by (auto elim: reply_cases_p1)
  with b show "\<exists>c rq. sendHttpReq_p1 w m u tok d h ck tr =
       \<lparr>sent = Some (c, rq), httpStatus = StatusCode resp, buf = Some b,
        err = Some (ResourceErr \<lparr>URL = requeried w u, HTTPCode = StatusCode resp,
          Message = ''incorrect response.StatusCode'', Body = Some d,
          Err = Some (Cause ''incorrect status code'')\<rparr>)\<rparr>"
    by (auto simp only: after_Do_bad_status)
next
  assume "reply w (sendHttpReq_hu w m u d h ck) = Some (Inr resp)"
    and b: "RespBody resp = Inr b" "400 \<le> StatusCode resp"
  then obtain c rq
    where "sendHttpReq_hu w m u d h ck = after_Do w c rq (requeried w u) d"
      and "client_Do w c rq = Inr resp"
    by (auto elim: reply_cases_hu)
  with b show "\<exists>c rq. sendHttpReq_hu w m u d h ck =
       \<lparr>sent = Some (c, rq), httpStatus = StatusCode resp, buf = Some b,
        err = Some (ResourceErr \<lparr>URL = requeried w u, HTTPCode = StatusCode resp,
          Message = ''incorrect response.StatusCode'', Body = Some d,
          Err = Some (Cause ''incorrect status code'')\<rparr>)\<rparr>"
    by (auto simp only: after_Do_bad_status)
qed

theorem status_over_399_is_error_witness:
  "reply demo (sendHttpReq_p0 demo ''GET'' ''http://h/missing'' [] ''ping'' [] None None 0) =
     Some (Inr \<lparr>StatusCode = 404, RespBody = Inr ''not found''\<rparr>)
   \<and>
   (\<exists>c rq. sendHttpReq_p0 demo ''GET'' ''http://h/missing'' [] ''ping'' [] None None 0 =
       \<lparr>sent = Some (c, rq), httpStatus = 404, buf = Some ''not found'',
        err = Some (ResourceErr \<lparr>URL = ''http://h/missing'', HTTPCode = 404,
          Message = ''incorrect response.StatusCode'', Body = Some ''ping'',
          Err = Some (Cause ''incorrect status code'')\<rparr>)\<rparr>)
   \<and>
   reply demo (sendHttpReq_p1 demo ''GET'' ''http://h/missing'' [] ''ping'' [] None None) =
     Some (Inr \<lparr>StatusCode = 404, RespBody = Inr ''not found''\<rparr>)
   \<and>
   (\<exists>c rq. sendHttpReq_p1 demo ''GET'' ''http://h/missing'' [] ''ping'' [] None None =
       \<lparr>sent = Some (c, rq), httpStatus = 404, buf = Some ''not found'',
        err = Some (ResourceErr \<lparr>URL = ''http://h/missing'', HTTPCode = 404,
          Message = ''incorrect response.StatusCode'', Body = Some ''ping'',
          Err = Some (Cause ''incorrect status code'')\<rparr>)\<rparr>)
   \<and>
   reply demo (sendHttpReq_hu demo ''GET'' ''http://h/missing'' ''ping'' [] None) =
     Some (Inr \<lparr>StatusCode = 404, RespBody = Inr ''not found''\<rparr>)
   \<and>
   (\<exists>c rq. sendHttpReq_hu demo ''GET'' ''http://h/missing'' ''ping'' [] None =
       \<lparr>sent = Some (c, rq), httpStatus = 404, buf = Some ''not found'',
        err = Some (ResourceErr \<lparr>URL = ''http://h/missing'', HTTPCode = 404,
          Message = ''incorrect response.StatusCode'', Body = Some ''ping'',
          Err = Some (Cause ''incorrect status code'')\<rparr>)\<rparr>)"
proof -
  have p0: "reply demo (sendHttpReq_p0 demo ''GET'' ''http://h/missing'' [] ''ping'' [] None None
      0) =
     Some (Inr \<lparr>StatusCode = 404, RespBody = Inr ''not found''\<rparr>)"
    by (simp add: sendHttpReq_p0_eq demo_eval)
  have p1: "reply demo (sendHttpReq_p1 demo ''GET'' ''http://h/missing'' [] ''ping'' [] None None)
      =
     Some (Inr \<lparr>StatusCode = 404, RespBody = Inr ''not found''\<rparr>)"
    by (simp add: sendHttpReq_p1_eq demo_eval)
  have hu: "reply demo (sendHttpReq_hu demo ''GET'' ''http://h/missing'' ''ping'' [] None) =
     Some (Inr \<lparr>StatusCode = 404, RespBody = Inr ''not found''\<rparr>)"
    by (simp add: sendHttpReq_hu_eq demo_eval)
  have u: "requeried demo ''http://h/missing'' = ''http://h/missing''"
    by (simp add: requeried_def strings_ContainsAny_def)
  show ?thesis
    using p0 p1 hu
      status_over_399_is_error [where w = demo and m = "''GET''" and u = "''http://h/missing''"
        and tok = "[]" and d = "''ping''" and h = "[]" and ck = None and tr = None and tmo = 0
        and resp = "\<lparr>StatusCode = 404, RespBody = Inr ''not found''\<rparr>" and b = "''not found''"]
    by (simp add: u)
qed

text \<open>
  C7. When \<^verbatim>\<open>http.NewRequest\<close> fails, or when \<^verbatim>\<open>client.Do\<close> fails (so that no response
  was received), every version of \<^verbatim>\<open>sendHttpReq\<close> returns the status code 0, a \<^verbatim>\<open>nil\<close>
  body, and a \<^verbatim>\<open>ResourceError\<close> with the URL string, the cause \<open>e\<close> and the HTTP
  code 0. In the first case the URL is the one passed in, in the second the value of
  \<^verbatim>\<open>urlString\<close> after the query block.
\<close>

theorem failure_before_response:
  "(http_NewRequest w m u d = Inl e \<longrightarrow>
    sendHttpReq_p0 w m u tok d h ck tr tmo =
       \<lparr>sent = None, httpStatus = 0, buf = None,
        err = Some (ResourceErr \<lparr>URL = u, HTTPCode = 0,
          Message = [], Body = None,
          Err = Some e\<rparr>)\<rparr>)
   \<and>
   (reply w (sendHttpReq_p0 w m u tok d h ck tr tmo) = Some (Inl e) \<longrightarrow>
    (\<exists>c rq. sendHttpReq_p0 w m u tok d h ck tr tmo =
       \<lparr>sent = Some (c, rq), httpStatus = 0, buf = None,
        err = Some (ResourceErr \<lparr>URL = requeried w u, HTTPCode = 0,
          Message = [], Body = None,
          Err = Some e\<rparr>)\<rparr>))
   \<and>
   (http_NewRequest w m u d = Inl e \<longrightarrow>
    sendHttpReq_p1 w m u tok d h ck tr =
       \<lparr>sent = None, httpStatus = 0, buf = None,
        err = Some (ResourceErr \<lparr>URL = u, HTTPCode = 0,
          Message = [], Body = None,
          Err = Some e\<rparr>)\<rparr>)
   \<and>
   (reply w (sendHttpReq_p1 w m u tok d h ck tr) = Some (Inl e) \<longrightarrow>
    (\<exists>c rq. sendHttpReq_p1 w m u tok d h ck tr =
       \<lparr>sent = Some (c, rq), httpStatus = 0, buf = None,
        err = Some (ResourceErr \<lparr>URL = requeried w u, HTTPCode = 0,
          Message = [], Body = None,
          Err = Some e\<rparr>)\<rparr>))
   \<and>
   (http_NewRequest w m u d = Inl e \<longrightarrow>
    sendHttpReq_hu w m u d h ck =
       \<lparr>sent = None, httpStatus = 0, buf = None,
        err = Some (ResourceErr \<lparr>URL = u, HTTPCode = 0,
          Message = [], Body = None,
          Err = Some e\<rparr>)\<rparr>)
   \<and>
   (reply w (sendHttpReq_hu w m u d h ck) = Some (Inl e) \<longrightarrow>
    (\<exists>c rq. sendHttpReq_hu w m u d h ck =
       \<lparr>sent = Some (c, rq), httpStatus = 0, buf = None,
        err = Some (ResourceErr \<lparr>URL = requeried w u, HTTPCode = 0,
          Message = [], Body = None,
          Err = Some e\<rparr>)\<rparr>))"
proof (intro conjI impI)
  assume "http_NewRequest w m u d = Inl e"
  then show "sendHttpReq_p0 w m u tok d h ck tr tmo =
       \<lparr>sent = None, httpStatus = 0, buf = None,
        err = Some (ResourceErr \<lparr>URL = u, HTTPCode = 0,
          Message = [], Body = None,
          Err = Some e\<rparr>)\<rparr>"
    by (simp add: sendHttpReq_p0_eq failure_def)
next
  assume "reply w (sendHttpReq_p0 w m u tok d h ck tr tmo) = Some (Inl e)"
  then obtain c rq
    where "sendHttpReq_p0 w m u tok d h ck tr tmo = after_Do w c rq (requeried w u) d"
      and "client_Do w c rq = Inl e"
    by (auto elim: reply_cases_p0)
  then show "\<exists>c rq. sendHttpReq_p0 w m u tok d h ck tr tmo =
       \<lparr>sent = Some (c, rq), httpStatus = 0, buf = None,
        err = Some (ResourceErr \<lparr>URL = requeried w u, HTTPCode = 0,
          Message = [], Body = None,
          Err = Some e\<rparr>)\<rparr>"
    by (auto simp only: after_Do_transport_error)
next
  assume "http_NewRequest w m u d = Inl e"
  then show "sendHttpReq_p1 w m u tok d h ck tr =
       \<lparr>sent = None, httpStatus = 0, buf = None,
        err = Some (ResourceErr \<lparr>URL = u, HTTPCode = 0,
          Message = [], Body = None,
          Err = Some e\<rparr>)\<rparr>"
    by (simp add: sendHttpReq_p1_eq failure_def)
next
  assume "reply w (sendHttpReq_p1 w m u tok d h ck tr) = Some (Inl e)"
  then obtain c rq
    where "sendHttpReq_p1 w m u tok d h ck tr = after_Do w c rq (requeried w u) d"
      and "client_Do w c rq = Inl e"
    by (auto elim: reply_cases_p1)
  then show "\<exists>c rq. sendHttpReq_p1 w m u tok d h ck tr =
       \<lparr>sent = Some (c, rq), httpStatus = 0, buf = None,
        err = Some (ResourceErr \<lparr>URL = requeried w u, HTTPCode = 0,
          Message = [], Body = None,
          Err = Some e\<rparr>)\<rparr>"
    by (auto simp only: after_Do_transport_error)
next
  assume "http_NewRequest w m u d = Inl e"
  then show "sendHttpReq_hu w m u d h ck =
       \<lparr>sent = None, httpStatus = 0, buf = None,
        err = Some (ResourceErr \<lparr>URL = u, HTTPCode = 0,
          Message = [], Body = None,
          Err = Some e\<rparr>)\<rparr>"
    by (simp add: sendHttpReq_hu_eq failure_def)
next
  assume "reply w (sendHttpReq_hu w m u d h ck) = Some (Inl e)"
  then obtain c rq
    where "sendHttpReq_hu w m u d h ck = after_Do w c rq (requeried w u) d"
      and "client_Do w c rq = Inl e"
    by (auto elim: reply_cases_hu)
  then show "\<exists>c rq. sendHttpReq_hu w m u d h ck =
       \<lparr>sent = Some (c, rq), httpStatus = 0, buf = None,
        err = Some (ResourceErr \<lparr>URL = requeried w u, HTTPCode = 0,
          Message = [], Body = None,
          Err = Some e\<rparr>)\<rparr>"
    by (auto simp only: after_Do_transport_error)
qed

theorem failure_before_response_witness:
  "http_NewRequest demo ''G T'' ''http://h/x'' ''ping'' = Inl (InvalidMethod ''G T'')
   \<and>
   sendHttpReq_p0 demo ''G T'' ''http://h/x'' [] ''ping'' [] None None 0 =
       \<lparr>sent = None, httpStatus = 0, buf = None,
        err = Some (ResourceErr \<lparr>URL = ''http://h/x'', HTTPCode = 0,
          Message = [], Body = None,
          Err = Some (InvalidMethod ''G T'')\<rparr>)\<rparr>
   \<and>
   reply demo (sendHttpReq_p0 demo ''GET'' ''http://down/x?b=2&a=1'' [] ''ping'' [] None None 0) =
     Some (Inl (Cause ''dial tcp: connection refused''))
   \<and>
   (\<exists>c rq. sendHttpReq_p0 demo ''GET'' ''http://down/x?b=2&a=1'' [] ''ping'' [] None None 0 =
       \<lparr>sent = Some (c, rq), httpStatus = 0, buf = None,
        err = Some (ResourceErr \<lparr>URL = ''http://down/x?a=1&b=2'', HTTPCode = 0,
          Message = [], Body = None,
          Err = Some (Cause ''dial tcp: connection refused'')\<rparr>)\<rparr>)
   \<and>
   sendHttpReq_p1 demo ''G T'' ''http://h/x'' [] ''ping'' [] None None =
       \<lparr>sent = None, httpStatus = 0, buf = None,
        err = Some (ResourceErr \<lparr>URL = ''http://h/x'', HTTPCode = 0,
          Message = [], Body = None,
          Err = Some (InvalidMethod ''G T'')\<rparr>)\<rparr>
   \<and>
   reply demo (sendHttpReq_p1 demo ''GET'' ''http://down/x?b=2&a=1'' [] ''ping'' [] None None) =
     Some (Inl (Cause ''dial tcp: connection refused''))
   \<and>
   (\<exists>c rq. sendHttpReq_p1 demo ''GET'' ''http://down/x?b=2&a=1'' [] ''ping'' [] None None =
       \<lparr>sent = Some (c, rq), httpStatus = 0, buf = None,
        err = Some (ResourceErr \<lparr>URL = ''http://down/x?a=1&b=2'', HTTPCode = 0,
          Message = [], Body = None,
          Err = Some (Cause ''dial tcp: connection refused'')\<rparr>)\<rparr>)
   \<and>
   sendHttpReq_hu demo ''G T'' ''http://h/x'' ''ping'' [] None =
       \<lparr>sent = None, httpStatus = 0, buf = None,
        err = Some (ResourceErr \<lparr>URL = ''http://h/x'', HTTPCode = 0,
          Message = [], Body = None,
          Err = Some (InvalidMethod ''G T'')\<rparr>)\<rparr>
   \<and>
   reply demo (sendHttpReq_hu demo ''GET'' ''http://down/x?b=2&a=1'' ''ping'' [] None) =
     Some (Inl (Cause ''dial tcp: connection refused''))
   \<and>
   (\<exists>c rq. sendHttpReq_hu demo ''GET'' ''http://down/x?b=2&a=1'' ''ping'' [] None =
       \<lparr>sent = Some (c, rq), httpStatus = 0, buf = None,
        err = Some (ResourceErr \<lparr>URL = ''http://down/x?a=1&b=2'', HTTPCode = 0,
          Message = [], Body = None,
          Err = Some (Cause ''dial tcp: connection refused'')\<rparr>)\<rparr>)"
proof -
  have a: "http_NewRequest demo ''G T'' ''http://h/x'' ''ping'' = Inl (InvalidMethod ''G T'')"
    by (simp add: demo_eval)
  have p0: "reply demo (sendHttpReq_p0 demo ''GET'' ''http://down/x?b=2&a=1'' [] ''ping'' [] None
      None 0) =
     Some (Inl (Cause ''dial tcp: connection refused''))"
    by (simp add: sendHttpReq_p0_eq demo_eval)
  have p1: "reply demo (sendHttpReq_p1 demo ''GET'' ''http://down/x?b=2&a=1'' [] ''ping'' [] None
      None) =
     Some (Inl (Cause ''dial tcp: connection refused''))"
    by (simp add: sendHttpReq_p1_eq demo_eval)
  have hu: "reply demo (sendHttpReq_hu demo ''GET'' ''http://down/x?b=2&a=1'' ''ping'' [] None) =
     Some (Inl (Cause ''dial tcp: connection refused''))"
    by (simp add: sendHttpReq_hu_eq demo_eval)
  have u: "requeried demo ''http://down/x?b=2&a=1'' = ''http://down/x?a=1&b=2''"
    by (simp add: demo_eval)
  show ?thesis
    using a p0 p1 hu
      failure_before_response [where w = demo and m = "''G T''" and u = "''http://h/x''"
        and tok = "[]" and d = "''ping''" and h = "[]" and ck = None and tr = None and tmo = 0
        and e = "InvalidMethod ''G T''"]
      failure_before_response [where w = demo and m = "''GET''" and u =
          "''http://down/x?b=2&a=1''"
        and tok = "[]" and d = "''ping''" and h = "[]" and ck = None and tr = None and tmo = 0
        and e = "Cause ''dial tcp: connection refused''"]
    by (simp add: u)
qed

text \<open>
  C9. When the response arrives and reading its body fails, every version of
  \<^verbatim>\<open>sendHttpReq\<close> returns the status code 0 (\<^verbatim>\<open>httpStatus\<close> is assigned only after the
  read), while the \<^verbatim>\<open>ResourceError\<close> it returns carries the status code of the server
  in \<open>HTTPCode\<close>.
\<close>

theorem read_failure_returns_zero_status:
  "(reply w (sendHttpReq_p0 w m u tok d h ck tr tmo) = Some (Inr resp) \<and> RespBody resp = Inl e \<longrightarrow>
    (\<exists>c rq. sendHttpReq_p0 w m u tok d h ck tr tmo =
       \<lparr>sent = Some (c, rq), httpStatus = 0, buf = None,
        err = Some (ResourceErr \<lparr>URL = requeried w u, HTTPCode = StatusCode resp,
          Message = [], Body = None,
          Err = Some e\<rparr>)\<rparr>))
   \<and>
   (reply w (sendHttpReq_p1 w m u tok d h ck tr) = Some (Inr resp) \<and> RespBody resp = Inl e \<longrightarrow>
    (\<exists>c rq. sendHttpReq_p1 w m u tok d h ck tr =
       \<lparr>sent = Some (c, rq), httpStatus = 0, buf = None,
        err = Some (ResourceErr \<lparr>URL = requeried w u, HTTPCode = StatusCode resp,
          Message = [], Body = None,
          Err = Some e\<rparr>)\<rparr>))
   \<and>
   (reply w (sendHttpReq_hu w m u d h ck) = Some (Inr resp) \<and> RespBody resp = Inl e \<longrightarrow>
    (\<exists>c rq. sendHttpReq_hu w m u d h ck =
       \<lparr>sent = Some (c, rq), httpStatus = 0, buf = None,
        err = Some (ResourceErr \<lparr>URL = requeried w u, HTTPCode = StatusCode resp,
          Message = [], Body = None,
          Err = Some e\<rparr>)\<rparr>))"
proof (intro conjI impI; elim conjE)
  assume "reply w (sendHttpReq_p0 w m u tok d h ck tr tmo) = Some (Inr resp)"
    and b: "RespBody resp = Inl e"
  then obtain c rq
    where "sendHttpReq_p0 w m u tok d h ck tr tmo = after_Do w c rq (requeried w u) d"
      and "client_Do w c rq = Inr resp"
    by (auto elim: reply_cases_p0)
  with b show "\<exists>c rq. sendHttpReq_p0 w m u tok d h ck tr tmo =
       \<lparr>sent = Some (c, rq), httpStatus = 0, buf = None,
        err = Some (ResourceErr \<lparr>URL = requeried w u, HTTPCode = StatusCode resp,
          Message = [], Body = None,
          Err = Some e\<rparr>)\<rparr>"
    by (auto simp only: after_Do_read_error)
next
  assume "reply w (sendHttpReq_p1 w m u tok d h ck tr) = Some (Inr resp)"
    and b: "RespBody resp = Inl e"
  then obtain c rq
    where "sendHttpReq_p1 w m u tok d h ck tr = after_Do w c rq (requeried w u) d"
      and "client_Do w c rq = Inr resp"
    by (auto elim: reply_cases_p1)
  with b show "\<exists>c rq. sendHttpReq_p1 w m u tok d h ck tr =
       \<lparr>sent = Some (c, rq), httpStatus = 0, buf = None,
        err = Some (ResourceErr \<lparr>URL = requeried w u, HTTPCode = StatusCode resp,
          Message = [], Body = None,
          Err = Some e\<rparr>)\<rparr>"
    by (auto simp only: after_Do_read_error)
next
  assume "reply w (sendHttpReq_hu w m u d h ck) = Some (Inr resp)"
    and b: "RespBody resp = Inl e"
  then obtain c rq
    where "sendHttpReq_hu w m u d h ck = after_Do w c rq (requeried w u) d"
      and "client_Do w c rq = Inr resp"
    by (auto elim: reply_cases_hu)
  with b show "\<exists>c rq. sendHttpReq_hu w m u d h ck =
       \<lparr>sent = Some (c, rq), httpStatus = 0, buf = None,
        err = Some (ResourceErr \<lparr>URL = requeried w u, HTTPCode = StatusCode resp,
          Message = [], Body = None,
          Err = Some e\<rparr>)\<rparr>"
    by (auto simp only: after_Do_read_error)
qed

theorem read_failure_returns_zero_status_witness:
  "reply demo (sendHttpReq_p0 demo ''GET'' ''http://h/cut'' [] ''ping'' [] None None 0) =
     Some (Inr \<lparr>StatusCode = 200, RespBody = Inl (Cause ''unexpected EOF'')\<rparr>)
   \<and>
   (\<exists>c rq. sendHttpReq_p0 demo ''GET'' ''http://h/cut'' [] ''ping'' [] None None 0 =
       \<lparr>sent = Some (c, rq), httpStatus = 0, buf = None,
        err = Some (ResourceErr \<lparr>URL = ''http://h/cut'', HTTPCode = 200,
          Message = [], Body = None,
          Err = Some (Cause ''unexpected EOF'')\<rparr>)\<rparr>)
   \<and>
   reply demo (sendHttpReq_p1 demo ''GET'' ''http://h/cut'' [] ''ping'' [] None None) =
     Some (Inr \<lparr>StatusCode = 200, RespBody = Inl (Cause ''unexpected EOF'')\<rparr>)
   \<and>
   (\<exists>c rq. sendHttpReq_p1 demo ''GET'' ''http://h/cut'' [] ''ping'' [] None None =
       \<lparr>sent = Some (c, rq), httpStatus = 0, buf = None,
        err = Some (ResourceErr \<lparr>URL = ''http://h/cut'', HTTPCode = 200,
          Message = [], Body = None,
          Err = Some (Cause ''unexpected EOF'')\<rparr>)\<rparr>)
   \<and>
   reply demo (sendHttpReq_hu demo ''GET'' ''http://h/cut'' ''ping'' [] None) =
     Some (Inr \<lparr>StatusCode = 200, RespBody = Inl (Cause ''unexpected EOF'')\<rparr>)
   \<and>
   (\<exists>c rq. sendHttpReq_hu demo ''GET'' ''http://h/cut'' ''ping'' [] None =
       \<lparr>sent = Some (c, rq), httpStatus = 0, buf = None,
        err = Some (ResourceErr \<lparr>URL = ''http://h/cut'', HTTPCode = 200,
          Message = [], Body = None,
          Err = Some (Cause ''unexpected EOF'')\<rparr>)\<rparr>)"
proof -
  have p0: "reply demo (sendHttpReq_p0 demo ''GET'' ''http://h/cut'' [] ''ping'' [] None None 0) =
     Some (Inr \<lparr>StatusCode = 200, RespBody = Inl (Cause ''unexpected EOF'')\<rparr>)"
    by (simp add: sendHttpReq_p0_eq demo_eval)
  have p1: "reply demo (sendHttpReq_p1 demo ''GET'' ''http://h/cut'' [] ''ping'' [] None None) =
     Some (Inr \<lparr>StatusCode = 200, RespBody = Inl (Cause ''unexpected EOF'')\<rparr>)"
    by (simp add: sendHttpReq_p1_eq demo_eval)
  have hu: "reply demo (sendHttpReq_hu demo ''GET'' ''http://h/cut'' ''ping'' [] None) =
     Some (Inr \<lparr>StatusCode = 200, RespBody = Inl (Cause ''unexpected EOF'')\<rparr>)"
    by (simp add: sendHttpReq_hu_eq demo_eval)
  have u: "requeried demo ''http://h/cut'' = ''http://h/cut''"
    by (simp add: demo_eval)
  show ?thesis
    using p0 p1 hu
      read_failure_returns_zero_status [where w = demo and m = "''GET''" and u =
          "''http://h/cut''"
        and tok = "[]" and d = "''ping''" and h = "[]" and ck = None and tr = None and tmo = 0
        and resp = "\<lparr>StatusCode = 200, RespBody = Inl (Cause ''unexpected EOF'')\<rparr>" and e = "Cause
            ''unexpected EOF''"]
    by (simp add: u)
qed

text \<open>
  The request that is sent: the one \<^verbatim>\<open>http.NewRequest\<close> made of the arguments, with the
  cookie, the headers and the token added, and nothing else changed.
\<close>

lemma NewRequest_fields:
  assumes "http_NewRequest w m u d = Inr rq0"
  shows "Method rq0 = (if m = [] then ''GET'' else m)" and "ReqBody rq0 = d"
    and "Header rq0 = []" and "Cookies rq0 = []" and "url_Parse w u = Inr (ReqURL rq0)"
  using assms
  by (auto simp: http_NewRequest_def Let_def split: if_splits sum.splits)

lemma equip_fields:
  "Method (equip rq0 ck h tok) = Method rq0"
  "ReqURL (equip rq0 ck h tok) = ReqURL rq0"
  "ReqBody (equip rq0 ck h tok) = ReqBody rq0"
  "Header (equip rq0 ck h tok) =
     Header rq0 @ h @ (if tok = [] then [] else [(''Authorization'', tok)])"
  "Cookies (equip rq0 ck h tok) = Cookies rq0 @ (case ck of None \<Rightarrow> [] | Some c \<Rightarrow> [c])"
  by (simp_all add: equip_def)

lemma sent_cases_p0:
  assumes "sent (sendHttpReq_p0 w m u tok d h ck tr tmo) = Some (c, rq)"
  obtains rq0 where "http_NewRequest w m u d = Inr rq0" and "rq = equip rq0 ck h tok"
    and "c = \<lparr>Timeout = (if 0 < sint tmo then tmo * Second else 30 * Second), Transport = tr\<rparr>"
  using assms
  by (cases "http_NewRequest w m u d")
    (auto simp: sendHttpReq_p0_eq sent_failure sent_after_Do split: if_splits)

lemma sent_cases_p1:
  assumes "sent (sendHttpReq_p1 w m u tok d h ck tr) = Some (c, rq)"
  obtains rq0 where "http_NewRequest w m u d = Inr rq0" and "rq = equip rq0 ck h tok"
    and "c = \<lparr>Timeout = 30 * Second, Transport = tr\<rparr>"
  using assms
  by (cases "http_NewRequest w m u d")
    (auto simp: sendHttpReq_p1_eq sent_failure sent_after_Do)

lemma sent_cases_hu:
  assumes "sent (sendHttpReq_hu w m u d h ck) = Some (c, rq)"
  obtains rq0 where "http_NewRequest w m u d = Inr rq0" and "rq = equip rq0 ck h []"
    and "c = \<lparr>Timeout = 0, Transport = None\<rparr>"
  using assms
  by (cases "http_NewRequest w m u d")
    (auto simp: sendHttpReq_hu_eq sent_failure sent_after_Do)

text \<open>
  In every world, the URL of the request that is sent is the parse of the string the
  caller passed: the query block changes the variable \<^verbatim>\<open>urlString\<close> only, after the
  request was built from it.
\<close>

lemma sent_url_is_parse_of_input:
  "sent (sendHttpReq_p0 w m u tok d h ck tr tmo) = Some (c, rq) \<Longrightarrow>
   url_Parse w u = Inr (ReqURL rq)"
  "sent (sendHttpReq_p1 w m u tok d h ck tr) = Some (c, rq) \<Longrightarrow>
   url_Parse w u = Inr (ReqURL rq)"
  "sent (sendHttpReq_hu w m u d h ck) = Some (c, rq) \<Longrightarrow> url_Parse w u = Inr (ReqURL rq)"
  by (auto elim!: sent_cases_p0 sent_cases_p1 sent_cases_hu
      simp: equip_fields NewRequest_fields)

text \<open>
  C1. The claim is that the request sent for a URL with a query carries the re-encoded
  query. It does not: for \<open>http://h/p?b=2&a=1\<close> every version sends the request with the
  query \<open>b=2&a=1\<close> as the caller wrote it, while the re-encoded URL
  \<open>http://h/p?a=1&b=2\<close> is the value of the variable \<^verbatim>\<open>urlString\<close> only, which goes
  into the \<open>URL\<close> of a \<^verbatim>\<open>ResourceError\<close> and nowhere else.
\<close>

theorem sent_request_keeps_raw_query:
  "sent (sendHttpReq_p0 demo ''GET'' ''http://h/p?b=2&a=1'' [] [] [] None None 0) =
     Some (\<lparr>Timeout = 30000000000, Transport = None\<rparr>,
           \<lparr>Method = ''GET'',
            ReqURL = \<lparr>Scheme = ''http'', Host = ''h'', Path = ''/p'', RawQuery = ''b=2&a=1'',
                      Fragment = []\<rparr>,
            Cookies = [], Header = [], ReqBody = []\<rparr>)
   \<and>
   sent (sendHttpReq_p1 demo ''GET'' ''http://h/p?b=2&a=1'' [] [] [] None None) =
     Some (\<lparr>Timeout = 30000000000, Transport = None\<rparr>,
           \<lparr>Method = ''GET'',
            ReqURL = \<lparr>Scheme = ''http'', Host = ''h'', Path = ''/p'', RawQuery = ''b=2&a=1'',
                      Fragment = []\<rparr>,
            Cookies = [], Header = [], ReqBody = []\<rparr>)
   \<and>
   sent (sendHttpReq_hu demo ''GET'' ''http://h/p?b=2&a=1'' [] [] None) =
     Some (\<lparr>Timeout = 0, Transport = None\<rparr>,
           \<lparr>Method = ''GET'',
            ReqURL = \<lparr>Scheme = ''http'', Host = ''h'', Path = ''/p'', RawQuery = ''b=2&a=1'',
                      Fragment = []\<rparr>,
            Cookies = [], Header = [], ReqBody = []\<rparr>)
   \<and>
   requeried demo ''http://h/p?b=2&a=1'' = ''http://h/p?a=1&b=2''"
  by (simp add: sendHttpReq_p0_eq sendHttpReq_p1_eq sendHttpReq_hu_eq demo_eval)

text \<open>
  C10. The return for a failed parse inside the query block is never taken: when
  \<^verbatim>\<open>http.NewRequest\<close> succeeded on the URL string, \<^verbatim>\<open>url.Parse\<close> of the same string
  succeeds (with the URL of the request), and every version goes on to \<^verbatim>\<open>client.Do\<close>
  with the request. This rests on \<^verbatim>\<open>http.NewRequest\<close> taking its URL from
  \<^verbatim>\<open>url.Parse\<close>, as \<^verbatim>\<open>net/http\<close> does.
\<close>

theorem reparse_never_fails:
  "http_NewRequest w m u d = Inr nrq \<longrightarrow>
     url_Parse w u = Inr (ReqURL nrq) \<and>
     (\<exists>c. sent (sendHttpReq_p0 w m u tok d h ck tr tmo) = Some (c, equip nrq ck h tok)) \<and>
     (\<exists>c. sent (sendHttpReq_p1 w m u tok d h ck tr) = Some (c, equip nrq ck h tok)) \<and>
     (\<exists>c. sent (sendHttpReq_hu w m u d h ck) = Some (c, equip nrq ck h []))"
  by (simp add: NewRequest_Parse sendHttpReq_p0_eq sendHttpReq_p1_eq sendHttpReq_hu_eq
      sent_after_Do)

theorem reparse_never_fails_witness:
  "strings_ContainsAny ''http://h/p?b=2&a=1'' ''?''
   \<and>
   http_NewRequest demo ''GET'' ''http://h/p?b=2&a=1'' ''ping'' =
     Inr \<lparr>Method = ''GET'',
          ReqURL = \<lparr>Scheme = ''http'', Host = ''h'', Path = ''/p'', RawQuery = ''b=2&a=1'',
                    Fragment = []\<rparr>,
          Cookies = [], Header = [], ReqBody = ''ping''\<rparr>
   \<and>
   url_Parse demo ''http://h/p?b=2&a=1'' =
     Inr \<lparr>Scheme = ''http'', Host = ''h'', Path = ''/p'', RawQuery = ''b=2&a=1'',
          Fragment = []\<rparr>
   \<and>
   (\<exists>c. sent (sendHttpReq_p0 demo ''GET'' ''http://h/p?b=2&a=1'' [] ''ping'' [] None None 0) =
      Some (c, \<lparr>Method = ''GET'',
                ReqURL = \<lparr>Scheme = ''http'', Host = ''h'', Path = ''/p'',
                          RawQuery = ''b=2&a=1'', Fragment = []\<rparr>,
                Cookies = [], Header = [], ReqBody = ''ping''\<rparr>))
   \<and>
   (\<exists>c. sent (sendHttpReq_p1 demo ''GET'' ''http://h/p?b=2&a=1'' [] ''ping'' [] None None) =
      Some (c, \<lparr>Method = ''GET'',
                ReqURL = \<lparr>Scheme = ''http'', Host = ''h'', Path = ''/p'',
                          RawQuery = ''b=2&a=1'', Fragment = []\<rparr>,
                Cookies = [], Header = [], ReqBody = ''ping''\<rparr>))
   \<and>
   (\<exists>c. sent (sendHttpReq_hu demo ''GET'' ''http://h/p?b=2&a=1'' ''ping'' [] None) =
      Some (c, \<lparr>Method = ''GET'',
                ReqURL = \<lparr>Scheme = ''http'', Host = ''h'', Path = ''/p'',
                          RawQuery = ''b=2&a=1'', Fragment = []\<rparr>,
                Cookies = [], Header = [], ReqBody = ''ping''\<rparr>))"
proof -
  have n: "http_NewRequest demo ''GET'' ''http://h/p?b=2&a=1'' ''ping'' =
     Inr \<lparr>Method = ''GET'',
          ReqURL = \<lparr>Scheme = ''http'', Host = ''h'', Path = ''/p'', RawQuery = ''b=2&a=1'',
                    Fragment = []\<rparr>,
          Cookies = [], Header = [], ReqBody = ''ping''\<rparr>"
    by (simp add: demo_eval)
  have q: "strings_ContainsAny ''http://h/p?b=2&a=1'' ''?''"
    by (simp add: strings_ContainsAny_def)
  show ?thesis
    using n q
      reparse_never_fails [where w = demo and m = "''GET''" and u = "''http://h/p?b=2&a=1''"
        and d = "''ping''" and tok = "[]" and h = "[]" and ck = None and tr = None and tmo = 0
        and nrq = "\<lparr>Method = ''GET'',
          ReqURL = \<lparr>Scheme = ''http'', Host = ''h'', Path = ''/p'', RawQuery = ''b=2&a=1'',
                    Fragment = []\<rparr>,
          Cookies = [], Header = [], ReqBody = ''ping''\<rparr>"]
    by (simp add: equip_def)
qed

section \<open>The request an entry function sends\<close>

text \<open>
  An entry function sends what its call of the dispatcher sends; the multipart
  functions call the dispatcher only when the writer accepted the file part.
\<close>

lemma sent_HttpReqXML_hu:
  "sent (HttpReqXML_hu w m u b hs ck rs) =
     sent (sendHttpReq_hu w m u b (with_content_type ''text/xml'' hs) ck)"
  by (simp add: HttpReqXML_hu_eq sent_finish)

lemma sent_HttpReqJSON_hu:
  "sent (HttpReqJSON_hu w m u b hs ck rs) =
     sent (sendHttpReq_hu w (strings_TrimSpace w (strings_ToUpper w m)) u b (with_content_type
         ''application/json'' hs) ck)"
  by (simp add: HttpReqJSON_hu_eq sent_finish)

lemma sent_HttpReqAuthXML_p0:
  "sent (HttpReqAuthXML_p0 w m u tok b hs ck tr tmo rs) =
     sent (sendHttpReq_p0 w (strings_TrimSpace w (strings_ToUpper w m)) u tok b (with_content_type
         ''text/xml'' hs) ck tr tmo)"
  by (simp add: HttpReqAuthXML_p0_eq sent_finish)

lemma sent_HttpReqAuthJSON_p0:
  "sent (HttpReqAuthJSON_p0 w m u tok b hs ck tr tmo rs) =
     sent (sendHttpReq_p0 w (strings_TrimSpace w (strings_ToUpper w m)) u tok b (with_content_type
         ''application/json'' hs) ck tr tmo)"
  by (simp add: HttpReqAuthJSON_p0_eq sent_finish)

lemma sent_HttpReqXML_p0:
  "sent (HttpReqXML_p0 w m u b hs ck tr tmo rs) =
     sent (sendHttpReq_p0 w (strings_TrimSpace w (strings_ToUpper w m)) u [] b (with_content_type
         ''text/xml'' hs) ck tr tmo)"
  by (simp add: HttpReqXML_p0_eq sent_finish)

lemma sent_HttpReqJSON_p0:
  "sent (HttpReqJSON_p0 w m u b hs ck tr tmo rs) =
     sent (sendHttpReq_p0 w (strings_TrimSpace w (strings_ToUpper w m)) u [] b (with_content_type
         ''application/json'' hs) ck tr tmo)"
  by (simp add: HttpReqJSON_p0_eq sent_finish)

lemma sent_HttpReqPostFormJSON_p0:
  "sent (HttpReqPostFormJSON_p0 w u b hs ck tr tmo rs) =
     sent (sendHttpReq_p0 w ''POST'' u [] b (with_content_type
         ''application/x-www-form-urlencoded'' hs) ck tr tmo)"
  by (simp add: HttpReqPostFormJSON_p0_eq sent_finish)

lemma sent_HttpReqPostFormXML_p0:
  "sent (HttpReqPostFormXML_p0 w u b hs ck tr tmo rs) =
     sent (sendHttpReq_p0 w ''POST'' u [] b (with_content_type_if_absent
         ''application/x-www-form-urlencoded'' hs) ck tr tmo)"
  by (simp add: HttpReqPostFormXML_p0_eq sent_finish)

lemma sent_HttpReqAuthXML_p1:
  "sent (HttpReqAuthXML_p1 w m u tok b hs ck tr rs) =
     sent (sendHttpReq_p1 w (strings_TrimSpace w (strings_ToUpper w m)) u tok b (with_content_type
         ''text/xml'' hs) ck tr)"
  by (simp add: HttpReqAuthXML_p1_eq sent_finish)

lemma sent_HttpReqAuthJSON_p1:
  "sent (HttpReqAuthJSON_p1 w m u tok b hs ck tr rs) =
     sent (sendHttpReq_p1 w (strings_TrimSpace w (strings_ToUpper w m)) u tok b (with_content_type
         ''application/json'' hs) ck tr)"
  by (simp add: HttpReqAuthJSON_p1_eq sent_finish)

lemma sent_HttpReqXML_p1:
  "sent (HttpReqXML_p1 w m u b hs ck tr rs) =
     sent (sendHttpReq_p1 w (strings_TrimSpace w (strings_ToUpper w m)) u [] b (with_content_type
         ''text/xml'' hs) ck tr)"
  by (simp add: HttpReqXML_p1_eq sent_finish)

lemma sent_HttpReqJSON_p1:
  "sent (HttpReqJSON_p1 w m u b hs ck tr rs) =
     sent (sendHttpReq_p1 w (strings_TrimSpace w (strings_ToUpper w m)) u [] b (with_content_type
         ''application/json'' hs) ck tr)"
  by (simp add: HttpReqJSON_p1_eq sent_finish)

lemma sent_HttpReqPostFormJSON_p1:
  "sent (HttpReqPostFormJSON_p1 w u b hs ck tr rs) =
     sent (sendHttpReq_p1 w ''POST'' u [] b (with_content_type
         ''application/x-www-form-urlencoded'' hs) ck tr)"
  by (simp add: HttpReqPostFormJSON_p1_eq sent_finish)

lemma sent_HttpReqPostFormXML_p1:
  "sent (HttpReqPostFormXML_p1 w u b hs ck tr rs) =
     sent (sendHttpReq_p1 w ''POST'' u [] b (with_content_type_if_absent
         ''application/x-www-form-urlencoded'' hs) ck tr)"
  by (simp add: HttpReqPostFormXML_p1_eq sent_finish)

lemma sent_HttpReqPostFile_p0:
  "sent (HttpReqPostFile_p0 w u ps pf hs ck tr tmo rs) =
     (case multipart_CreateFormFile w (text_fields ps) (Key pf) (FileName pf) of
        None \<Rightarrow>
          sent (sendHttpReq_p0 w ''POST'' u [] (multipart_Bytes w (text_fields ps @
              [CreateFormFile (Key pf) (FileName pf), Write (Content pf), Close]))
              (with_content_type (multipart_FormDataContentType w) hs) ck tr tmo)
      | Some e \<Rightarrow> None)"
  by (cases "multipart_CreateFormFile w (text_fields ps) (Key pf) (FileName pf)")
    (simp_all add: HttpReqPostFile_p0_eq HttpReqPostFile_p0_early sent_finish)

lemma sent_httpReqAuthFile_p0:
  "sent (httpReqAuthFile_p0 w m u tok ps pf hs ck tr tmo rs) =
     (case multipart_CreateFormFile w (text_fields ps) (Key pf) (FileName pf) of
        None \<Rightarrow>
          sent (sendHttpReq_p0 w m u tok (multipart_Bytes w (text_fields ps @ [CreateFormFile (Key
              pf) (FileName pf), Write (Content pf), Close])) (with_content_type
              (multipart_FormDataContentType w) hs) ck tr tmo)
      | Some e \<Rightarrow> None)"
  by (cases "multipart_CreateFormFile w (text_fields ps) (Key pf) (FileName pf)")
    (simp_all add: httpReqAuthFile_p0_eq httpReqAuthFile_p0_early sent_finish)

lemma sent_HttpReqAuthPutFile_p0:
  "sent (HttpReqAuthPutFile_p0 w u tok ps pf hs ck tr tmo rs) =
     (case multipart_CreateFormFile w (text_fields ps) (Key pf) (FileName pf) of
        None \<Rightarrow>
          sent (sendHttpReq_p0 w ''PUT'' u tok (multipart_Bytes w (text_fields ps @
              [CreateFormFile (Key pf) (FileName pf), Write (Content pf), Close]))
              (with_content_type (multipart_FormDataContentType w) hs) ck tr tmo)
      | Some e \<Rightarrow> None)"
  by (cases "multipart_CreateFormFile w (text_fields ps) (Key pf) (FileName pf)")
    (simp_all add: HttpReqAuthPutFile_p0_eq HttpReqAuthPutFile_p0_early sent_finish)

lemma sent_HttpReqAuthPostFile_p0:
  "sent (HttpReqAuthPostFile_p0 w u tok ps pf hs ck tr tmo rs) =
     (case multipart_CreateFormFile w (text_fields ps) (Key pf) (FileName pf) of
        None \<Rightarrow>
          sent (sendHttpReq_p0 w ''POST'' u tok (multipart_Bytes w (text_fields ps @
              [CreateFormFile (Key pf) (FileName pf), Write (Content pf), Close]))
              (with_content_type (multipart_FormDataContentType w) hs) ck tr tmo)
      | Some e \<Rightarrow> None)"
  by (cases "multipart_CreateFormFile w (text_fields ps) (Key pf) (FileName pf)")
    (simp_all add: HttpReqAuthPostFile_p0_eq HttpReqAuthPostFile_p0_early sent_finish)

section \<open>The timeout of the client\<close>

lemma sint_times_Second:
  fixes tmo :: "64 word"
  assumes "0 < sint tmo" and "sint tmo \<le> 9223372036"
  shows "sint (tmo * Second) = sint tmo * 1000000000"
proof -
  have "sint (tmo * Second) = signed_take_bit 63 (sint tmo * 1000000000)"
    by (simp add: sint_word_mult Second_def)
  also have "\<dots> = sint tmo * 1000000000"
    using assms by (simp add: signed_take_bit_int_eq_self_iff)
  finally show ?thesis .
qed

lemma timeout_p0:
  assumes "sent (sendHttpReq_p0 w m u tok d h ck tr tmo) = Some (c, rq)"
    and "sint tmo \<le> 9223372036"
  shows "sint (Timeout c) = timeout_seconds tmo * 1000000000"
proof -
  from assms(1)
  have "c = \<lparr>Timeout = (if 0 < sint tmo then tmo * Second else 30 * Second), Transport = tr\<rparr>"
    by (rule sent_cases_p0)
  then show ?thesis
    using assms(2) by (simp add: timeout_seconds_def sint_times_Second)
qed

lemma timeout_p1:
  assumes "sent (sendHttpReq_p1 w m u tok d h ck tr) = Some (c, rq)"
  shows "sint (Timeout c) = 30 * 1000000000"
proof -
  from assms have "c = \<lparr>Timeout = 30 * Second, Transport = tr\<rparr>"
    by (rule sent_cases_p1)
  then show ?thesis by (simp add: Second_def)
qed

lemma timeout_hu:
  assumes "sent (sendHttpReq_hu w m u d h ck) = Some (c, rq)"
  shows "Timeout c = 0"
proof -
  from assms have "c = \<lparr>Timeout = 0, Transport = None\<rparr>"
    by (rule sent_cases_hu)
  then show ?thesis by simp
qed


text \<open>
  C4, as amended. The client that executes the request has this timeout: in \<^verbatim>\<open>part_000\<close>,
  the caller's \<^verbatim>\<open>timeout\<close> in seconds when it is positive and 30 seconds otherwise, for
  every \<^verbatim>\<open>timeout\<close> up to 9223372036 (beyond it the product with \<^verbatim>\<open>time.Second\<close> leaves
  the 64 bits of a \<^verbatim>\<open>time.Duration\<close>); in \<^verbatim>\<open>part_001\<close>, where the caller passes no timeout,
  30 seconds; in \<^verbatim>\<open>http-utils.go\<close> the \<open>Timeout\<close> of the client is 0, which is no time
  limit. The durations are in nanoseconds. This holds for the dispatcher and for every
  entry function of each file.
\<close>

theorem client_timeout_by_file:
  "(\<forall>c rq. sent (sendHttpReq_p0 w m u tok b hl ck tr tmo) = Some (c, rq) \<and>
      sint tmo \<le> 9223372036 \<longrightarrow>
      sint (Timeout c) = timeout_seconds tmo * 1000000000)
   \<and>
   (\<forall>c rq. sent (sendHttpReq_p1 w m u tok b hl ck tr) = Some (c, rq) \<longrightarrow>
      sint (Timeout c) = 30 * 1000000000)
   \<and>
   (\<forall>c rq. sent (sendHttpReq_hu w m u b hl ck) = Some (c, rq) \<longrightarrow>
      Timeout c = 0)
   \<and>
   (\<forall>c rq. sent (HttpReqXML_hu w m u b hs ck rs) = Some (c, rq) \<longrightarrow>
      Timeout c = 0)
   \<and>
   (\<forall>c rq. sent (HttpReqJSON_hu w m u b hs ck rs) = Some (c, rq) \<longrightarrow>
      Timeout c = 0)
   \<and>
   (\<forall>c rq. sent (HttpReqAuthXML_p0 w m u tok b hs ck tr tmo rs) = Some (c, rq) \<and>
      sint tmo \<le> 9223372036 \<longrightarrow>
      sint (Timeout c) = timeout_seconds tmo * 1000000000)
   \<and>
   (\<forall>c rq. sent (HttpReqAuthJSON_p0 w m u tok b hs ck tr tmo rs) = Some (c, rq) \<and>
      sint tmo \<le> 9223372036 \<longrightarrow>
      sint (Timeout c) = timeout_seconds tmo * 1000000000)
   \<and>
   (\<forall>c rq. sent (HttpReqXML_p0 w m u b hs ck tr tmo rs) = Some (c, rq) \<and>
      sint tmo \<le> 9223372036 \<longrightarrow>
      sint (Timeout c) = timeout_seconds tmo * 1000000000)
   \<and>
   (\<forall>c rq. sent (HttpReqJSON_p0 w m u b hs ck tr tmo rs) = Some (c, rq) \<and>
      sint tmo \<le> 9223372036 \<longrightarrow>
      sint (Timeout c) = timeout_seconds tmo * 1000000000)
   \<and>
   (\<forall>c rq. sent (HttpReqPostFormJSON_p0 w u b hs ck tr tmo rs) = Some (c, rq) \<and>
      sint tmo \<le> 9223372036 \<longrightarrow>
      sint (Timeout c) = timeout_seconds tmo * 1000000000)
   \<and>
   (\<forall>c rq. sent (HttpReqPostFormXML_p0 w u b hs ck tr tmo rs) = Some (c, rq) \<and>
      sint tmo \<le> 9223372036 \<longrightarrow>
      sint (Timeout c) = timeout_seconds tmo * 1000000000)
   \<and>
   (\<forall>c rq. sent (HttpReqAuthXML_p1 w m u tok b hs ck tr rs) = Some (c, rq) \<longrightarrow>
      sint (Timeout c) = 30 * 1000000000)
   \<and>
   (\<forall>c rq. sent (HttpReqAuthJSON_p1 w m u tok b hs ck tr rs) = Some (c, rq) \<longrightarrow>
      sint (Timeout c) = 30 * 1000000000)
   \<and>
   (\<forall>c rq. sent (HttpReqXML_p1 w m u b hs ck tr rs) = Some (c, rq) \<longrightarrow>
      sint (Timeout c) = 30 * 1000000000)
   \<and>
   (\<forall>c rq. sent (HttpReqJSON_p1 w m u b hs ck tr rs) = Some (c, rq) \<longrightarrow>
      sint (Timeout c) = 30 * 1000000000)
   \<and>
   (\<forall>c rq. sent (HttpReqPostFormJSON_p1 w u b hs ck tr rs) = Some (c, rq) \<longrightarrow>
      sint (Timeout c) = 30 * 1000000000)
   \<and>
   (\<forall>c rq. sent (HttpReqPostFormXML_p1 w u b hs ck tr rs) = Some (c, rq) \<longrightarrow>
      sint (Timeout c) = 30 * 1000000000)
   \<and>
   (\<forall>c rq. sent (HttpReqPostFile_p0 w u ps pf hs ck tr tmo rs) = Some (c, rq) \<and>
      sint tmo \<le> 9223372036 \<longrightarrow>
      sint (Timeout c) = timeout_seconds tmo * 1000000000)
   \<and>
   (\<forall>c rq. sent (httpReqAuthFile_p0 w m u tok ps pf hs ck tr tmo rs) = Some (c, rq) \<and>
      sint tmo \<le> 9223372036 \<longrightarrow>
      sint (Timeout c) = timeout_seconds tmo * 1000000000)
   \<and>
   (\<forall>c rq. sent (HttpReqAuthPutFile_p0 w u tok ps pf hs ck tr tmo rs) = Some (c, rq) \<and>
      sint tmo \<le> 9223372036 \<longrightarrow>
      sint (Timeout c) = timeout_seconds tmo * 1000000000)
   \<and>
   (\<forall>c rq. sent (HttpReqAuthPostFile_p0 w u tok ps pf hs ck tr tmo rs) = Some (c, rq) \<and>
      sint tmo \<le> 9223372036 \<longrightarrow>
      sint (Timeout c) = timeout_seconds tmo * 1000000000)"
proof (intro conjI)
  show "\<forall>c rq. sent (sendHttpReq_p0 w m u tok b hl ck tr tmo) = Some (c, rq) \<and>
      sint tmo \<le> 9223372036 \<longrightarrow>
      sint (Timeout c) = timeout_seconds tmo * 1000000000"
    by (auto dest: timeout_p0)
next
  show "\<forall>c rq. sent (sendHttpReq_p1 w m u tok b hl ck tr) = Some (c, rq) \<longrightarrow>
      sint (Timeout c) = 30 * 1000000000"
    by (auto dest: timeout_p1)
next
  show "\<forall>c rq. sent (sendHttpReq_hu w m u b hl ck) = Some (c, rq) \<longrightarrow>
      Timeout c = 0"
    by (auto dest: timeout_hu)
next
  show "\<forall>c rq. sent (HttpReqXML_hu w m u b hs ck rs) = Some (c, rq) \<longrightarrow>
      Timeout c = 0"
    by (auto simp: sent_HttpReqXML_hu dest: timeout_hu)
next
  show "\<forall>c rq. sent (HttpReqJSON_hu w m u b hs ck rs) = Some (c, rq) \<longrightarrow>
      Timeout c = 0"
    by (auto simp: sent_HttpReqJSON_hu dest: timeout_hu)
next
  show "\<forall>c rq. sent (HttpReqAuthXML_p0 w m u tok b hs ck tr tmo rs) = Some (c, rq) \<and>
      sint tmo \<le> 9223372036 \<longrightarrow>
      sint (Timeout c) = timeout_seconds tmo * 1000000000"
    by (auto simp: sent_HttpReqAuthXML_p0 dest: timeout_p0)
next
  show "\<forall>c rq. sent (HttpReqAuthJSON_p0 w m u tok b hs ck tr tmo rs) = Some (c, rq) \<and>
      sint tmo \<le> 9223372036 \<longrightarrow>
      sint (Timeout c) = timeout_seconds tmo * 1000000000"
    by (auto simp: sent_HttpReqAuthJSON_p0 dest: timeout_p0)
next
  show "\<forall>c rq. sent (HttpReqXML_p0 w m u b hs ck tr tmo rs) = Some (c, rq) \<and>
      sint tmo \<le> 9223372036 \<longrightarrow>
      sint (Timeout c) = timeout_seconds tmo * 1000000000"
    by (auto simp: sent_HttpReqXML_p0 dest: timeout_p0)
next
  show "\<forall>c rq. sent (HttpReqJSON_p0 w m u b hs ck tr tmo rs) = Some (c, rq) \<and>
      sint tmo \<le> 9223372036 \<longrightarrow>
      sint (Timeout c) = timeout_seconds tmo * 1000000000"
    by (auto simp: sent_HttpReqJSON_p0 dest: timeout_p0)
next
  show "\<forall>c rq. sent (HttpReqPostFormJSON_p0 w u b hs ck tr tmo rs) = Some (c, rq) \<and>
      sint tmo \<le> 9223372036 \<longrightarrow>
      sint (Timeout c) = timeout_seconds tmo * 1000000000"
    by (auto simp: sent_HttpReqPostFormJSON_p0 dest: timeout_p0)
next
  show "\<forall>c rq. sent (HttpReqPostFormXML_p0 w u b hs ck tr tmo rs) = Some (c, rq) \<and>
      sint tmo \<le> 9223372036 \<longrightarrow>
      sint (Timeout c) = timeout_seconds tmo * 1000000000"
    by (auto simp: sent_HttpReqPostFormXML_p0 dest: timeout_p0)
next
  show "\<forall>c rq. sent (HttpReqAuthXML_p1 w m u tok b hs ck tr rs) = Some (c, rq) \<longrightarrow>
      sint (Timeout c) = 30 * 1000000000"
    by (auto simp: sent_HttpReqAuthXML_p1 dest: timeout_p1)
next
  show "\<forall>c rq. sent (HttpReqAuthJSON_p1 w m u tok b hs ck tr rs) = Some (c, rq) \<longrightarrow>
      sint (Timeout c) = 30 * 1000000000"
    by (auto simp: sent_HttpReqAuthJSON_p1 dest: timeout_p1)
next
  show "\<forall>c rq. sent (HttpReqXML_p1 w m u b hs ck tr rs) = Some (c, rq) \<longrightarrow>
      sint (Timeout c) = 30 * 1000000000"
    by (auto simp: sent_HttpReqXML_p1 dest: timeout_p1)
next
  show "\<forall>c rq. sent (HttpReqJSON_p1 w m u b hs ck tr rs) = Some (c, rq) \<longrightarrow>
      sint (Timeout c) = 30 * 1000000000"
    by (auto simp: sent_HttpReqJSON_p1 dest: timeout_p1)
next
  show "\<forall>c rq. sent (HttpReqPostFormJSON_p1 w u b hs ck tr rs) = Some (c, rq) \<longrightarrow>
      sint (Timeout c) = 30 * 1000000000"
    by (auto simp: sent_HttpReqPostFormJSON_p1 dest: timeout_p1)
next
  show "\<forall>c rq. sent (HttpReqPostFormXML_p1 w u b hs ck tr rs) = Some (c, rq) \<longrightarrow>
      sint (Timeout c) = 30 * 1000000000"
    by (auto simp: sent_HttpReqPostFormXML_p1 dest: timeout_p1)
next
  show "\<forall>c rq. sent (HttpReqPostFile_p0 w u ps pf hs ck tr tmo rs) = Some (c, rq) \<and>
      sint tmo \<le> 9223372036 \<longrightarrow>
      sint (Timeout c) = timeout_seconds tmo * 1000000000"
    by (auto simp: sent_HttpReqPostFile_p0 dest: timeout_p0 split: option.splits)
next
  show "\<forall>c rq. sent (httpReqAuthFile_p0 w m u tok ps pf hs ck tr tmo rs) = Some (c, rq) \<and>
      sint tmo \<le> 9223372036 \<longrightarrow>
      sint (Timeout c) = timeout_seconds tmo * 1000000000"
    by (auto simp: sent_httpReqAuthFile_p0 dest: timeout_p0 split: option.splits)
next
  show "\<forall>c rq. sent (HttpReqAuthPutFile_p0 w u tok ps pf hs ck tr tmo rs) = Some (c, rq) \<and>
      sint tmo \<le> 9223372036 \<longrightarrow>
      sint (Timeout c) = timeout_seconds tmo * 1000000000"
    by (auto simp: sent_HttpReqAuthPutFile_p0 dest: timeout_p0 split: option.splits)
next
  show "\<forall>c rq. sent (HttpReqAuthPostFile_p0 w u tok ps pf hs ck tr tmo rs) = Some (c, rq) \<and>
      sint tmo \<le> 9223372036 \<longrightarrow>
      sint (Timeout c) = timeout_seconds tmo * 1000000000"
    by (auto simp: sent_HttpReqAuthPostFile_p0 dest: timeout_p0 split: option.splits)
qed

theorem client_timeout_by_file_witness:
  "(\<exists>c rq. sent (sendHttpReq_p0 demo ''GET'' ''http://h/ok'' [] [] [] None None 5) = Some (c, rq)
      \<and>
      sint (Timeout c) = 5000000000)
   \<and>
   (\<exists>c rq. sent (sendHttpReq_p1 demo ''GET'' ''http://h/ok'' [] [] [] None None) = Some (c, rq) \<and>
      sint (Timeout c) = 30000000000)
   \<and>
   (\<exists>c rq. sent (sendHttpReq_hu demo ''GET'' ''http://h/ok'' [] [] None) = Some (c, rq) \<and>
      Timeout c = 0)
   \<and>
   (\<exists>c rq. sent (HttpReqXML_hu demo ''GET'' ''http://h/ok'' [] None None (Some False)) = Some (c,
       rq) \<and>
      Timeout c = 0)
   \<and>
   (\<exists>c rq. sent (HttpReqJSON_hu demo ''GET'' ''http://h/ok'' [] None None (Some False)) = Some (c,
       rq) \<and>
      Timeout c = 0)
   \<and>
   (\<exists>c rq. sent (HttpReqAuthXML_p0 demo ''GET'' ''http://h/ok'' [] [] None None None 5 (Some
       False)) = Some (c, rq) \<and>
      sint (Timeout c) = 5000000000)
   \<and>
   (\<exists>c rq. sent (HttpReqAuthJSON_p0 demo ''GET'' ''http://h/ok'' [] [] None None None 5 (Some
       False)) = Some (c, rq) \<and>
      sint (Timeout c) = 5000000000)
   \<and>
   (\<exists>c rq. sent (HttpReqXML_p0 demo ''GET'' ''http://h/ok'' [] None None None 5 (Some False)) =
       Some (c, rq) \<and>
      sint (Timeout c) = 5000000000)
   \<and>
   (\<exists>c rq. sent (HttpReqJSON_p0 demo ''GET'' ''http://h/ok'' [] None None None 5 (Some False)) =
       Some (c, rq) \<and>
      sint (Timeout c) = 5000000000)
   \<and>
   (\<exists>c rq. sent (HttpReqPostFormJSON_p0 demo ''http://h/ok'' [] None None None 5 (Some False)) =
       Some (c, rq) \<and>
      sint (Timeout c) = 5000000000)
   \<and>
   (\<exists>c rq. sent (HttpReqPostFormXML_p0 demo ''http://h/ok'' [] None None None 5 (Some False)) =
       Some (c, rq) \<and>
      sint (Timeout c) = 5000000000)
   \<and>
   (\<exists>c rq. sent (HttpReqAuthXML_p1 demo ''GET'' ''http://h/ok'' [] [] None None None (Some False))
       = Some (c, rq) \<and>
      sint (Timeout c) = 30000000000)
   \<and>
   (\<exists>c rq. sent (HttpReqAuthJSON_p1 demo ''GET'' ''http://h/ok'' [] [] None None None (Some
       False)) = Some (c, rq) \<and>
      sint (Timeout c) = 30000000000)
   \<and>
   (\<exists>c rq. sent (HttpReqXML_p1 demo ''GET'' ''http://h/ok'' [] None None None (Some False)) = Some
       (c, rq) \<and>
      sint (Timeout c) = 30000000000)
   \<and>
   (\<exists>c rq. sent (HttpReqJSON_p1 demo ''GET'' ''http://h/ok'' [] None None None (Some False)) =
       Some (c, rq) \<and>
      sint (Timeout c) = 30000000000)
   \<and>
   (\<exists>c rq. sent (HttpReqPostFormJSON_p1 demo ''http://h/ok'' [] None None None (Some False)) =
       Some (c, rq) \<and>
      sint (Timeout c) = 30000000000)
   \<and>
   (\<exists>c rq. sent (HttpReqPostFormXML_p1 demo ''http://h/ok'' [] None None None (Some False)) = Some
       (c, rq) \<and>
      sint (Timeout c) = 30000000000)
   \<and>
   (\<exists>c rq. sent (HttpReqPostFile_p0 demo ''http://h/ok'' [] \<lparr>Key = ''file'', FileName = ''f.txt'',
       Content = ''hi''\<rparr> None None None 5 (Some False)) = Some (c, rq) \<and>
      sint (Timeout c) = 5000000000)
   \<and>
   (\<exists>c rq. sent (httpReqAuthFile_p0 demo ''GET'' ''http://h/ok'' [] [] \<lparr>Key = ''file'', FileName =
       ''f.txt'', Content = ''hi''\<rparr> None None None 5 (Some False)) = Some (c, rq) \<and>
      sint (Timeout c) = 5000000000)
   \<and>
   (\<exists>c rq. sent (HttpReqAuthPutFile_p0 demo ''http://h/ok'' [] [] \<lparr>Key = ''file'', FileName =
       ''f.txt'', Content = ''hi''\<rparr> None None None 5 (Some False)) = Some (c, rq) \<and>
      sint (Timeout c) = 5000000000)
   \<and>
   (\<exists>c rq. sent (HttpReqAuthPostFile_p0 demo ''http://h/ok'' [] [] \<lparr>Key = ''file'', FileName =
       ''f.txt'', Content = ''hi''\<rparr> None None None 5 (Some False)) = Some (c, rq) \<and>
      sint (Timeout c) = 5000000000)"
proof -
  note T = client_timeout_by_file [where w = "demo" and m = "''GET''" and u = "''http://h/ok''"
      and tok = "[]" and b = "[]" and hl = "[]" and hs = "None" and ck = "None" and tr = "None"
      and tmo = "5" and rs = "(Some False)" and ps = "[]" and pf = "\<lparr>Key = ''file'', FileName =
      ''f.txt'', Content = ''hi''\<rparr>"]
  note T0 = T [THEN conjunct1]
  note T1 = T [THEN conjunct2, THEN conjunct1]
  note T2 = T [THEN conjunct2, THEN conjunct2, THEN conjunct1]
  note T3 = T [THEN conjunct2, THEN conjunct2, THEN conjunct2, THEN conjunct1]
  note T4 = T [THEN conjunct2, THEN conjunct2, THEN conjunct2, THEN conjunct2, THEN conjunct1]
  note T5 = T [THEN conjunct2, THEN conjunct2, THEN conjunct2, THEN conjunct2, THEN conjunct2,
      THEN conjunct1]
  note T6 = T [THEN conjunct2, THEN conjunct2, THEN conjunct2, THEN conjunct2, THEN conjunct2,
      THEN conjunct2, THEN conjunct1]
  note T7 = T [THEN conjunct2, THEN conjunct2, THEN conjunct2, THEN conjunct2, THEN conjunct2,
      THEN conjunct2, THEN conjunct2, THEN conjunct1]
  note T8 = T [THEN conjunct2, THEN conjunct2, THEN conjunct2, THEN conjunct2, THEN conjunct2,
      THEN conjunct2, THEN conjunct2, THEN conjunct2, THEN conjunct1]
  note T9 = T [THEN conjunct2, THEN conjunct2, THEN conjunct2, THEN conjunct2, THEN conjunct2,
      THEN conjunct2, THEN conjunct2, THEN conjunct2, THEN conjunct2, THEN conjunct1]
  note T10 = T [THEN conjunct2, THEN conjunct2, THEN conjunct2, THEN conjunct2, THEN conjunct2,
      THEN conjunct2, THEN conjunct2, THEN conjunct2, THEN conjunct2, THEN conjunct2, THEN
      conjunct1]
  note T11 = T [THEN conjunct2, THEN conjunct2, THEN conjunct2, THEN conjunct2, THEN conjunct2,
      THEN conjunct2, THEN conjunct2, THEN conjunct2, THEN conjunct2, THEN conjunct2, THEN
      conjunct2, THEN conjunct1]
  note T12 = T [THEN conjunct2, THEN conjunct2, THEN conjunct2, THEN conjunct2, THEN conjunct2,
      THEN conjunct2, THEN conjunct2, THEN conjunct2, THEN conjunct2, THEN conjunct2, THEN
      conjunct2, THEN conjunct2, THEN conjunct1]
  note T13 = T [THEN conjunct2, THEN conjunct2, THEN conjunct2, THEN conjunct2, THEN conjunct2,
      THEN conjunct2, THEN conjunct2, THEN conjunct2, THEN conjunct2, THEN conjunct2, THEN
      conjunct2, THEN conjunct2, THEN conjunct2, THEN conjunct1]
  note T14 = T [THEN conjunct2, THEN conjunct2, THEN conjunct2, THEN conjunct2, THEN conjunct2,
      THEN conjunct2, THEN conjunct2, THEN conjunct2, THEN conjunct2, THEN conjunct2, THEN
      conjunct2, THEN conjunct2, THEN conjunct2, THEN conjunct2, THEN conjunct1]
  note T15 = T [THEN conjunct2, THEN conjunct2, THEN conjunct2, THEN conjunct2, THEN conjunct2,
      THEN conjunct2, THEN conjunct2, THEN conjunct2, THEN conjunct2, THEN conjunct2, THEN
      conjunct2, THEN conjunct2, THEN conjunct2, THEN conjunct2, THEN conjunct2, THEN conjunct1]
  note T16 = T [THEN conjunct2, THEN conjunct2, THEN conjunct2, THEN conjunct2, THEN conjunct2,
      THEN conjunct2, THEN conjunct2, THEN conjunct2, THEN conjunct2, THEN conjunct2, THEN
      conjunct2, THEN conjunct2, THEN conjunct2, THEN conjunct2, THEN conjunct2, THEN conjunct2,
      THEN conjunct1]
  note T17 = T [THEN conjunct2, THEN conjunct2, THEN conjunct2, THEN conjunct2, THEN conjunct2,
      THEN conjunct2, THEN conjunct2, THEN conjunct2, THEN conjunct2, THEN conjunct2, THEN
      conjunct2, THEN conjunct2, THEN conjunct2, THEN conjunct2, THEN conjunct2, THEN conjunct2,
      THEN conjunct2, THEN conjunct1]
  note T18 = T [THEN conjunct2, THEN conjunct2, THEN conjunct2, THEN conjunct2, THEN conjunct2,
      THEN conjunct2, THEN conjunct2, THEN conjunct2, THEN conjunct2, THEN conjunct2, THEN
      conjunct2, THEN conjunct2, THEN conjunct2, THEN conjunct2, THEN conjunct2, THEN conjunct2,
      THEN conjunct2, THEN conjunct2, THEN conjunct1]
  note T19 = T [THEN conjunct2, THEN conjunct2, THEN conjunct2, THEN conjunct2, THEN conjunct2,
      THEN conjunct2, THEN conjunct2, THEN conjunct2, THEN conjunct2, THEN conjunct2, THEN
      conjunct2, THEN conjunct2, THEN conjunct2, THEN conjunct2, THEN conjunct2, THEN conjunct2,
      THEN conjunct2, THEN conjunct2, THEN conjunct2, THEN conjunct1]
  note T20 = T [THEN conjunct2, THEN conjunct2, THEN conjunct2, THEN conjunct2, THEN conjunct2,
      THEN conjunct2, THEN conjunct2, THEN conjunct2, THEN conjunct2, THEN conjunct2, THEN
      conjunct2, THEN conjunct2, THEN conjunct2, THEN conjunct2, THEN conjunct2, THEN conjunct2,
      THEN conjunct2, THEN conjunct2, THEN conjunct2, THEN conjunct2]
  have b: "sint (5 :: 64 word) \<le> 9223372036"
    by simp
  have s: "timeout_seconds 5 * 1000000000 = 5000000000"
    by (simp add: timeout_seconds_def)
  have e0: "\<exists>c rq. sent (sendHttpReq_p0 demo ''GET'' ''http://h/ok'' [] [] [] None None 5) = Some
      (c, rq)"
    by (simp add: sendHttpReq_p0_eq sendHttpReq_p1_eq sendHttpReq_hu_eq sent_after_Do demo_eval
        ascii_TrimSpace_def ascii_upper_def ascii_space_def with_content_type_def
        with_content_type_if_absent_def text_fields_def)
  have w0: "\<exists>c rq. sent (sendHttpReq_p0 demo ''GET'' ''http://h/ok'' [] [] [] None None 5) = Some
      (c, rq) \<and>
      sint (Timeout c) = 5000000000"
    using e0 T0 b s by auto
  have e1: "\<exists>c rq. sent (sendHttpReq_p1 demo ''GET'' ''http://h/ok'' [] [] [] None None) = Some
      (c, rq)"
    by (simp add: sendHttpReq_p0_eq sendHttpReq_p1_eq sendHttpReq_hu_eq sent_after_Do demo_eval
        ascii_TrimSpace_def ascii_upper_def ascii_space_def with_content_type_def
        with_content_type_if_absent_def text_fields_def)
  have w1: "\<exists>c rq. sent (sendHttpReq_p1 demo ''GET'' ''http://h/ok'' [] [] [] None None) = Some
      (c, rq) \<and>
      sint (Timeout c) = 30000000000"
    using e1 T1 b s by auto
  have e2: "\<exists>c rq. sent (sendHttpReq_hu demo ''GET'' ''http://h/ok'' [] [] None) = Some (c, rq)"
    by (simp add: sendHttpReq_p0_eq sendHttpReq_p1_eq sendHttpReq_hu_eq sent_after_Do demo_eval
        ascii_TrimSpace_def ascii_upper_def ascii_space_def with_content_type_def
        with_content_type_if_absent_def text_fields_def)
  have w2: "\<exists>c rq. sent (sendHttpReq_hu demo ''GET'' ''http://h/ok'' [] [] None) = Some (c, rq) \<and>
      Timeout c = 0"
    using e2 T2 b s by auto
  have e3: "\<exists>c rq. sent (HttpReqXML_hu demo ''GET'' ''http://h/ok'' [] None None (Some False)) =
      Some (c, rq)"
    by (simp add: sent_HttpReqXML_hu sendHttpReq_p0_eq sendHttpReq_p1_eq sendHttpReq_hu_eq
        sent_after_Do demo_eval ascii_TrimSpace_def ascii_upper_def ascii_space_def
        with_content_type_def with_content_type_if_absent_def text_fields_def)
  have w3: "\<exists>c rq. sent (HttpReqXML_hu demo ''GET'' ''http://h/ok'' [] None None (Some False)) =
      Some (c, rq) \<and>
      Timeout c = 0"
    using e3 T3 b s by auto
  have e4: "\<exists>c rq. sent (HttpReqJSON_hu demo ''GET'' ''http://h/ok'' [] None None (Some False)) =
      Some (c, rq)"
    by (simp add: sent_HttpReqJSON_hu sendHttpReq_p0_eq sendHttpReq_p1_eq sendHttpReq_hu_eq
        sent_after_Do demo_eval ascii_TrimSpace_def ascii_upper_def ascii_space_def
        with_content_type_def with_content_type_if_absent_def text_fields_def)
  have w4: "\<exists>c rq. sent (HttpReqJSON_hu demo ''GET'' ''http://h/ok'' [] None None (Some False)) =
      Some (c, rq) \<and>
      Timeout c = 0"
    using e4 T4 b s by auto
  have e5: "\<exists>c rq. sent (HttpReqAuthXML_p0 demo ''GET'' ''http://h/ok'' [] [] None None None 5
      (Some False)) = Some (c, rq)"
    by (simp add: sent_HttpReqAuthXML_p0 sendHttpReq_p0_eq sendHttpReq_p1_eq sendHttpReq_hu_eq
        sent_after_Do demo_eval ascii_TrimSpace_def ascii_upper_def ascii_space_def
        with_content_type_def with_content_type_if_absent_def text_fields_def)
  have w5: "\<exists>c rq. sent (HttpReqAuthXML_p0 demo ''GET'' ''http://h/ok'' [] [] None None None 5
      (Some False)) = Some (c, rq) \<and>
      sint (Timeout c) = 5000000000"
    using e5 T5 b s by auto
  have e6: "\<exists>c rq. sent (HttpReqAuthJSON_p0 demo ''GET'' ''http://h/ok'' [] [] None None None 5
      (Some False)) = Some (c, rq)"
    by (simp add: sent_HttpReqAuthJSON_p0 sendHttpReq_p0_eq sendHttpReq_p1_eq sendHttpReq_hu_eq
        sent_after_Do demo_eval ascii_TrimSpace_def ascii_upper_def ascii_space_def
        with_content_type_def with_content_type_if_absent_def text_fields_def)
  have w6: "\<exists>c rq. sent (HttpReqAuthJSON_p0 demo ''GET'' ''http://h/ok'' [] [] None None None 5
      (Some False)) = Some (c, rq) \<and>
      sint (Timeout c) = 5000000000"
    using e6 T6 b s by auto
  have e7: "\<exists>c rq. sent (HttpReqXML_p0 demo ''GET'' ''http://h/ok'' [] None None None 5 (Some
      False)) = Some (c, rq)"
    by (simp add: sent_HttpReqXML_p0 sendHttpReq_p0_eq sendHttpReq_p1_eq sendHttpReq_hu_eq
        sent_after_Do demo_eval ascii_TrimSpace_def ascii_upper_def ascii_space_def
        with_content_type_def with_content_type_if_absent_def text_fields_def)
  have w7: "\<exists>c rq. sent (HttpReqXML_p0 demo ''GET'' ''http://h/ok'' [] None None None 5 (Some
      False)) = Some (c, rq) \<and>
      sint (Timeout c) = 5000000000"
    using e7 T7 b s by auto
  have e8: "\<exists>c rq. sent (HttpReqJSON_p0 demo ''GET'' ''http://h/ok'' [] None None None 5 (Some
      False)) = Some (c, rq)"
    by (simp add: sent_HttpReqJSON_p0 sendHttpReq_p0_eq sendHttpReq_p1_eq sendHttpReq_hu_eq
        sent_after_Do demo_eval ascii_TrimSpace_def ascii_upper_def ascii_space_def
        with_content_type_def with_content_type_if_absent_def text_fields_def)
  have w8: "\<exists>c rq. sent (HttpReqJSON_p0 demo ''GET'' ''http://h/ok'' [] None None None 5 (Some
      False)) = Some (c, rq) \<and>
      sint (Timeout c) = 5000000000"
    using e8 T8 b s by auto
  have e9: "\<exists>c rq. sent (HttpReqPostFormJSON_p0 demo ''http://h/ok'' [] None None None 5 (Some
      False)) = Some (c, rq)"
    by (simp add: sent_HttpReqPostFormJSON_p0 sendHttpReq_p0_eq sendHttpReq_p1_eq
        sendHttpReq_hu_eq sent_after_Do demo_eval ascii_TrimSpace_def ascii_upper_def
        ascii_space_def with_content_type_def with_content_type_if_absent_def text_fields_def)
  have w9: "\<exists>c rq. sent (HttpReqPostFormJSON_p0 demo ''http://h/ok'' [] None None None 5 (Some
      False)) = Some (c, rq) \<and>
      sint (Timeout c) = 5000000000"
    using e9 T9 b s by auto
  have e10: "\<exists>c rq. sent (HttpReqPostFormXML_p0 demo ''http://h/ok'' [] None None None 5 (Some
      False)) = Some (c, rq)"
    by (simp add: sent_HttpReqPostFormXML_p0 sendHttpReq_p0_eq sendHttpReq_p1_eq sendHttpReq_hu_eq
        sent_after_Do demo_eval ascii_TrimSpace_def ascii_upper_def ascii_space_def
        with_content_type_def with_content_type_if_absent_def text_fields_def)
  have w10: "\<exists>c rq. sent (HttpReqPostFormXML_p0 demo ''http://h/ok'' [] None None None 5 (Some
      False)) = Some (c, rq) \<and>
      sint (Timeout c) = 5000000000"
    using e10 T10 b s by auto
  have e11: "\<exists>c rq. sent (HttpReqAuthXML_p1 demo ''GET'' ''http://h/ok'' [] [] None None None
      (Some False)) = Some (c, rq)"
    by (simp add: sent_HttpReqAuthXML_p1 sendHttpReq_p0_eq sendHttpReq_p1_eq sendHttpReq_hu_eq
        sent_after_Do demo_eval ascii_TrimSpace_def ascii_upper_def ascii_space_def
        with_content_type_def with_content_type_if_absent_def text_fields_def)
  have w11: "\<exists>c rq. sent (HttpReqAuthXML_p1 demo ''GET'' ''http://h/ok'' [] [] None None None
      (Some False)) = Some (c, rq) \<and>
      sint (Timeout c) = 30000000000"
    using e11 T11 b s by auto
  have e12: "\<exists>c rq. sent (HttpReqAuthJSON_p1 demo ''GET'' ''http://h/ok'' [] [] None None None
      (Some False)) = Some (c, rq)"
    by (simp add: sent_HttpReqAuthJSON_p1 sendHttpReq_p0_eq sendHttpReq_p1_eq sendHttpReq_hu_eq
        sent_after_Do demo_eval ascii_TrimSpace_def ascii_upper_def ascii_space_def
        with_content_type_def with_content_type_if_absent_def text_fields_def)
  have w12: "\<exists>c rq. sent (HttpReqAuthJSON_p1 demo ''GET'' ''http://h/ok'' [] [] None None None
      (Some False)) = Some (c, rq) \<and>
      sint (Timeout c) = 30000000000"
    using e12 T12 b s by auto
  have e13: "\<exists>c rq. sent (HttpReqXML_p1 demo ''GET'' ''http://h/ok'' [] None None None (Some
      False)) = Some (c, rq)"
    by (simp add: sent_HttpReqXML_p1 sendHttpReq_p0_eq sendHttpReq_p1_eq sendHttpReq_hu_eq
        sent_after_Do demo_eval ascii_TrimSpace_def ascii_upper_def ascii_space_def
        with_content_type_def with_content_type_if_absent_def text_fields_def)
  have w13: "\<exists>c rq. sent (HttpReqXML_p1 demo ''GET'' ''http://h/ok'' [] None None None (Some
      False)) = Some (c, rq) \<and>
      sint (Timeout c) = 30000000000"
    using e13 T13 b s by auto
  have e14: "\<exists>c rq. sent (HttpReqJSON_p1 demo ''GET'' ''http://h/ok'' [] None None None (Some
      False)) = Some (c, rq)"
    by (simp add: sent_HttpReqJSON_p1 sendHttpReq_p0_eq sendHttpReq_p1_eq sendHttpReq_hu_eq
        sent_after_Do demo_eval ascii_TrimSpace_def ascii_upper_def ascii_space_def
        with_content_type_def with_content_type_if_absent_def text_fields_def)
  have w14: "\<exists>c rq. sent (HttpReqJSON_p1 demo ''GET'' ''http://h/ok'' [] None None None (Some
      False)) = Some (c, rq) \<and>
      sint (Timeout c) = 30000000000"
    using e14 T14 b s by auto
  have e15: "\<exists>c rq. sent (HttpReqPostFormJSON_p1 demo ''http://h/ok'' [] None None None (Some
      False)) = Some (c, rq)"
    by (simp add: sent_HttpReqPostFormJSON_p1 sendHttpReq_p0_eq sendHttpReq_p1_eq
        sendHttpReq_hu_eq sent_after_Do demo_eval ascii_TrimSpace_def ascii_upper_def
        ascii_space_def with_content_type_def with_content_type_if_absent_def text_fields_def)
  have w15: "\<exists>c rq. sent (HttpReqPostFormJSON_p1 demo ''http://h/ok'' [] None None None (Some
      False)) = Some (c, rq) \<and>
      sint (Timeout c) = 30000000000"
    using e15 T15 b s by auto
  have e16: "\<exists>c rq. sent (HttpReqPostFormXML_p1 demo ''http://h/ok'' [] None None None (Some
      False)) = Some (c, rq)"
    by (simp add: sent_HttpReqPostFormXML_p1 sendHttpReq_p0_eq sendHttpReq_p1_eq sendHttpReq_hu_eq
        sent_after_Do demo_eval ascii_TrimSpace_def ascii_upper_def ascii_space_def
        with_content_type_def with_content_type_if_absent_def text_fields_def)
  have w16: "\<exists>c rq. sent (HttpReqPostFormXML_p1 demo ''http://h/ok'' [] None None None (Some
      False)) = Some (c, rq) \<and>
      sint (Timeout c) = 30000000000"
    using e16 T16 b s by auto
  have e17: "\<exists>c rq. sent (HttpReqPostFile_p0 demo ''http://h/ok'' [] \<lparr>Key = ''file'', FileName =
      ''f.txt'', Content = ''hi''\<rparr> None None None 5 (Some False)) = Some (c, rq)"
    by (simp add: sent_HttpReqPostFile_p0 sendHttpReq_p0_eq sendHttpReq_p1_eq sendHttpReq_hu_eq
        sent_after_Do demo_eval ascii_TrimSpace_def ascii_upper_def ascii_space_def
        with_content_type_def with_content_type_if_absent_def text_fields_def)
  have w17: "\<exists>c rq. sent (HttpReqPostFile_p0 demo ''http://h/ok'' [] \<lparr>Key = ''file'', FileName =
      ''f.txt'', Content = ''hi''\<rparr> None None None 5 (Some False)) = Some (c, rq) \<and>
      sint (Timeout c) = 5000000000"
    using e17 T17 b s by auto
  have e18: "\<exists>c rq. sent (httpReqAuthFile_p0 demo ''GET'' ''http://h/ok'' [] [] \<lparr>Key = ''file'',
      FileName = ''f.txt'', Content = ''hi''\<rparr> None None None 5 (Some False)) = Some (c, rq)"
    by (simp add: sent_httpReqAuthFile_p0 sendHttpReq_p0_eq sendHttpReq_p1_eq sendHttpReq_hu_eq
        sent_after_Do demo_eval ascii_TrimSpace_def ascii_upper_def ascii_space_def
        with_content_type_def with_content_type_if_absent_def text_fields_def)
  have w18: "\<exists>c rq. sent (httpReqAuthFile_p0 demo ''GET'' ''http://h/ok'' [] [] \<lparr>Key = ''file'',
      FileName = ''f.txt'', Content = ''hi''\<rparr> None None None 5 (Some False)) = Some (c, rq) \<and>
      sint (Timeout c) = 5000000000"
    using e18 T18 b s by auto
  have e19: "\<exists>c rq. sent (HttpReqAuthPutFile_p0 demo ''http://h/ok'' [] [] \<lparr>Key = ''file'',
      FileName = ''f.txt'', Content = ''hi''\<rparr> None None None 5 (Some False)) = Some (c, rq)"
    by (simp add: sent_HttpReqAuthPutFile_p0 sendHttpReq_p0_eq sendHttpReq_p1_eq sendHttpReq_hu_eq
        sent_after_Do demo_eval ascii_TrimSpace_def ascii_upper_def ascii_space_def
        with_content_type_def with_content_type_if_absent_def text_fields_def)
  have w19: "\<exists>c rq. sent (HttpReqAuthPutFile_p0 demo ''http://h/ok'' [] [] \<lparr>Key = ''file'',
      FileName = ''f.txt'', Content = ''hi''\<rparr> None None None 5 (Some False)) = Some (c, rq) \<and>
      sint (Timeout c) = 5000000000"
    using e19 T19 b s by auto
  have e20: "\<exists>c rq. sent (HttpReqAuthPostFile_p0 demo ''http://h/ok'' [] [] \<lparr>Key = ''file'',
      FileName = ''f.txt'', Content = ''hi''\<rparr> None None None 5 (Some False)) = Some (c, rq)"
    by (simp add: sent_HttpReqAuthPostFile_p0 sendHttpReq_p0_eq sendHttpReq_p1_eq
        sendHttpReq_hu_eq sent_after_Do demo_eval ascii_TrimSpace_def ascii_upper_def
        ascii_space_def with_content_type_def with_content_type_if_absent_def text_fields_def)
  have w20: "\<exists>c rq. sent (HttpReqAuthPostFile_p0 demo ''http://h/ok'' [] [] \<lparr>Key = ''file'',
      FileName = ''f.txt'', Content = ''hi''\<rparr> None None None 5 (Some False)) = Some (c, rq) \<and>
      sint (Timeout c) = 5000000000"
    using e20 T20 b s by auto
  show ?thesis
    by (intro conjI) (rule w0, rule w1, rule w2, rule w3, rule w4, rule w5, rule w6, rule w7, rule
        w8, rule w9, rule w10, rule w11, rule w12, rule w13, rule w14, rule w15, rule w16, rule
        w17, rule w18, rule w19, rule w20)
qed

text \<open>
  C4, as the claim states it, fails twice. In \<^verbatim>\<open>http-utils.go\<close> the client is
  \<^verbatim>\<open>&http.Client{}\<close>: the request goes out with the \<open>Timeout\<close> 0, which is neither 30
  seconds nor any limit. In \<^verbatim>\<open>part_000\<close> the positive \<^verbatim>\<open>timeout\<close> 9223372037 gives a
  negative \<open>Timeout\<close>, again no limit.
\<close>

theorem timeout_claim_counterexample:
  "sent (sendHttpReq_hu demo ''GET'' ''http://h/ok'' [] [] None) =
     Some (\<lparr>Timeout = 0, Transport = None\<rparr>,
           \<lparr>Method = ''GET'',
            ReqURL = \<lparr>Scheme = ''http'', Host = ''h'', Path = ''/ok'', RawQuery = [],
                      Fragment = []\<rparr>,
            Cookies = [], Header = [], ReqBody = []\<rparr>)
   \<and> (0 :: 64 word) \<noteq> 30 * Second
   \<and>
   sent (sendHttpReq_p0 demo ''GET'' ''http://h/ok'' [] [] [] None None 9223372037) =
     Some (\<lparr>Timeout = 9223372037 * Second, Transport = None\<rparr>,
           \<lparr>Method = ''GET'',
            ReqURL = \<lparr>Scheme = ''http'', Host = ''h'', Path = ''/ok'', RawQuery = [],
                      Fragment = []\<rparr>,
            Cookies = [], Header = [], ReqBody = []\<rparr>)
   \<and> 0 < sint (9223372037 :: 64 word)
   \<and> sint (9223372037 * Second) = - 9223372036709551616"
  by (simp add: sendHttpReq_p0_eq sendHttpReq_hu_eq demo_eval)

section \<open>The method of the request\<close>

text \<open>
  Nine of the ten entry functions that take a method send the request with the method
  trimmed and in upper case (an empty method is GET for \<^verbatim>\<open>http.NewRequest\<close>).
\<close>

lemma method_of_sent:
  "sent (sendHttpReq_p0 w m u tok d h ck tr tmo) = Some (c, rq) \<Longrightarrow>
   Method rq = (if m = [] then ''GET'' else m)"
  "sent (sendHttpReq_p1 w m u tok d h ck tr) = Some (c, rq) \<Longrightarrow>
   Method rq = (if m = [] then ''GET'' else m)"
  "sent (sendHttpReq_hu w m u d h ck) = Some (c, rq) \<Longrightarrow>
   Method rq = (if m = [] then ''GET'' else m)"
  by (auto elim!: sent_cases_p0 sent_cases_p1 sent_cases_hu
      simp: equip_fields NewRequest_fields)

lemma method_is_normalized:
  shows "sent (HttpReqJSON_hu w m u b hs ck rs) = Some (c, rq) \<Longrightarrow>
         Method rq =
           (if strings_TrimSpace w (strings_ToUpper w m) = [] then ''GET''
            else strings_TrimSpace w (strings_ToUpper w m))"
    and "sent (HttpReqAuthXML_p0 w m u tok b hs ck tr tmo rs) = Some (c, rq) \<Longrightarrow>
         Method rq =
           (if strings_TrimSpace w (strings_ToUpper w m) = [] then ''GET''
            else strings_TrimSpace w (strings_ToUpper w m))"
    and "sent (HttpReqAuthJSON_p0 w m u tok b hs ck tr tmo rs) = Some (c, rq) \<Longrightarrow>
         Method rq =
           (if strings_TrimSpace w (strings_ToUpper w m) = [] then ''GET''
            else strings_TrimSpace w (strings_ToUpper w m))"
    and "sent (HttpReqXML_p0 w m u b hs ck tr tmo rs) = Some (c, rq) \<Longrightarrow>
         Method rq =
           (if strings_TrimSpace w (strings_ToUpper w m) = [] then ''GET''
            else strings_TrimSpace w (strings_ToUpper w m))"
    and "sent (HttpReqJSON_p0 w m u b hs ck tr tmo rs) = Some (c, rq) \<Longrightarrow>
         Method rq =
           (if strings_TrimSpace w (strings_ToUpper w m) = [] then ''GET''
            else strings_TrimSpace w (strings_ToUpper w m))"
    and "sent (HttpReqAuthXML_p1 w m u tok b hs ck tr rs) = Some (c, rq) \<Longrightarrow>
         Method rq =
           (if strings_TrimSpace w (strings_ToUpper w m) = [] then ''GET''
            else strings_TrimSpace w (strings_ToUpper w m))"
    and "sent (HttpReqAuthJSON_p1 w m u tok b hs ck tr rs) = Some (c, rq) \<Longrightarrow>
         Method rq =
           (if strings_TrimSpace w (strings_ToUpper w m) = [] then ''GET''
            else strings_TrimSpace w (strings_ToUpper w m))"
    and "sent (HttpReqXML_p1 w m u b hs ck tr rs) = Some (c, rq) \<Longrightarrow>
         Method rq =
           (if strings_TrimSpace w (strings_ToUpper w m) = [] then ''GET''
            else strings_TrimSpace w (strings_ToUpper w m))"
    and "sent (HttpReqJSON_p1 w m u b hs ck tr rs) = Some (c, rq) \<Longrightarrow>
         Method rq =
           (if strings_TrimSpace w (strings_ToUpper w m) = [] then ''GET''
            else strings_TrimSpace w (strings_ToUpper w m))"
  by (simp_all add: sent_HttpReqJSON_hu sent_HttpReqAuthXML_p0 sent_HttpReqAuthJSON_p0
      sent_HttpReqXML_p0 sent_HttpReqJSON_p0 sent_HttpReqAuthXML_p1 sent_HttpReqAuthJSON_p1
      sent_HttpReqXML_p1 sent_HttpReqJSON_p1 method_of_sent)

text \<open>\<^verbatim>\<open>HttpReqXML\<close> of \<^verbatim>\<open>http-utils.go\<close> sends the method as the caller wrote it.\<close>

lemma method_of_HttpReqXML_hu:
  "sent (HttpReqXML_hu w m u b hs ck rs) = Some (c, rq) \<Longrightarrow>
   Method rq = (if m = [] then ''GET'' else m)"
  by (simp add: sent_HttpReqXML_hu method_of_sent)

text \<open>
  C5. The claim is that every entry function with a method parameter sends
  \<open>TrimSpace(ToUpper(method))\<close>. \<^verbatim>\<open>HttpReqXML\<close> of \<^verbatim>\<open>http-utils.go\<close> does not: called
  with the method \<open>get\<close> it sends a request with the method \<open>get\<close>, where
  \<open>TrimSpace(ToUpper(get))\<close> is \<open>GET\<close>; \<^verbatim>\<open>HttpReqJSON\<close> of the same file sends \<open>GET\<close>.
\<close>

theorem HttpReqXML_hu_sends_method_as_given:
  "sent (HttpReqXML_hu demo ''get'' ''http://h/xml'' [] None None (Some False)) =
     Some (\<lparr>Timeout = 0, Transport = None\<rparr>,
           \<lparr>Method = ''get'',
            ReqURL = \<lparr>Scheme = ''http'', Host = ''h'', Path = ''/xml'', RawQuery = [],
                      Fragment = []\<rparr>,
            Cookies = [], Header = [(''Content-Type'', ''text/xml'')], ReqBody = []\<rparr>)
   \<and>
   strings_TrimSpace demo (strings_ToUpper demo ''get'') = ''GET''
   \<and>
   sent (HttpReqJSON_hu demo ''get'' ''http://h/ok'' [] None None (Some False)) =
     Some (\<lparr>Timeout = 0, Transport = None\<rparr>,
           \<lparr>Method = ''GET'',
            ReqURL = \<lparr>Scheme = ''http'', Host = ''h'', Path = ''/ok'', RawQuery = [],
                      Fragment = []\<rparr>,
            Cookies = [], Header = [(''Content-Type'', ''application/json'')],
            ReqBody = []\<rparr>)"
  by (simp add: sent_HttpReqXML_hu sent_HttpReqJSON_hu sendHttpReq_hu_eq sent_after_Do
      demo_eval ascii_TrimSpace_def ascii_upper_def ascii_space_def with_content_type_def)

section \<open>The headers of the entry functions\<close>

text \<open>
  C3. Every public entry function called with no headers map makes a map with the one
  entry \<open>Content-Type\<close> of its variant; called with a map, it sets \<open>Content-Type\<close> in
  that map whatever the map held, and leaves the other keys; \<^verbatim>\<open>HttpReqPostFormXML\<close>
  alone sets it only when the map has no such key. The three upload functions reach
  the header step when the multipart writer accepted the file part.
\<close>

theorem content_type_by_variant:
  "content_type_rule ''text/xml'' hs
     (HttpReqXML_hu w m u b hs ck rs)
   \<and>
   content_type_rule ''application/json'' hs
     (HttpReqJSON_hu w m u b hs ck rs)
   \<and>
   content_type_rule ''text/xml'' hs
     (HttpReqAuthXML_p0 w m u tok b hs ck tr tmo rs)
   \<and>
   content_type_rule ''application/json'' hs
     (HttpReqAuthJSON_p0 w m u tok b hs ck tr tmo rs)
   \<and>
   content_type_rule ''text/xml'' hs
     (HttpReqXML_p0 w m u b hs ck tr tmo rs)
   \<and>
   content_type_rule ''application/json'' hs
     (HttpReqJSON_p0 w m u b hs ck tr tmo rs)
   \<and>
   content_type_rule ''application/x-www-form-urlencoded'' hs
     (HttpReqPostFormJSON_p0 w u b hs ck tr tmo rs)
   \<and>
   content_type_if_absent_rule ''application/x-www-form-urlencoded'' hs
     (HttpReqPostFormXML_p0 w u b hs ck tr tmo rs)
   \<and>
   content_type_rule ''text/xml'' hs
     (HttpReqAuthXML_p1 w m u tok b hs ck tr rs)
   \<and>
   content_type_rule ''application/json'' hs
     (HttpReqAuthJSON_p1 w m u tok b hs ck tr rs)
   \<and>
   content_type_rule ''text/xml'' hs
     (HttpReqXML_p1 w m u b hs ck tr rs)
   \<and>
   content_type_rule ''application/json'' hs
     (HttpReqJSON_p1 w m u b hs ck tr rs)
   \<and>
   content_type_rule ''application/x-www-form-urlencoded'' hs
     (HttpReqPostFormJSON_p1 w u b hs ck tr rs)
   \<and>
   content_type_if_absent_rule ''application/x-www-form-urlencoded'' hs
     (HttpReqPostFormXML_p1 w u b hs ck tr rs)
   \<and>
   (multipart_CreateFormFile w (text_fields ps) (Key pf) (FileName pf) = None \<longrightarrow>
    content_type_rule (multipart_FormDataContentType w) hs
      (HttpReqPostFile_p0 w u ps pf hs ck tr tmo rs))
   \<and>
   (multipart_CreateFormFile w (text_fields ps) (Key pf) (FileName pf) = None \<longrightarrow>
    content_type_rule (multipart_FormDataContentType w) hs
      (HttpReqAuthPutFile_p0 w u tok ps pf hs ck tr tmo rs))
   \<and>
   (multipart_CreateFormFile w (text_fields ps) (Key pf) (FileName pf) = None \<longrightarrow>
    content_type_rule (multipart_FormDataContentType w) hs
      (HttpReqAuthPostFile_p0 w u tok ps pf hs ck tr tmo rs))"
proof (intro conjI)
  show "content_type_rule ''text/xml'' hs
     (HttpReqXML_hu w m u b hs ck rs)"
    by (rule content_type_rule_with) (simp add: HttpReqXML_hu_eq headers_after_finish)
next
  show "content_type_rule ''application/json'' hs
     (HttpReqJSON_hu w m u b hs ck rs)"
    by (rule content_type_rule_with) (simp add: HttpReqJSON_hu_eq headers_after_finish)
next
  show "content_type_rule ''text/xml'' hs
     (HttpReqAuthXML_p0 w m u tok b hs ck tr tmo rs)"
    by (rule content_type_rule_with) (simp add: HttpReqAuthXML_p0_eq headers_after_finish)
next
  show "content_type_rule ''application/json'' hs
     (HttpReqAuthJSON_p0 w m u tok b hs ck tr tmo rs)"
    by (rule content_type_rule_with) (simp add: HttpReqAuthJSON_p0_eq headers_after_finish)
next
  show "content_type_rule ''text/xml'' hs
     (HttpReqXML_p0 w m u b hs ck tr tmo rs)"
    by (rule content_type_rule_with) (simp add: HttpReqXML_p0_eq headers_after_finish)
next
  show "content_type_rule ''application/json'' hs
     (HttpReqJSON_p0 w m u b hs ck tr tmo rs)"
    by (rule content_type_rule_with) (simp add: HttpReqJSON_p0_eq headers_after_finish)
next
  show "content_type_rule ''application/x-www-form-urlencoded'' hs
     (HttpReqPostFormJSON_p0 w u b hs ck tr tmo rs)"
    by (rule content_type_rule_with) (simp add: HttpReqPostFormJSON_p0_eq headers_after_finish)
next
  show "content_type_if_absent_rule ''application/x-www-form-urlencoded'' hs
     (HttpReqPostFormXML_p0 w u b hs ck tr tmo rs)"
    by (rule content_type_if_absent_rule_with) (simp add: HttpReqPostFormXML_p0_eq
        headers_after_finish)
next
  show "content_type_rule ''text/xml'' hs
     (HttpReqAuthXML_p1 w m u tok b hs ck tr rs)"
    by (rule content_type_rule_with) (simp add: HttpReqAuthXML_p1_eq headers_after_finish)
next
  show "content_type_rule ''application/json'' hs
     (HttpReqAuthJSON_p1 w m u tok b hs ck tr rs)"
    by (rule content_type_rule_with) (simp add: HttpReqAuthJSON_p1_eq headers_after_finish)
next
  show "content_type_rule ''text/xml'' hs
     (HttpReqXML_p1 w m u b hs ck tr rs)"
    by (rule content_type_rule_with) (simp add: HttpReqXML_p1_eq headers_after_finish)
next
  show "content_type_rule ''application/json'' hs
     (HttpReqJSON_p1 w m u b hs ck tr rs)"
    by (rule content_type_rule_with) (simp add: HttpReqJSON_p1_eq headers_after_finish)
next
  show "content_type_rule ''application/x-www-form-urlencoded'' hs
     (HttpReqPostFormJSON_p1 w u b hs ck tr rs)"
    by (rule content_type_rule_with) (simp add: HttpReqPostFormJSON_p1_eq headers_after_finish)
next
  show "content_type_if_absent_rule ''application/x-www-form-urlencoded'' hs
     (HttpReqPostFormXML_p1 w u b hs ck tr rs)"
    by (rule content_type_if_absent_rule_with) (simp add: HttpReqPostFormXML_p1_eq
        headers_after_finish)
next
  show "multipart_CreateFormFile w (text_fields ps) (Key pf) (FileName pf) = None \<longrightarrow>
    content_type_rule (multipart_FormDataContentType w) hs
      (HttpReqPostFile_p0 w u ps pf hs ck tr tmo rs)"
    by (auto intro!: content_type_rule_with simp: HttpReqPostFile_p0_eq headers_after_finish)
next
  show "multipart_CreateFormFile w (text_fields ps) (Key pf) (FileName pf) = None \<longrightarrow>
    content_type_rule (multipart_FormDataContentType w) hs
      (HttpReqAuthPutFile_p0 w u tok ps pf hs ck tr tmo rs)"
    by (auto intro!: content_type_rule_with simp: HttpReqAuthPutFile_p0_eq headers_after_finish)
next
  show "multipart_CreateFormFile w (text_fields ps) (Key pf) (FileName pf) = None \<longrightarrow>
    content_type_rule (multipart_FormDataContentType w) hs
      (HttpReqAuthPostFile_p0 w u tok ps pf hs ck tr tmo rs)"
    by (auto intro!: content_type_rule_with simp: HttpReqAuthPostFile_p0_eq headers_after_finish)
qed

theorem content_type_by_variant_witness:
  "multipart_CreateFormFile demo (text_fields []) ''file'' ''f.txt'' = None
   \<and>
   headers_after (HttpReqXML_hu demo ''GET'' ''http://h/ok'' [] None None None) =
     Some [(''Content-Type'', ''text/xml'')]
   \<and>
   headers_after (HttpReqJSON_hu demo ''GET'' ''http://h/ok'' [] None None None) =
     Some [(''Content-Type'', ''application/json'')]
   \<and>
   headers_after (HttpReqAuthXML_p0 demo ''GET'' ''http://h/ok'' [] [] None None None 0 None) =
     Some [(''Content-Type'', ''text/xml'')]
   \<and>
   headers_after (HttpReqAuthJSON_p0 demo ''GET'' ''http://h/ok'' [] [] None None None 0 None) =
     Some [(''Content-Type'', ''application/json'')]
   \<and>
   headers_after (HttpReqXML_p0 demo ''GET'' ''http://h/ok'' [] None None None 0 None) =
     Some [(''Content-Type'', ''text/xml'')]
   \<and>
   headers_after (HttpReqJSON_p0 demo ''GET'' ''http://h/ok'' [] None None None 0 None) =
     Some [(''Content-Type'', ''application/json'')]
   \<and>
   headers_after (HttpReqPostFormJSON_p0 demo ''http://h/ok'' [] None None None 0 None) =
     Some [(''Content-Type'', ''application/x-www-form-urlencoded'')]
   \<and>
   headers_after (HttpReqPostFormXML_p0 demo ''http://h/ok'' [] None None None 0 None) =
     Some [(''Content-Type'', ''application/x-www-form-urlencoded'')]
   \<and>
   headers_after (HttpReqAuthXML_p1 demo ''GET'' ''http://h/ok'' [] [] None None None None) =
     Some [(''Content-Type'', ''text/xml'')]
   \<and>
   headers_after (HttpReqAuthJSON_p1 demo ''GET'' ''http://h/ok'' [] [] None None None None) =
     Some [(''Content-Type'', ''application/json'')]
   \<and>
   headers_after (HttpReqXML_p1 demo ''GET'' ''http://h/ok'' [] None None None None) =
     Some [(''Content-Type'', ''text/xml'')]
   \<and>
   headers_after (HttpReqJSON_p1 demo ''GET'' ''http://h/ok'' [] None None None None) =
     Some [(''Content-Type'', ''application/json'')]
   \<and>
   headers_after (HttpReqPostFormJSON_p1 demo ''http://h/ok'' [] None None None None) =
     Some [(''Content-Type'', ''application/x-www-form-urlencoded'')]
   \<and>
   headers_after (HttpReqPostFormXML_p1 demo ''http://h/ok'' [] None None None None) =
     Some [(''Content-Type'', ''application/x-www-form-urlencoded'')]
   \<and>
   headers_after (HttpReqPostFile_p0 demo ''http://h/ok'' [] \<lparr>Key = ''file'', FileName =
       ''f.txt'', Content = ''hi''\<rparr> None None None 0 None) =
     Some [(''Content-Type'', ''multipart/form-data; boundary=b0b0'')]
   \<and>
   headers_after (HttpReqAuthPutFile_p0 demo ''http://h/ok'' [] [] \<lparr>Key = ''file'', FileName =
       ''f.txt'', Content = ''hi''\<rparr> None None None 0 None) =
     Some [(''Content-Type'', ''multipart/form-data; boundary=b0b0'')]
   \<and>
   headers_after (HttpReqAuthPostFile_p0 demo ''http://h/ok'' [] [] \<lparr>Key = ''file'', FileName =
       ''f.txt'', Content = ''hi''\<rparr> None None None 0 None) =
     Some [(''Content-Type'', ''multipart/form-data; boundary=b0b0'')]
   \<and>
   (\<exists>h'. headers_after (HttpReqXML_hu demo ''GET'' ''http://h/ok'' [] (Some [(''Content-Type'',
       ''text/plain''), (''X-Id'', ''7'')]) None None) = Some h' \<and>
      map_of h' ''Content-Type'' = Some ''text/xml'' \<and>
      map_of h' ''X-Id'' = Some ''7'')
   \<and>
   (\<exists>h'. headers_after (HttpReqJSON_p0 demo ''GET'' ''http://h/ok'' [] (Some [(''Content-Type'',
       ''text/plain''), (''X-Id'', ''7'')]) None None 0 None) = Some h' \<and>
      map_of h' ''Content-Type'' = Some ''application/json'' \<and>
      map_of h' ''X-Id'' = Some ''7'')
   \<and>
   headers_after (HttpReqPostFormXML_p0 demo ''http://h/ok'' [] (Some [(''Content-Type'',
       ''text/plain''), (''X-Id'', ''7'')]) None None 0 None) =
     Some [(''Content-Type'', ''text/plain''), (''X-Id'', ''7'')]
   \<and>
   headers_after (HttpReqPostFormXML_p1 demo ''http://h/ok'' [] (Some [(''Content-Type'',
       ''text/plain''), (''X-Id'', ''7'')]) None None None) =
     Some [(''Content-Type'', ''text/plain''), (''X-Id'', ''7'')]
   \<and>
   (\<exists>h'. headers_after (HttpReqPostFile_p0 demo ''http://h/ok'' [] \<lparr>Key = ''file'', FileName =
       ''f.txt'', Content = ''hi''\<rparr> (Some [(''Content-Type'', ''text/plain''), (''X-Id'', ''7'')])
       None None 0 None) = Some h' \<and>
      map_of h' ''Content-Type'' = Some ''multipart/form-data; boundary=b0b0'' \<and>
      map_of h' ''X-Id'' = Some ''7'')
   \<and>
   (\<exists>h'. headers_after (HttpReqAuthPutFile_p0 demo ''http://h/ok'' [] [] \<lparr>Key = ''file'', FileName
       = ''f.txt'', Content = ''hi''\<rparr> (Some [(''Content-Type'', ''text/plain''), (''X-Id'',
       ''7'')]) None None 0 None) = Some h' \<and>
      map_of h' ''Content-Type'' = Some ''multipart/form-data; boundary=b0b0'' \<and>
      map_of h' ''X-Id'' = Some ''7'')
   \<and>
   (\<exists>h'. headers_after (HttpReqAuthPostFile_p0 demo ''http://h/ok'' [] [] \<lparr>Key = ''file'',
       FileName = ''f.txt'', Content = ''hi''\<rparr> (Some [(''Content-Type'', ''text/plain''),
       (''X-Id'', ''7'')]) None None 0 None) = Some h' \<and>
      map_of h' ''Content-Type'' = Some ''multipart/form-data; boundary=b0b0'' \<and>
      map_of h' ''X-Id'' = Some ''7'')"
proof -
  note N = content_type_by_variant [where w = "demo" and m = "''GET''" and u = "''http://h/ok''"
      and tok = "[]" and b = "[]" and ck = "None" and tr = "None" and tmo = "0" and rs = "None"
      and ps = "[]" and pf = "\<lparr>Key = ''file'', FileName = ''f.txt'', Content = ''hi''\<rparr>" and hs =
      "None"]
  note S = content_type_by_variant [where w = "demo" and m = "''GET''" and u = "''http://h/ok''"
      and tok = "[]" and b = "[]" and ck = "None" and tr = "None" and tmo = "0" and rs = "None"
      and ps = "[]" and pf = "\<lparr>Key = ''file'', FileName = ''f.txt'', Content = ''hi''\<rparr>" and hs =
      "(Some [(''Content-Type'', ''text/plain''), (''X-Id'', ''7'')])"]
  have f: "multipart_CreateFormFile demo (text_fields []) ''file'' ''f.txt'' = None"
    by (simp add: demo_def)
  have n0: "headers_after (HttpReqXML_hu demo ''GET'' ''http://h/ok'' [] None None None) =
     Some [(''Content-Type'', ''text/xml'')]"
    using N [THEN conjunct1] f
    by (simp add: content_type_rule_def demo_def)
  have n1: "headers_after (HttpReqJSON_hu demo ''GET'' ''http://h/ok'' [] None None None) =
     Some [(''Content-Type'', ''application/json'')]"
    using N [THEN conjunct2, THEN conjunct1] f
    by (simp add: content_type_rule_def demo_def)
  have n2: "headers_after (HttpReqAuthXML_p0 demo ''GET'' ''http://h/ok'' [] [] None None None 0
      None) =
     Some [(''Content-Type'', ''text/xml'')]"
    using N [THEN conjunct2, THEN conjunct2, THEN conjunct1] f
    by (simp add: content_type_rule_def demo_def)
  have n3: "headers_after (HttpReqAuthJSON_p0 demo ''GET'' ''http://h/ok'' [] [] None None None 0
      None) =
     Some [(''Content-Type'', ''application/json'')]"
    using N [THEN conjunct2, THEN conjunct2, THEN conjunct2, THEN conjunct1] f
    by (simp add: content_type_rule_def demo_def)
  have n4: "headers_after (HttpReqXML_p0 demo ''GET'' ''http://h/ok'' [] None None None 0 None) =
     Some [(''Content-Type'', ''text/xml'')]"
    using N [THEN conjunct2, THEN conjunct2, THEN conjunct2, THEN conjunct2, THEN conjunct1] f
    by (simp add: content_type_rule_def demo_def)
  have n5: "headers_after (HttpReqJSON_p0 demo ''GET'' ''http://h/ok'' [] None None None 0 None) =
     Some [(''Content-Type'', ''application/json'')]"
    using N [THEN conjunct2, THEN conjunct2, THEN conjunct2, THEN conjunct2, THEN conjunct2, THEN
        conjunct1] f
    by (simp add: content_type_rule_def demo_def)
  have n6: "headers_after (HttpReqPostFormJSON_p0 demo ''http://h/ok'' [] None None None 0 None) =
     Some [(''Content-Type'', ''application/x-www-form-urlencoded'')]"
    using N [THEN conjunct2, THEN conjunct2, THEN conjunct2, THEN conjunct2, THEN conjunct2, THEN
        conjunct2, THEN conjunct1] f
    by (simp add: content_type_rule_def demo_def)
  have n7: "headers_after (HttpReqPostFormXML_p0 demo ''http://h/ok'' [] None None None 0 None) =
     Some [(''Content-Type'', ''application/x-www-form-urlencoded'')]"
    using N [THEN conjunct2, THEN conjunct2, THEN conjunct2, THEN conjunct2, THEN conjunct2, THEN
        conjunct2, THEN conjunct2, THEN conjunct1] f
    by (simp add: content_type_if_absent_rule_def demo_def)
  have n8: "headers_after (HttpReqAuthXML_p1 demo ''GET'' ''http://h/ok'' [] [] None None None
      None) =
     Some [(''Content-Type'', ''text/xml'')]"
    using N [THEN conjunct2, THEN conjunct2, THEN conjunct2, THEN conjunct2, THEN conjunct2, THEN
        conjunct2, THEN conjunct2, THEN conjunct2, THEN conjunct1] f
    by (simp add: content_type_rule_def demo_def)
  have n9: "headers_after (HttpReqAuthJSON_p1 demo ''GET'' ''http://h/ok'' [] [] None None None
      None) =
     Some [(''Content-Type'', ''application/json'')]"
    using N [THEN conjunct2, THEN conjunct2, THEN conjunct2, THEN conjunct2, THEN conjunct2, THEN
        conjunct2, THEN conjunct2, THEN conjunct2, THEN conjunct2, THEN conjunct1] f
    by (simp add: content_type_rule_def demo_def)
  have n10: "headers_after (HttpReqXML_p1 demo ''GET'' ''http://h/ok'' [] None None None None) =
     Some [(''Content-Type'', ''text/xml'')]"
    using N [THEN conjunct2, THEN conjunct2, THEN conjunct2, THEN conjunct2, THEN conjunct2, THEN
        conjunct2, THEN conjunct2, THEN conjunct2, THEN conjunct2, THEN conjunct2, THEN conjunct1]
        f
    by (simp add: content_type_rule_def demo_def)
  have n11: "headers_after (HttpReqJSON_p1 demo ''GET'' ''http://h/ok'' [] None None None None) =
     Some [(''Content-Type'', ''application/json'')]"
    using N [THEN conjunct2, THEN conjunct2, THEN conjunct2, THEN conjunct2, THEN conjunct2, THEN
        conjunct2, THEN conjunct2, THEN conjunct2, THEN conjunct2, THEN conjunct2, THEN conjunct2,
        THEN conjunct1] f
    by (simp add: content_type_rule_def demo_def)
  have n12: "headers_after (HttpReqPostFormJSON_p1 demo ''http://h/ok'' [] None None None None) =
     Some [(''Content-Type'', ''application/x-www-form-urlencoded'')]"
    using N [THEN conjunct2, THEN conjunct2, THEN conjunct2, THEN conjunct2, THEN conjunct2, THEN
        conjunct2, THEN conjunct2, THEN conjunct2, THEN conjunct2, THEN conjunct2, THEN conjunct2,
        THEN conjunct2, THEN conjunct1] f
    by (simp add: content_type_rule_def demo_def)
  have n13: "headers_after (HttpReqPostFormXML_p1 demo ''http://h/ok'' [] None None None None) =
     Some [(''Content-Type'', ''application/x-www-form-urlencoded'')]"
    using N [THEN conjunct2, THEN conjunct2, THEN conjunct2, THEN conjunct2, THEN conjunct2, THEN
        conjunct2, THEN conjunct2, THEN conjunct2, THEN conjunct2, THEN conjunct2, THEN conjunct2,
        THEN conjunct2, THEN conjunct2, THEN conjunct1] f
    by (simp add: content_type_if_absent_rule_def demo_def)
  have n14: "headers_after (HttpReqPostFile_p0 demo ''http://h/ok'' [] \<lparr>Key = ''file'', FileName =
      ''f.txt'', Content = ''hi''\<rparr> None None None 0 None) =
     Some [(''Content-Type'', ''multipart/form-data; boundary=b0b0'')]"
    using N [THEN conjunct2, THEN conjunct2, THEN conjunct2, THEN conjunct2, THEN conjunct2, THEN
        conjunct2, THEN conjunct2, THEN conjunct2, THEN conjunct2, THEN conjunct2, THEN conjunct2,
        THEN conjunct2, THEN conjunct2, THEN conjunct2, THEN conjunct1] f
    by (simp add: content_type_rule_def demo_def)
  have n15: "headers_after (HttpReqAuthPutFile_p0 demo ''http://h/ok'' [] [] \<lparr>Key = ''file'',
      FileName = ''f.txt'', Content = ''hi''\<rparr> None None None 0 None) =
     Some [(''Content-Type'', ''multipart/form-data; boundary=b0b0'')]"
    using N [THEN conjunct2, THEN conjunct2, THEN conjunct2, THEN conjunct2, THEN conjunct2, THEN
        conjunct2, THEN conjunct2, THEN conjunct2, THEN conjunct2, THEN conjunct2, THEN conjunct2,
        THEN conjunct2, THEN conjunct2, THEN conjunct2, THEN conjunct2, THEN conjunct1] f
    by (simp add: content_type_rule_def demo_def)
  have n16: "headers_after (HttpReqAuthPostFile_p0 demo ''http://h/ok'' [] [] \<lparr>Key = ''file'',
      FileName = ''f.txt'', Content = ''hi''\<rparr> None None None 0 None) =
     Some [(''Content-Type'', ''multipart/form-data; boundary=b0b0'')]"
    using N [THEN conjunct2, THEN conjunct2, THEN conjunct2, THEN conjunct2, THEN conjunct2, THEN
        conjunct2, THEN conjunct2, THEN conjunct2, THEN conjunct2, THEN conjunct2, THEN conjunct2,
        THEN conjunct2, THEN conjunct2, THEN conjunct2, THEN conjunct2, THEN conjunct2] f
    by (simp add: content_type_rule_def demo_def)
  have s0: "(\<exists>h'. headers_after (HttpReqXML_hu demo ''GET'' ''http://h/ok'' [] (Some
      [(''Content-Type'', ''text/plain''), (''X-Id'', ''7'')]) None None) = Some h' \<and>
      map_of h' ''Content-Type'' = Some ''text/xml'' \<and>
      map_of h' ''X-Id'' = Some ''7'')"
    using S [THEN conjunct1] f
    by (auto simp: content_type_rule_def demo_def split: option.splits)
  have s5: "(\<exists>h'. headers_after (HttpReqJSON_p0 demo ''GET'' ''http://h/ok'' [] (Some
      [(''Content-Type'', ''text/plain''), (''X-Id'', ''7'')]) None None 0 None) = Some h' \<and>
      map_of h' ''Content-Type'' = Some ''application/json'' \<and>
      map_of h' ''X-Id'' = Some ''7'')"
    using S [THEN conjunct2, THEN conjunct2, THEN conjunct2, THEN conjunct2, THEN conjunct2, THEN
        conjunct1] f
    by (auto simp: content_type_rule_def demo_def split: option.splits)
  have s7: "headers_after (HttpReqPostFormXML_p0 demo ''http://h/ok'' [] (Some [(''Content-Type'',
      ''text/plain''), (''X-Id'', ''7'')]) None None 0 None) =
     Some [(''Content-Type'', ''text/plain''), (''X-Id'', ''7'')]"
    using S [THEN conjunct2, THEN conjunct2, THEN conjunct2, THEN conjunct2, THEN conjunct2, THEN
        conjunct2, THEN conjunct2, THEN conjunct1] f
    by (simp add: content_type_if_absent_rule_def split: option.splits)
  have s13: "headers_after (HttpReqPostFormXML_p1 demo ''http://h/ok'' [] (Some
      [(''Content-Type'', ''text/plain''), (''X-Id'', ''7'')]) None None None) =
     Some [(''Content-Type'', ''text/plain''), (''X-Id'', ''7'')]"
    using S [THEN conjunct2, THEN conjunct2, THEN conjunct2, THEN conjunct2, THEN conjunct2, THEN
        conjunct2, THEN conjunct2, THEN conjunct2, THEN conjunct2, THEN conjunct2, THEN conjunct2,
        THEN conjunct2, THEN conjunct2, THEN conjunct1] f
    by (simp add: content_type_if_absent_rule_def split: option.splits)
  have s14: "(\<exists>h'. headers_after (HttpReqPostFile_p0 demo ''http://h/ok'' [] \<lparr>Key = ''file'',
      FileName = ''f.txt'', Content = ''hi''\<rparr> (Some [(''Content-Type'', ''text/plain''),
      (''X-Id'', ''7'')]) None None 0 None) = Some h' \<and>
      map_of h' ''Content-Type'' = Some ''multipart/form-data; boundary=b0b0'' \<and>
      map_of h' ''X-Id'' = Some ''7'')"
    using S [THEN conjunct2, THEN conjunct2, THEN conjunct2, THEN conjunct2, THEN conjunct2, THEN
        conjunct2, THEN conjunct2, THEN conjunct2, THEN conjunct2, THEN conjunct2, THEN conjunct2,
        THEN conjunct2, THEN conjunct2, THEN conjunct2, THEN conjunct1] f
    by (auto simp: content_type_rule_def demo_def split: option.splits)
  have s15: "(\<exists>h'. headers_after (HttpReqAuthPutFile_p0 demo ''http://h/ok'' [] [] \<lparr>Key =
      ''file'', FileName = ''f.txt'', Content = ''hi''\<rparr> (Some [(''Content-Type'', ''text/plain''),
      (''X-Id'', ''7'')]) None None 0 None) = Some h' \<and>
      map_of h' ''Content-Type'' = Some ''multipart/form-data; boundary=b0b0'' \<and>
      map_of h' ''X-Id'' = Some ''7'')"
    using S [THEN conjunct2, THEN conjunct2, THEN conjunct2, THEN conjunct2, THEN conjunct2, THEN
        conjunct2, THEN conjunct2, THEN conjunct2, THEN conjunct2, THEN conjunct2, THEN conjunct2,
        THEN conjunct2, THEN conjunct2, THEN conjunct2, THEN conjunct2, THEN conjunct1] f
    by (auto simp: content_type_rule_def demo_def split: option.splits)
  have s16: "(\<exists>h'. headers_after (HttpReqAuthPostFile_p0 demo ''http://h/ok'' [] [] \<lparr>Key =
      ''file'', FileName = ''f.txt'', Content = ''hi''\<rparr> (Some [(''Content-Type'', ''text/plain''),
      (''X-Id'', ''7'')]) None None 0 None) = Some h' \<and>
      map_of h' ''Content-Type'' = Some ''multipart/form-data; boundary=b0b0'' \<and>
      map_of h' ''X-Id'' = Some ''7'')"
    using S [THEN conjunct2, THEN conjunct2, THEN conjunct2, THEN conjunct2, THEN conjunct2, THEN
        conjunct2, THEN conjunct2, THEN conjunct2, THEN conjunct2, THEN conjunct2, THEN conjunct2,
        THEN conjunct2, THEN conjunct2, THEN conjunct2, THEN conjunct2, THEN conjunct2] f
    by (auto simp: content_type_rule_def demo_def split: option.splits)
  show ?thesis
    by (intro conjI) (rule f, rule n0, rule n1, rule n2, rule n3, rule n4, rule n5, rule n6, rule
        n7, rule n8, rule n9, rule n10, rule n11, rule n12, rule n13, rule n14, rule n15, rule
        n16, rule s0, rule s5, rule s7, rule s13, rule s14, rule s15, rule s16)
qed

section \<open>The decoding step\<close>

text \<open>
  The dispatcher returns no error exactly when a server delivered a status code below
  400 and its body was read.
\<close>

lemma err_failure:
  "(err (failure u e) = None) = (\<exists>st body. served w (failure u e) = Some (st, body) \<and> st \<le> 399)"
  by (simp add: served_failure) (simp add: failure_def)

lemma err_after_Do:
  "(err (after_Do w c rq u' d) = None) =
   (\<exists>st body. served w (after_Do w c rq u' d) = Some (st, body) \<and> st \<le> 399)"
  unfolding served_after_Do
  by (auto simp: after_Do_def split: sum.splits)

lemma decode_rule_early:
  "decode_rule w cd U t
     \<lparr>sent = None, httpStatus = 0, buf = None, err = Some (RawErr e),
      headers_after = hs, decoded = None, target = t\<rparr>"
  by (simp add: decode_rule_def served_def reply_def)

lemma decode_after_finish: "decode_after cd U t r (finish cd U r h t)"
  by (auto simp: decode_after_def finish_def returning_def unmarshalling_def
      split: prod.splits)

text \<open>
  C6. In every entry function, \<^verbatim>\<open>Unmarshal\<close> (of JSON or XML, by the variant) is called
  exactly when the dispatcher returned no error, the output structure is not \<^verbatim>\<open>nil\<close>
  and the response body is not empty. It is called on the response body and the
  caller's structure; its error, as the codec made it and not as a \<^verbatim>\<open>ResourceError\<close>,
  becomes the error of the call (\<^verbatim>\<open>nil\<close> when it succeeded), and the status code of the
  call stays the server's. The first three statements say what "the dispatcher returned
  no error" is. Then, for each function, \<open>decode_after\<close> states the rule against the
  result of the dispatcher on the inputs the function hands to it (the upload functions
  call the dispatcher when the multipart writer accepted the file part), and
  \<open>decode_rule\<close> states it against what the server delivered.
\<close>

theorem decoding_by_variant:
  "((err (sendHttpReq_p0 w m u tok b hl ck tr tmo) = None) =
     (\<exists>st body. served w (sendHttpReq_p0 w m u tok b hl ck tr tmo) = Some (st, body) \<and>
        st \<le> 399))
   \<and>
   ((err (sendHttpReq_p1 w m u tok b hl ck tr) = None) =
     (\<exists>st body. served w (sendHttpReq_p1 w m u tok b hl ck tr) = Some (st, body) \<and>
        st \<le> 399))
   \<and>
   ((err (sendHttpReq_hu w m u b hl ck) = None) =
     (\<exists>st body. served w (sendHttpReq_hu w m u b hl ck) = Some (st, body) \<and>
        st \<le> 399))
   \<and>
   decode_after XML (xml_Unmarshal w) rs
     (sendHttpReq_hu w m u b (with_content_type ''text/xml'' hs) ck)
     (HttpReqXML_hu w m u b hs ck rs)
   \<and>
   decode_rule w XML (xml_Unmarshal w) rs
     (HttpReqXML_hu w m u b hs ck rs)
   \<and>
   decode_after JSON (json_Unmarshal w) rs
     (sendHttpReq_hu w (strings_TrimSpace w (strings_ToUpper w m)) u b (with_content_type
         ''application/json'' hs) ck)
     (HttpReqJSON_hu w m u b hs ck rs)
   \<and>
   decode_rule w JSON (json_Unmarshal w) rs
     (HttpReqJSON_hu w m u b hs ck rs)
   \<and>
   decode_after XML (xml_Unmarshal w) rs
     (sendHttpReq_p0 w (strings_TrimSpace w (strings_ToUpper w m)) u tok b (with_content_type
         ''text/xml'' hs) ck tr tmo)
     (HttpReqAuthXML_p0 w m u tok b hs ck tr tmo rs)
   \<and>
   decode_rule w XML (xml_Unmarshal w) rs
     (HttpReqAuthXML_p0 w m u tok b hs ck tr tmo rs)
   \<and>
   decode_after JSON (json_Unmarshal w) rs
     (sendHttpReq_p0 w (strings_TrimSpace w (strings_ToUpper w m)) u tok b (with_content_type
         ''application/json'' hs) ck tr tmo)
     (HttpReqAuthJSON_p0 w m u tok b hs ck tr tmo rs)
   \<and>
   decode_rule w JSON (json_Unmarshal w) rs
     (HttpReqAuthJSON_p0 w m u tok b hs ck tr tmo rs)
   \<and>
   decode_after XML (xml_Unmarshal w) rs
     (sendHttpReq_p0 w (strings_TrimSpace w (strings_ToUpper w m)) u [] b (with_content_type
         ''text/xml'' hs) ck tr tmo)
     (HttpReqXML_p0 w m u b hs ck tr tmo rs)
   \<and>
   decode_rule w XML (xml_Unmarshal w) rs
     (HttpReqXML_p0 w m u b hs ck tr tmo rs)
   \<and>
   decode_after JSON (json_Unmarshal w) rs
     (sendHttpReq_p0 w (strings_TrimSpace w (strings_ToUpper w m)) u [] b (with_content_type
         ''application/json'' hs) ck tr tmo)
     (HttpReqJSON_p0 w m u b hs ck tr tmo rs)
   \<and>
   decode_rule w JSON (json_Unmarshal w) rs
     (HttpReqJSON_p0 w m u b hs ck tr tmo rs)
   \<and>
   decode_after JSON (json_Unmarshal w) rs
     (sendHttpReq_p0 w ''POST'' u [] b (with_content_type ''application/x-www-form-urlencoded''
         hs) ck tr tmo)
     (HttpReqPostFormJSON_p0 w u b hs ck tr tmo rs)
   \<and>
   decode_rule w JSON (json_Unmarshal w) rs
     (HttpReqPostFormJSON_p0 w u b hs ck tr tmo rs)
   \<and>
   decode_after XML (xml_Unmarshal w) rs
     (sendHttpReq_p0 w ''POST'' u [] b (with_content_type_if_absent
         ''application/x-www-form-urlencoded'' hs) ck tr tmo)
     (HttpReqPostFormXML_p0 w u b hs ck tr tmo rs)
   \<and>
   decode_rule w XML (xml_Unmarshal w) rs
     (HttpReqPostFormXML_p0 w u b hs ck tr tmo rs)
   \<and>
   decode_after XML (xml_Unmarshal w) rs
     (sendHttpReq_p1 w (strings_TrimSpace w (strings_ToUpper w m)) u tok b (with_content_type
         ''text/xml'' hs) ck tr)
     (HttpReqAuthXML_p1 w m u tok b hs ck tr rs)
   \<and>
   decode_rule w XML (xml_Unmarshal w) rs
     (HttpReqAuthXML_p1 w m u tok b hs ck tr rs)
   \<and>
   decode_after JSON (json_Unmarshal w) rs
     (sendHttpReq_p1 w (strings_TrimSpace w (strings_ToUpper w m)) u tok b (with_content_type
         ''application/json'' hs) ck tr)
     (HttpReqAuthJSON_p1 w m u tok b hs ck tr rs)
   \<and>
   decode_rule w JSON (json_Unmarshal w) rs
     (HttpReqAuthJSON_p1 w m u tok b hs ck tr rs)
   \<and>
   decode_after XML (xml_Unmarshal w) rs
     (sendHttpReq_p1 w (strings_TrimSpace w (strings_ToUpper w m)) u [] b (with_content_type
         ''text/xml'' hs) ck tr)
     (HttpReqXML_p1 w m u b hs ck tr rs)
   \<and>
   decode_rule w XML (xml_Unmarshal w) rs
     (HttpReqXML_p1 w m u b hs ck tr rs)
   \<and>
   decode_after JSON (json_Unmarshal w) rs
     (sendHttpReq_p1 w (strings_TrimSpace w (strings_ToUpper w m)) u [] b (with_content_type
         ''application/json'' hs) ck tr)
     (HttpReqJSON_p1 w m u b hs ck tr rs)
   \<and>
   decode_rule w JSON (json_Unmarshal w) rs
     (HttpReqJSON_p1 w m u b hs ck tr rs)
   \<and>
   decode_after JSON (json_Unmarshal w) rs
     (sendHttpReq_p1 w ''POST'' u [] b (with_content_type ''application/x-www-form-urlencoded''
         hs) ck tr)
     (HttpReqPostFormJSON_p1 w u b hs ck tr rs)
   \<and>
   decode_rule w JSON (json_Unmarshal w) rs
     (HttpReqPostFormJSON_p1 w u b hs ck tr rs)
   \<and>
   decode_after XML (xml_Unmarshal w) rs
     (sendHttpReq_p1 w ''POST'' u [] b (with_content_type_if_absent
         ''application/x-www-form-urlencoded'' hs) ck tr)
     (HttpReqPostFormXML_p1 w u b hs ck tr rs)
   \<and>
   decode_rule w XML (xml_Unmarshal w) rs
     (HttpReqPostFormXML_p1 w u b hs ck tr rs)
   \<and>
   (multipart_CreateFormFile w (text_fields ps) (Key pf) (FileName pf) = None \<longrightarrow>
    decode_after JSON (json_Unmarshal w) rs
      (sendHttpReq_p0 w ''POST'' u [] (multipart_Bytes w (text_fields ps @ [CreateFormFile (Key
          pf) (FileName pf), Write (Content pf), Close])) (with_content_type
          (multipart_FormDataContentType w) hs) ck tr tmo)
      (HttpReqPostFile_p0 w u ps pf hs ck tr tmo rs))
   \<and>
   decode_rule w JSON (json_Unmarshal w) rs
     (HttpReqPostFile_p0 w u ps pf hs ck tr tmo rs)
   \<and>
   (multipart_CreateFormFile w (text_fields ps) (Key pf) (FileName pf) = None \<longrightarrow>
    decode_after JSON (json_Unmarshal w) rs
      (sendHttpReq_p0 w m u tok (multipart_Bytes w (text_fields ps @ [CreateFormFile (Key pf)
          (FileName pf), Write (Content pf), Close])) (with_content_type
          (multipart_FormDataContentType w) hs) ck tr tmo)
      (httpReqAuthFile_p0 w m u tok ps pf hs ck tr tmo rs))
   \<and>
   decode_rule w JSON (json_Unmarshal w) rs
     (httpReqAuthFile_p0 w m u tok ps pf hs ck tr tmo rs)
   \<and>
   (multipart_CreateFormFile w (text_fields ps) (Key pf) (FileName pf) = None \<longrightarrow>
    decode_after JSON (json_Unmarshal w) rs
      (sendHttpReq_p0 w ''PUT'' u tok (multipart_Bytes w (text_fields ps @ [CreateFormFile (Key
          pf) (FileName pf), Write (Content pf), Close])) (with_content_type
          (multipart_FormDataContentType w) hs) ck tr tmo)
      (HttpReqAuthPutFile_p0 w u tok ps pf hs ck tr tmo rs))
   \<and>
   decode_rule w JSON (json_Unmarshal w) rs
     (HttpReqAuthPutFile_p0 w u tok ps pf hs ck tr tmo rs)
   \<and>
   (multipart_CreateFormFile w (text_fields ps) (Key pf) (FileName pf) = None \<longrightarrow>
    decode_after JSON (json_Unmarshal w) rs
      (sendHttpReq_p0 w ''POST'' u tok (multipart_Bytes w (text_fields ps @ [CreateFormFile (Key
          pf) (FileName pf), Write (Content pf), Close])) (with_content_type
          (multipart_FormDataContentType w) hs) ck tr tmo)
      (HttpReqAuthPostFile_p0 w u tok ps pf hs ck tr tmo rs))
   \<and>
   decode_rule w JSON (json_Unmarshal w) rs
     (HttpReqAuthPostFile_p0 w u tok ps pf hs ck tr tmo rs)"
proof (intro conjI)
  show "(err (sendHttpReq_p0 w m u tok b hl ck tr tmo) = None) =
     (\<exists>st body. served w (sendHttpReq_p0 w m u tok b hl ck tr tmo) = Some (st, body) \<and>
        st \<le> 399)"
    by (cases "http_NewRequest w m u b")
      (simp_all only: sendHttpReq_p0_eq sum.case err_failure err_after_Do)
next
  show "(err (sendHttpReq_p1 w m u tok b hl ck tr) = None) =
     (\<exists>st body. served w (sendHttpReq_p1 w m u tok b hl ck tr) = Some (st, body) \<and>
        st \<le> 399)"
    by (cases "http_NewRequest w m u b")
      (simp_all only: sendHttpReq_p1_eq sum.case err_failure err_after_Do)
next
  show "(err (sendHttpReq_hu w m u b hl ck) = None) =
     (\<exists>st body. served w (sendHttpReq_hu w m u b hl ck) = Some (st, body) \<and>
        st \<le> 399)"
    by (cases "http_NewRequest w m u b")
      (simp_all only: sendHttpReq_hu_eq sum.case err_failure err_after_Do)
next
  show "decode_after XML (xml_Unmarshal w) rs
     (sendHttpReq_hu w m u b (with_content_type ''text/xml'' hs) ck)
     (HttpReqXML_hu w m u b hs ck rs)"
    by (simp add: HttpReqXML_hu_eq decode_after_finish)
next
  show "decode_rule w XML (xml_Unmarshal w) rs
     (HttpReqXML_hu w m u b hs ck rs)"
    by (simp add: HttpReqXML_hu_eq decode_rule_hu)
next
  show "decode_after JSON (json_Unmarshal w) rs
     (sendHttpReq_hu w (strings_TrimSpace w (strings_ToUpper w m)) u b (with_content_type
         ''application/json'' hs) ck)
     (HttpReqJSON_hu w m u b hs ck rs)"
    by (simp add: HttpReqJSON_hu_eq decode_after_finish)
next
  show "decode_rule w JSON (json_Unmarshal w) rs
     (HttpReqJSON_hu w m u b hs ck rs)"
    by (simp add: HttpReqJSON_hu_eq decode_rule_hu)
next
  show "decode_after XML (xml_Unmarshal w) rs
     (sendHttpReq_p0 w (strings_TrimSpace w (strings_ToUpper w m)) u tok b (with_content_type
         ''text/xml'' hs) ck tr tmo)
     (HttpReqAuthXML_p0 w m u tok b hs ck tr tmo rs)"
    by (simp add: HttpReqAuthXML_p0_eq decode_after_finish)
next
  show "decode_rule w XML (xml_Unmarshal w) rs
     (HttpReqAuthXML_p0 w m u tok b hs ck tr tmo rs)"
    by (simp add: HttpReqAuthXML_p0_eq decode_rule_p0)
next
  show "decode_after JSON (json_Unmarshal w) rs
     (sendHttpReq_p0 w (strings_TrimSpace w (strings_ToUpper w m)) u tok b (with_content_type
         ''application/json'' hs) ck tr tmo)
     (HttpReqAuthJSON_p0 w m u tok b hs ck tr tmo rs)"
    by (simp add: HttpReqAuthJSON_p0_eq decode_after_finish)
next
  show "decode_rule w JSON (json_Unmarshal w) rs
     (HttpReqAuthJSON_p0 w m u tok b hs ck tr tmo rs)"
    by (simp add: HttpReqAuthJSON_p0_eq decode_rule_p0)
next
  show "decode_after XML (xml_Unmarshal w) rs
     (sendHttpReq_p0 w (strings_TrimSpace w (strings_ToUpper w m)) u [] b (with_content_type
         ''text/xml'' hs) ck tr tmo)
     (HttpReqXML_p0 w m u b hs ck tr tmo rs)"
    by (simp add: HttpReqXML_p0_eq decode_after_finish)
next
  show "decode_rule w XML (xml_Unmarshal w) rs
     (HttpReqXML_p0 w m u b hs ck tr tmo rs)"
    by (simp add: HttpReqXML_p0_eq decode_rule_p0)
next
  show "decode_after JSON (json_Unmarshal w) rs
     (sendHttpReq_p0 w (strings_TrimSpace w (strings_ToUpper w m)) u [] b (with_content_type
         ''application/json'' hs) ck tr tmo)
     (HttpReqJSON_p0 w m u b hs ck tr tmo rs)"
    by (simp add: HttpReqJSON_p0_eq decode_after_finish)
next
  show "decode_rule w JSON (json_Unmarshal w) rs
     (HttpReqJSON_p0 w m u b hs ck tr tmo rs)"
    by (simp add: HttpReqJSON_p0_eq decode_rule_p0)
next
  show "decode_after JSON (json_Unmarshal w) rs
     (sendHttpReq_p0 w ''POST'' u [] b (with_content_type ''application/x-www-form-urlencoded''
         hs) ck tr tmo)
     (HttpReqPostFormJSON_p0 w u b hs ck tr tmo rs)"
    by (simp add: HttpReqPostFormJSON_p0_eq decode_after_finish)
next
  show "decode_rule w JSON (json_Unmarshal w) rs
     (HttpReqPostFormJSON_p0 w u b hs ck tr tmo rs)"
    by (simp add: HttpReqPostFormJSON_p0_eq decode_rule_p0)
next
  show "decode_after XML (xml_Unmarshal w) rs
     (sendHttpReq_p0 w ''POST'' u [] b (with_content_type_if_absent
         ''application/x-www-form-urlencoded'' hs) ck tr tmo)
     (HttpReqPostFormXML_p0 w u b hs ck tr tmo rs)"
    by (simp add: HttpReqPostFormXML_p0_eq decode_after_finish)
next
  show "decode_rule w XML (xml_Unmarshal w) rs
     (HttpReqPostFormXML_p0 w u b hs ck tr tmo rs)"
    by (simp add: HttpReqPostFormXML_p0_eq decode_rule_p0)
next
  show "decode_after XML (xml_Unmarshal w) rs
     (sendHttpReq_p1 w (strings_TrimSpace w (strings_ToUpper w m)) u tok b (with_content_type
         ''text/xml'' hs) ck tr)
     (HttpReqAuthXML_p1 w m u tok b hs ck tr rs)"
    by (simp add: HttpReqAuthXML_p1_eq decode_after_finish)
next
  show "decode_rule w XML (xml_Unmarshal w) rs
     (HttpReqAuthXML_p1 w m u tok b hs ck tr rs)"
    by (simp add: HttpReqAuthXML_p1_eq decode_rule_p1)
next
  show "decode_after JSON (json_Unmarshal w) rs
     (sendHttpReq_p1 w (strings_TrimSpace w (strings_ToUpper w m)) u tok b (with_content_type
         ''application/json'' hs) ck tr)
     (HttpReqAuthJSON_p1 w m u tok b hs ck tr rs)"
    by (simp add: HttpReqAuthJSON_p1_eq decode_after_finish)
next
  show "decode_rule w JSON (json_Unmarshal w) rs
     (HttpReqAuthJSON_p1 w m u tok b hs ck tr rs)"
    by (simp add: HttpReqAuthJSON_p1_eq decode_rule_p1)
next
  show "decode_after XML (xml_Unmarshal w) rs
     (sendHttpReq_p1 w (strings_TrimSpace w (strings_ToUpper w m)) u [] b (with_content_type
         ''text/xml'' hs) ck tr)
     (HttpReqXML_p1 w m u b hs ck tr rs)"
    by (simp add: HttpReqXML_p1_eq decode_after_finish)
next
  show "decode_rule w XML (xml_Unmarshal w) rs
     (HttpReqXML_p1 w m u b hs ck tr rs)"
    by (simp add: HttpReqXML_p1_eq decode_rule_p1)
next
  show "decode_after JSON (json_Unmarshal w) rs
     (sendHttpReq_p1 w (strings_TrimSpace w (strings_ToUpper w m)) u [] b (with_content_type
         ''application/json'' hs) ck tr)
     (HttpReqJSON_p1 w m u b hs ck tr rs)"
    by (simp add: HttpReqJSON_p1_eq decode_after_finish)
next
  show "decode_rule w JSON (json_Unmarshal w) rs
     (HttpReqJSON_p1 w m u b hs ck tr rs)"
    by (simp add: HttpReqJSON_p1_eq decode_rule_p1)
next
  show "decode_after JSON (json_Unmarshal w) rs
     (sendHttpReq_p1 w ''POST'' u [] b (with_content_type ''application/x-www-form-urlencoded''
         hs) ck tr)
     (HttpReqPostFormJSON_p1 w u b hs ck tr rs)"
    by (simp add: HttpReqPostFormJSON_p1_eq decode_after_finish)
next
  show "decode_rule w JSON (json_Unmarshal w) rs
     (HttpReqPostFormJSON_p1 w u b hs ck tr rs)"
    by (simp add: HttpReqPostFormJSON_p1_eq decode_rule_p1)
next
  show "decode_after XML (xml_Unmarshal w) rs
     (sendHttpReq_p1 w ''POST'' u [] b (with_content_type_if_absent
         ''application/x-www-form-urlencoded'' hs) ck tr)
     (HttpReqPostFormXML_p1 w u b hs ck tr rs)"
    by (simp add: HttpReqPostFormXML_p1_eq decode_after_finish)
next
  show "decode_rule w XML (xml_Unmarshal w) rs
     (HttpReqPostFormXML_p1 w u b hs ck tr rs)"
    by (simp add: HttpReqPostFormXML_p1_eq decode_rule_p1)
next
  show "multipart_CreateFormFile w (text_fields ps) (Key pf) (FileName pf) = None \<longrightarrow>
    decode_after JSON (json_Unmarshal w) rs
      (sendHttpReq_p0 w ''POST'' u [] (multipart_Bytes w (text_fields ps @ [CreateFormFile (Key
          pf) (FileName pf), Write (Content pf), Close])) (with_content_type
          (multipart_FormDataContentType w) hs) ck tr tmo)
      (HttpReqPostFile_p0 w u ps pf hs ck tr tmo rs)"
    by (simp add: HttpReqPostFile_p0_eq decode_after_finish)
next
  show "decode_rule w JSON (json_Unmarshal w) rs
     (HttpReqPostFile_p0 w u ps pf hs ck tr tmo rs)"
    by (cases "multipart_CreateFormFile w (text_fields ps) (Key pf) (FileName pf)")
      (simp_all add: HttpReqPostFile_p0_eq HttpReqPostFile_p0_early decode_rule_p0
          decode_rule_early)
next
  show "multipart_CreateFormFile w (text_fields ps) (Key pf) (FileName pf) = None \<longrightarrow>
    decode_after JSON (json_Unmarshal w) rs
      (sendHttpReq_p0 w m u tok (multipart_Bytes w (text_fields ps @ [CreateFormFile (Key pf)
          (FileName pf), Write (Content pf), Close])) (with_content_type
          (multipart_FormDataContentType w) hs) ck tr tmo)
      (httpReqAuthFile_p0 w m u tok ps pf hs ck tr tmo rs)"
    by (simp add: httpReqAuthFile_p0_eq decode_after_finish)
next
  show "decode_rule w JSON (json_Unmarshal w) rs
     (httpReqAuthFile_p0 w m u tok ps pf hs ck tr tmo rs)"
    by (cases "multipart_CreateFormFile w (text_fields ps) (Key pf) (FileName pf)")
      (simp_all add: httpReqAuthFile_p0_eq httpReqAuthFile_p0_early decode_rule_p0
          decode_rule_early)
next
  show "multipart_CreateFormFile w (text_fields ps) (Key pf) (FileName pf) = None \<longrightarrow>
    decode_after JSON (json_Unmarshal w) rs
      (sendHttpReq_p0 w ''PUT'' u tok (multipart_Bytes w (text_fields ps @ [CreateFormFile (Key
          pf) (FileName pf), Write (Content pf), Close])) (with_content_type
          (multipart_FormDataContentType w) hs) ck tr tmo)
      (HttpReqAuthPutFile_p0 w u tok ps pf hs ck tr tmo rs)"
    by (simp add: HttpReqAuthPutFile_p0_eq decode_after_finish)
next
  show "decode_rule w JSON (json_Unmarshal w) rs
     (HttpReqAuthPutFile_p0 w u tok ps pf hs ck tr tmo rs)"
    by (cases "multipart_CreateFormFile w (text_fields ps) (Key pf) (FileName pf)")
      (simp_all add: HttpReqAuthPutFile_p0_eq HttpReqAuthPutFile_p0_early decode_rule_p0
          decode_rule_early)
next
  show "multipart_CreateFormFile w (text_fields ps) (Key pf) (FileName pf) = None \<longrightarrow>
    decode_after JSON (json_Unmarshal w) rs
      (sendHttpReq_p0 w ''POST'' u tok (multipart_Bytes w (text_fields ps @ [CreateFormFile (Key
          pf) (FileName pf), Write (Content pf), Close])) (with_content_type
          (multipart_FormDataContentType w) hs) ck tr tmo)
      (HttpReqAuthPostFile_p0 w u tok ps pf hs ck tr tmo rs)"
    by (simp add: HttpReqAuthPostFile_p0_eq decode_after_finish)
next
  show "decode_rule w JSON (json_Unmarshal w) rs
     (HttpReqAuthPostFile_p0 w u tok ps pf hs ck tr tmo rs)"
    by (cases "multipart_CreateFormFile w (text_fields ps) (Key pf) (FileName pf)")
      (simp_all add: HttpReqAuthPostFile_p0_eq HttpReqAuthPostFile_p0_early decode_rule_p0
          decode_rule_early)
qed

text \<open>
  The rule at work in the small world, for every entry function: a response with the
  status 200 and a body that decodes, and one with a body that does not.
\<close>

theorem decoding_by_variant_witness:
  "multipart_CreateFormFile demo (text_fields []) ''file'' ''f.txt'' = None
   \<and>
   decoded (HttpReqXML_hu demo ''post'' ''http://h/xml'' [] None None (Some False)) =
     Some (XML, ''<Ok>true</Ok>'') \<and>
   err (HttpReqXML_hu demo ''post'' ''http://h/xml'' [] None None (Some False)) = None \<and>
   target (HttpReqXML_hu demo ''post'' ''http://h/xml'' [] None None (Some False)) = Some True \<and>
   httpStatus (HttpReqXML_hu demo ''post'' ''http://h/xml'' [] None None (Some False)) = 200
   \<and>
   decoded (HttpReqXML_hu demo ''post'' ''http://h/ok'' [] None None (Some False)) =
     Some (XML, ''true'') \<and>
   err (HttpReqXML_hu demo ''post'' ''http://h/ok'' [] None None (Some False)) =
     Some (RawErr (Cause ''xml: cannot decode the input'')) \<and>
   httpStatus (HttpReqXML_hu demo ''post'' ''http://h/ok'' [] None None (Some False)) = 200
   \<and>
   decoded (HttpReqJSON_hu demo ''post'' ''http://h/ok'' [] None None (Some False)) =
     Some (JSON, ''true'') \<and>
   err (HttpReqJSON_hu demo ''post'' ''http://h/ok'' [] None None (Some False)) = None \<and>
   target (HttpReqJSON_hu demo ''post'' ''http://h/ok'' [] None None (Some False)) = Some True \<and>
   httpStatus (HttpReqJSON_hu demo ''post'' ''http://h/ok'' [] None None (Some False)) = 200
   \<and>
   decoded (HttpReqJSON_hu demo ''post'' ''http://h/bad'' [] None None (Some False)) =
     Some (JSON, ''tru'') \<and>
   err (HttpReqJSON_hu demo ''post'' ''http://h/bad'' [] None None (Some False)) =
     Some (RawErr (Cause ''json: cannot decode the input'')) \<and>
   httpStatus (HttpReqJSON_hu demo ''post'' ''http://h/bad'' [] None None (Some False)) = 200
   \<and>
   decoded (HttpReqAuthXML_p0 demo ''post'' ''http://h/xml'' [] [] None None None 0 (Some False))
       =
     Some (XML, ''<Ok>true</Ok>'') \<and>
   err (HttpReqAuthXML_p0 demo ''post'' ''http://h/xml'' [] [] None None None 0 (Some False)) =
       None \<and>
   target (HttpReqAuthXML_p0 demo ''post'' ''http://h/xml'' [] [] None None None 0 (Some False)) =
       Some True \<and>
   httpStatus (HttpReqAuthXML_p0 demo ''post'' ''http://h/xml'' [] [] None None None 0 (Some
       False)) = 200
   \<and>
   decoded (HttpReqAuthXML_p0 demo ''post'' ''http://h/ok'' [] [] None None None 0 (Some False)) =
     Some (XML, ''true'') \<and>
   err (HttpReqAuthXML_p0 demo ''post'' ''http://h/ok'' [] [] None None None 0 (Some False)) =
     Some (RawErr (Cause ''xml: cannot decode the input'')) \<and>
   httpStatus (HttpReqAuthXML_p0 demo ''post'' ''http://h/ok'' [] [] None None None 0 (Some
       False)) = 200
   \<and>
   decoded (HttpReqAuthJSON_p0 demo ''post'' ''http://h/ok'' [] [] None None None 0 (Some False))
       =
     Some (JSON, ''true'') \<and>
   err (HttpReqAuthJSON_p0 demo ''post'' ''http://h/ok'' [] [] None None None 0 (Some False)) =
       None \<and>
   target (HttpReqAuthJSON_p0 demo ''post'' ''http://h/ok'' [] [] None None None 0 (Some False)) =
       Some True \<and>
   httpStatus (HttpReqAuthJSON_p0 demo ''post'' ''http://h/ok'' [] [] None None None 0 (Some
       False)) = 200
   \<and>
   decoded (HttpReqAuthJSON_p0 demo ''post'' ''http://h/bad'' [] [] None None None 0 (Some False))
       =
     Some (JSON, ''tru'') \<and>
   err (HttpReqAuthJSON_p0 demo ''post'' ''http://h/bad'' [] [] None None None 0 (Some False)) =
     Some (RawErr (Cause ''json: cannot decode the input'')) \<and>
   httpStatus (HttpReqAuthJSON_p0 demo ''post'' ''http://h/bad'' [] [] None None None 0 (Some
       False)) = 200
   \<and>
   decoded (HttpReqXML_p0 demo ''post'' ''http://h/xml'' [] None None None 0 (Some False)) =
     Some (XML, ''<Ok>true</Ok>'') \<and>
   err (HttpReqXML_p0 demo ''post'' ''http://h/xml'' [] None None None 0 (Some False)) = None \<and>
   target (HttpReqXML_p0 demo ''post'' ''http://h/xml'' [] None None None 0 (Some False)) = Some
       True \<and>
   httpStatus (HttpReqXML_p0 demo ''post'' ''http://h/xml'' [] None None None 0 (Some False)) =
       200
   \<and>
   decoded (HttpReqXML_p0 demo ''post'' ''http://h/ok'' [] None None None 0 (Some False)) =
     Some (XML, ''true'') \<and>
   err (HttpReqXML_p0 demo ''post'' ''http://h/ok'' [] None None None 0 (Some False)) =
     Some (RawErr (Cause ''xml: cannot decode the input'')) \<and>
   httpStatus (HttpReqXML_p0 demo ''post'' ''http://h/ok'' [] None None None 0 (Some False)) = 200
   \<and>
   decoded (HttpReqJSON_p0 demo ''post'' ''http://h/ok'' [] None None None 0 (Some False)) =
     Some (JSON, ''true'') \<and>
   err (HttpReqJSON_p0 demo ''post'' ''http://h/ok'' [] None None None 0 (Some False)) = None \<and>
   target (HttpReqJSON_p0 demo ''post'' ''http://h/ok'' [] None None None 0 (Some False)) = Some
       True \<and>
   httpStatus (HttpReqJSON_p0 demo ''post'' ''http://h/ok'' [] None None None 0 (Some False)) =
       200
   \<and>
   decoded (HttpReqJSON_p0 demo ''post'' ''http://h/bad'' [] None None None 0 (Some False)) =
     Some (JSON, ''tru'') \<and>
   err (HttpReqJSON_p0 demo ''post'' ''http://h/bad'' [] None None None 0 (Some False)) =
     Some (RawErr (Cause ''json: cannot decode the input'')) \<and>
   httpStatus (HttpReqJSON_p0 demo ''post'' ''http://h/bad'' [] None None None 0 (Some False)) =
       200
   \<and>
   decoded (HttpReqPostFormJSON_p0 demo ''http://h/ok'' [] None None None 0 (Some False)) =
     Some (JSON, ''true'') \<and>
   err (HttpReqPostFormJSON_p0 demo ''http://h/ok'' [] None None None 0 (Some False)) = None \<and>
   target (HttpReqPostFormJSON_p0 demo ''http://h/ok'' [] None None None 0 (Some False)) = Some
       True \<and>
   httpStatus (HttpReqPostFormJSON_p0 demo ''http://h/ok'' [] None None None 0 (Some False)) = 200
   \<and>
   decoded (HttpReqPostFormJSON_p0 demo ''http://h/bad'' [] None None None 0 (Some False)) =
     Some (JSON, ''tru'') \<and>
   err (HttpReqPostFormJSON_p0 demo ''http://h/bad'' [] None None None 0 (Some False)) =
     Some (RawErr (Cause ''json: cannot decode the input'')) \<and>
   httpStatus (HttpReqPostFormJSON_p0 demo ''http://h/bad'' [] None None None 0 (Some False)) =
       200
   \<and>
   decoded (HttpReqPostFormXML_p0 demo ''http://h/xml'' [] None None None 0 (Some False)) =
     Some (XML, ''<Ok>true</Ok>'') \<and>
   err (HttpReqPostFormXML_p0 demo ''http://h/xml'' [] None None None 0 (Some False)) = None \<and>
   target (HttpReqPostFormXML_p0 demo ''http://h/xml'' [] None None None 0 (Some False)) = Some
       True \<and>
   httpStatus (HttpReqPostFormXML_p0 demo ''http://h/xml'' [] None None None 0 (Some False)) = 200
   \<and>
   decoded (HttpReqPostFormXML_p0 demo ''http://h/ok'' [] None None None 0 (Some False)) =
     Some (XML, ''true'') \<and>
   err (HttpReqPostFormXML_p0 demo ''http://h/ok'' [] None None None 0 (Some False)) =
     Some (RawErr (Cause ''xml: cannot decode the input'')) \<and>
   httpStatus (HttpReqPostFormXML_p0 demo ''http://h/ok'' [] None None None 0 (Some False)) = 200
   \<and>
   decoded (HttpReqAuthXML_p1 demo ''post'' ''http://h/xml'' [] [] None None None (Some False)) =
     Some (XML, ''<Ok>true</Ok>'') \<and>
   err (HttpReqAuthXML_p1 demo ''post'' ''http://h/xml'' [] [] None None None (Some False)) = None
       \<and>
   target (HttpReqAuthXML_p1 demo ''post'' ''http://h/xml'' [] [] None None None (Some False)) =
       Some True \<and>
   httpStatus (HttpReqAuthXML_p1 demo ''post'' ''http://h/xml'' [] [] None None None (Some False))
       = 200
   \<and>
   decoded (HttpReqAuthXML_p1 demo ''post'' ''http://h/ok'' [] [] None None None (Some False)) =
     Some (XML, ''true'') \<and>
   err (HttpReqAuthXML_p1 demo ''post'' ''http://h/ok'' [] [] None None None (Some False)) =
     Some (RawErr (Cause ''xml: cannot decode the input'')) \<and>
   httpStatus (HttpReqAuthXML_p1 demo ''post'' ''http://h/ok'' [] [] None None None (Some False))
       = 200
   \<and>
   decoded (HttpReqAuthJSON_p1 demo ''post'' ''http://h/ok'' [] [] None None None (Some False)) =
     Some (JSON, ''true'') \<and>
   err (HttpReqAuthJSON_p1 demo ''post'' ''http://h/ok'' [] [] None None None (Some False)) = None
       \<and>
   target (HttpReqAuthJSON_p1 demo ''post'' ''http://h/ok'' [] [] None None None (Some False)) =
       Some True \<and>
   httpStatus (HttpReqAuthJSON_p1 demo ''post'' ''http://h/ok'' [] [] None None None (Some False))
       = 200
   \<and>
   decoded (HttpReqAuthJSON_p1 demo ''post'' ''http://h/bad'' [] [] None None None (Some False)) =
     Some (JSON, ''tru'') \<and>
   err (HttpReqAuthJSON_p1 demo ''post'' ''http://h/bad'' [] [] None None None (Some False)) =
     Some (RawErr (Cause ''json: cannot decode the input'')) \<and>
   httpStatus (HttpReqAuthJSON_p1 demo ''post'' ''http://h/bad'' [] [] None None None (Some
       False)) = 200
   \<and>
   decoded (HttpReqXML_p1 demo ''post'' ''http://h/xml'' [] None None None (Some False)) =
     Some (XML, ''<Ok>true</Ok>'') \<and>
   err (HttpReqXML_p1 demo ''post'' ''http://h/xml'' [] None None None (Some False)) = None \<and>
   target (HttpReqXML_p1 demo ''post'' ''http://h/xml'' [] None None None (Some False)) = Some
       True \<and>
   httpStatus (HttpReqXML_p1 demo ''post'' ''http://h/xml'' [] None None None (Some False)) = 200
   \<and>
   decoded (HttpReqXML_p1 demo ''post'' ''http://h/ok'' [] None None None (Some False)) =
     Some (XML, ''true'') \<and>
   err (HttpReqXML_p1 demo ''post'' ''http://h/ok'' [] None None None (Some False)) =
     Some (RawErr (Cause ''xml: cannot decode the input'')) \<and>
   httpStatus (HttpReqXML_p1 demo ''post'' ''http://h/ok'' [] None None None (Some False)) = 200
   \<and>
   decoded (HttpReqJSON_p1 demo ''post'' ''http://h/ok'' [] None None None (Some False)) =
     Some (JSON, ''true'') \<and>
   err (HttpReqJSON_p1 demo ''post'' ''http://h/ok'' [] None None None (Some False)) = None \<and>
   target (HttpReqJSON_p1 demo ''post'' ''http://h/ok'' [] None None None (Some False)) = Some
       True \<and>
   httpStatus (HttpReqJSON_p1 demo ''post'' ''http://h/ok'' [] None None None (Some False)) = 200
   \<and>
   decoded (HttpReqJSON_p1 demo ''post'' ''http://h/bad'' [] None None None (Some False)) =
     Some (JSON, ''tru'') \<and>
   err (HttpReqJSON_p1 demo ''post'' ''http://h/bad'' [] None None None (Some False)) =
     Some (RawErr (Cause ''json: cannot decode the input'')) \<and>
   httpStatus (HttpReqJSON_p1 demo ''post'' ''http://h/bad'' [] None None None (Some False)) = 200
   \<and>
   decoded (HttpReqPostFormJSON_p1 demo ''http://h/ok'' [] None None None (Some False)) =
     Some (JSON, ''true'') \<and>
   err (HttpReqPostFormJSON_p1 demo ''http://h/ok'' [] None None None (Some False)) = None \<and>
   target (HttpReqPostFormJSON_p1 demo ''http://h/ok'' [] None None None (Some False)) = Some True
       \<and>
   httpStatus (HttpReqPostFormJSON_p1 demo ''http://h/ok'' [] None None None (Some False)) = 200
   \<and>
   decoded (HttpReqPostFormJSON_p1 demo ''http://h/bad'' [] None None None (Some False)) =
     Some (JSON, ''tru'') \<and>
   err (HttpReqPostFormJSON_p1 demo ''http://h/bad'' [] None None None (Some False)) =
     Some (RawErr (Cause ''json: cannot decode the input'')) \<and>
   httpStatus (HttpReqPostFormJSON_p1 demo ''http://h/bad'' [] None None None (Some False)) = 200
   \<and>
   decoded (HttpReqPostFormXML_p1 demo ''http://h/xml'' [] None None None (Some False)) =
     Some (XML, ''<Ok>true</Ok>'') \<and>
   err (HttpReqPostFormXML_p1 demo ''http://h/xml'' [] None None None (Some False)) = None \<and>
   target (HttpReqPostFormXML_p1 demo ''http://h/xml'' [] None None None (Some False)) = Some True
       \<and>
   httpStatus (HttpReqPostFormXML_p1 demo ''http://h/xml'' [] None None None (Some False)) = 200
   \<and>
   decoded (HttpReqPostFormXML_p1 demo ''http://h/ok'' [] None None None (Some False)) =
     Some (XML, ''true'') \<and>
   err (HttpReqPostFormXML_p1 demo ''http://h/ok'' [] None None None (Some False)) =
     Some (RawErr (Cause ''xml: cannot decode the input'')) \<and>
   httpStatus (HttpReqPostFormXML_p1 demo ''http://h/ok'' [] None None None (Some False)) = 200
   \<and>
   decoded (HttpReqPostFile_p0 demo ''http://h/ok'' [] \<lparr>Key = ''file'', FileName = ''f.txt'',
       Content = ''hi''\<rparr> None None None 0 (Some False)) =
     Some (JSON, ''true'') \<and>
   err (HttpReqPostFile_p0 demo ''http://h/ok'' [] \<lparr>Key = ''file'', FileName = ''f.txt'', Content
       = ''hi''\<rparr> None None None 0 (Some False)) = None \<and>
   target (HttpReqPostFile_p0 demo ''http://h/ok'' [] \<lparr>Key = ''file'', FileName = ''f.txt'',
       Content = ''hi''\<rparr> None None None 0 (Some False)) = Some True \<and>
   httpStatus (HttpReqPostFile_p0 demo ''http://h/ok'' [] \<lparr>Key = ''file'', FileName = ''f.txt'',
       Content = ''hi''\<rparr> None None None 0 (Some False)) = 200
   \<and>
   decoded (HttpReqPostFile_p0 demo ''http://h/bad'' [] \<lparr>Key = ''file'', FileName = ''f.txt'',
       Content = ''hi''\<rparr> None None None 0 (Some False)) =
     Some (JSON, ''tru'') \<and>
   err (HttpReqPostFile_p0 demo ''http://h/bad'' [] \<lparr>Key = ''file'', FileName = ''f.txt'', Content
       = ''hi''\<rparr> None None None 0 (Some False)) =
     Some (RawErr (Cause ''json: cannot decode the input'')) \<and>
   httpStatus (HttpReqPostFile_p0 demo ''http://h/bad'' [] \<lparr>Key = ''file'', FileName = ''f.txt'',
       Content = ''hi''\<rparr> None None None 0 (Some False)) = 200
   \<and>
   decoded (httpReqAuthFile_p0 demo ''post'' ''http://h/ok'' [] [] \<lparr>Key = ''file'', FileName =
       ''f.txt'', Content = ''hi''\<rparr> None None None 0 (Some False)) =
     Some (JSON, ''true'') \<and>
   err (httpReqAuthFile_p0 demo ''post'' ''http://h/ok'' [] [] \<lparr>Key = ''file'', FileName =
       ''f.txt'', Content = ''hi''\<rparr> None None None 0 (Some False)) = None \<and>
   target (httpReqAuthFile_p0 demo ''post'' ''http://h/ok'' [] [] \<lparr>Key = ''file'', FileName =
       ''f.txt'', Content = ''hi''\<rparr> None None None 0 (Some False)) = Some True \<and>
   httpStatus (httpReqAuthFile_p0 demo ''post'' ''http://h/ok'' [] [] \<lparr>Key = ''file'', FileName =
       ''f.txt'', Content = ''hi''\<rparr> None None None 0 (Some False)) = 200
   \<and>
   decoded (httpReqAuthFile_p0 demo ''post'' ''http://h/bad'' [] [] \<lparr>Key = ''file'', FileName =
       ''f.txt'', Content = ''hi''\<rparr> None None None 0 (Some False)) =
     Some (JSON, ''tru'') \<and>
   err (httpReqAuthFile_p0 demo ''post'' ''http://h/bad'' [] [] \<lparr>Key = ''file'', FileName =
       ''f.txt'', Content = ''hi''\<rparr> None None None 0 (Some False)) =
     Some (RawErr (Cause ''json: cannot decode the input'')) \<and>
   httpStatus (httpReqAuthFile_p0 demo ''post'' ''http://h/bad'' [] [] \<lparr>Key = ''file'', FileName =
       ''f.txt'', Content = ''hi''\<rparr> None None None 0 (Some False)) = 200
   \<and>
   decoded (HttpReqAuthPutFile_p0 demo ''http://h/ok'' [] [] \<lparr>Key = ''file'', FileName =
       ''f.txt'', Content = ''hi''\<rparr> None None None 0 (Some False)) =
     Some (JSON, ''true'') \<and>
   err (HttpReqAuthPutFile_p0 demo ''http://h/ok'' [] [] \<lparr>Key = ''file'', FileName = ''f.txt'',
       Content = ''hi''\<rparr> None None None 0 (Some False)) = None \<and>
   target (HttpReqAuthPutFile_p0 demo ''http://h/ok'' [] [] \<lparr>Key = ''file'', FileName = ''f.txt'',
       Content = ''hi''\<rparr> None None None 0 (Some False)) = Some True \<and>
   httpStatus (HttpReqAuthPutFile_p0 demo ''http://h/ok'' [] [] \<lparr>Key = ''file'', FileName =
       ''f.txt'', Content = ''hi''\<rparr> None None None 0 (Some False)) = 200
   \<and>
   decoded (HttpReqAuthPutFile_p0 demo ''http://h/bad'' [] [] \<lparr>Key = ''file'', FileName =
       ''f.txt'', Content = ''hi''\<rparr> None None None 0 (Some False)) =
     Some (JSON, ''tru'') \<and>
   err (HttpReqAuthPutFile_p0 demo ''http://h/bad'' [] [] \<lparr>Key = ''file'', FileName = ''f.txt'',
       Content = ''hi''\<rparr> None None None 0 (Some False)) =
     Some (RawErr (Cause ''json: cannot decode the input'')) \<and>
   httpStatus (HttpReqAuthPutFile_p0 demo ''http://h/bad'' [] [] \<lparr>Key = ''file'', FileName =
       ''f.txt'', Content = ''hi''\<rparr> None None None 0 (Some False)) = 200
   \<and>
   decoded (HttpReqAuthPostFile_p0 demo ''http://h/ok'' [] [] \<lparr>Key = ''file'', FileName =
       ''f.txt'', Content = ''hi''\<rparr> None None None 0 (Some False)) =
     Some (JSON, ''true'') \<and>
   err (HttpReqAuthPostFile_p0 demo ''http://h/ok'' [] [] \<lparr>Key = ''file'', FileName = ''f.txt'',
       Content = ''hi''\<rparr> None None None 0 (Some False)) = None \<and>
   target (HttpReqAuthPostFile_p0 demo ''http://h/ok'' [] [] \<lparr>Key = ''file'', FileName =
       ''f.txt'', Content = ''hi''\<rparr> None None None 0 (Some False)) = Some True \<and>
   httpStatus (HttpReqAuthPostFile_p0 demo ''http://h/ok'' [] [] \<lparr>Key = ''file'', FileName =
       ''f.txt'', Content = ''hi''\<rparr> None None None 0 (Some False)) = 200
   \<and>
   decoded (HttpReqAuthPostFile_p0 demo ''http://h/bad'' [] [] \<lparr>Key = ''file'', FileName =
       ''f.txt'', Content = ''hi''\<rparr> None None None 0 (Some False)) =
     Some (JSON, ''tru'') \<and>
   err (HttpReqAuthPostFile_p0 demo ''http://h/bad'' [] [] \<lparr>Key = ''file'', FileName = ''f.txt'',
       Content = ''hi''\<rparr> None None None 0 (Some False)) =
     Some (RawErr (Cause ''json: cannot decode the input'')) \<and>
   httpStatus (HttpReqAuthPostFile_p0 demo ''http://h/bad'' [] [] \<lparr>Key = ''file'', FileName =
       ''f.txt'', Content = ''hi''\<rparr> None None None 0 (Some False)) = 200"
proof -
  note TA = decoding_by_variant [where w = "demo" and m = "''post''" and tok = "[]" and b = "[]"
      and hl = "[]" and hs = "None" and ck = "None" and tr = "None" and tmo = "0" and rs = "(Some
      False)" and ps = "[]" and pf = "\<lparr>Key = ''file'', FileName = ''f.txt'', Content = ''hi''\<rparr>"
      and u = "''http://h/ok''"]
  note TB = decoding_by_variant [where w = "demo" and m = "''post''" and tok = "[]" and b = "[]"
      and hl = "[]" and hs = "None" and ck = "None" and tr = "None" and tmo = "0" and rs = "(Some
      False)" and ps = "[]" and pf = "\<lparr>Key = ''file'', FileName = ''f.txt'', Content = ''hi''\<rparr>"
      and u = "''http://h/xml''"]
  note TC = decoding_by_variant [where w = "demo" and m = "''post''" and tok = "[]" and b = "[]"
      and hl = "[]" and hs = "None" and ck = "None" and tr = "None" and tmo = "0" and rs = "(Some
      False)" and ps = "[]" and pf = "\<lparr>Key = ''file'', FileName = ''f.txt'', Content = ''hi''\<rparr>"
      and u = "''http://h/bad''"]
  have f: "multipart_CreateFormFile demo (text_fields []) ''file'' ''f.txt'' = None"
    by (simp add: demo_def)
  have do0: "err (sendHttpReq_hu demo ''post'' ''http://h/xml'' [] (with_content_type ''text/xml''
      None) None) = None \<and>
      buf (sendHttpReq_hu demo ''post'' ''http://h/xml'' [] (with_content_type ''text/xml'' None)
          None) = Some ''<Ok>true</Ok>'' \<and>
      httpStatus (sendHttpReq_hu demo ''post'' ''http://h/xml'' [] (with_content_type ''text/xml''
          None) None) = 200"
    by (simp add: sendHttpReq_p0_eq sendHttpReq_p1_eq sendHttpReq_hu_eq demo_eval
        ascii_TrimSpace_def ascii_upper_def ascii_space_def with_content_type_def
        with_content_type_if_absent_def text_fields_def)
  have o0: "decoded (HttpReqXML_hu demo ''post'' ''http://h/xml'' [] None None (Some False)) =
     Some (XML, ''<Ok>true</Ok>'') \<and>
   err (HttpReqXML_hu demo ''post'' ''http://h/xml'' [] None None (Some False)) = None \<and>
   target (HttpReqXML_hu demo ''post'' ''http://h/xml'' [] None None (Some False)) = Some True \<and>
   httpStatus (HttpReqXML_hu demo ''post'' ''http://h/xml'' [] None None (Some False)) = 200"
    using TB [THEN conjunct2, THEN conjunct2, THEN conjunct2, THEN conjunct1] do0 f
    by (simp add: decode_after_def demo_def demo_xml_Unmarshal_def)
  have dx0: "err (sendHttpReq_hu demo ''post'' ''http://h/ok'' [] (with_content_type ''text/xml''
      None) None) = None \<and>
      buf (sendHttpReq_hu demo ''post'' ''http://h/ok'' [] (with_content_type ''text/xml'' None)
          None) = Some ''true'' \<and>
      httpStatus (sendHttpReq_hu demo ''post'' ''http://h/ok'' [] (with_content_type ''text/xml''
          None) None) = 200"
    by (simp add: sendHttpReq_p0_eq sendHttpReq_p1_eq sendHttpReq_hu_eq demo_eval
        ascii_TrimSpace_def ascii_upper_def ascii_space_def with_content_type_def
        with_content_type_if_absent_def text_fields_def)
  have x0: "decoded (HttpReqXML_hu demo ''post'' ''http://h/ok'' [] None None (Some False)) =
     Some (XML, ''true'') \<and>
   err (HttpReqXML_hu demo ''post'' ''http://h/ok'' [] None None (Some False)) =
     Some (RawErr (Cause ''xml: cannot decode the input'')) \<and>
   httpStatus (HttpReqXML_hu demo ''post'' ''http://h/ok'' [] None None (Some False)) = 200"
    using TA [THEN conjunct2, THEN conjunct2, THEN conjunct2, THEN conjunct1] dx0 f
    by (simp add: decode_after_def demo_def demo_xml_Unmarshal_def)
  have do1: "err (sendHttpReq_hu demo (strings_TrimSpace demo (strings_ToUpper demo ''post''))
      ''http://h/ok'' [] (with_content_type ''application/json'' None) None) = None \<and>
      buf (sendHttpReq_hu demo (strings_TrimSpace demo (strings_ToUpper demo ''post''))
          ''http://h/ok'' [] (with_content_type ''application/json'' None) None) = Some ''true'' \<and>
      httpStatus (sendHttpReq_hu demo (strings_TrimSpace demo (strings_ToUpper demo ''post''))
          ''http://h/ok'' [] (with_content_type ''application/json'' None) None) = 200"
    by (simp add: sendHttpReq_p0_eq sendHttpReq_p1_eq sendHttpReq_hu_eq demo_eval
        ascii_TrimSpace_def ascii_upper_def ascii_space_def with_content_type_def
        with_content_type_if_absent_def text_fields_def)
  have o1: "decoded (HttpReqJSON_hu demo ''post'' ''http://h/ok'' [] None None (Some False)) =
     Some (JSON, ''true'') \<and>
   err (HttpReqJSON_hu demo ''post'' ''http://h/ok'' [] None None (Some False)) = None \<and>
   target (HttpReqJSON_hu demo ''post'' ''http://h/ok'' [] None None (Some False)) = Some True \<and>
   httpStatus (HttpReqJSON_hu demo ''post'' ''http://h/ok'' [] None None (Some False)) = 200"
    using TA [THEN conjunct2, THEN conjunct2, THEN conjunct2, THEN conjunct2, THEN conjunct2, THEN
        conjunct1] do1 f
    by (simp add: decode_after_def demo_def demo_json_Unmarshal_def)
  have dx1: "err (sendHttpReq_hu demo (strings_TrimSpace demo (strings_ToUpper demo ''post''))
      ''http://h/bad'' [] (with_content_type ''application/json'' None) None) = None \<and>
      buf (sendHttpReq_hu demo (strings_TrimSpace demo (strings_ToUpper demo ''post''))
          ''http://h/bad'' [] (with_content_type ''application/json'' None) None) = Some ''tru'' \<and>
      httpStatus (sendHttpReq_hu demo (strings_TrimSpace demo (strings_ToUpper demo ''post''))
          ''http://h/bad'' [] (with_content_type ''application/json'' None) None) = 200"
    by (simp add: sendHttpReq_p0_eq sendHttpReq_p1_eq sendHttpReq_hu_eq demo_eval
        ascii_TrimSpace_def ascii_upper_def ascii_space_def with_content_type_def
        with_content_type_if_absent_def text_fields_def)
  have x1: "decoded (HttpReqJSON_hu demo ''post'' ''http://h/bad'' [] None None (Some False)) =
     Some (JSON, ''tru'') \<and>
   err (HttpReqJSON_hu demo ''post'' ''http://h/bad'' [] None None (Some False)) =
     Some (RawErr (Cause ''json: cannot decode the input'')) \<and>
   httpStatus (HttpReqJSON_hu demo ''post'' ''http://h/bad'' [] None None (Some False)) = 200"
    using TC [THEN conjunct2, THEN conjunct2, THEN conjunct2, THEN conjunct2, THEN conjunct2, THEN
        conjunct1] dx1 f
    by (simp add: decode_after_def demo_def demo_json_Unmarshal_def)
  have do2: "err (sendHttpReq_p0 demo (strings_TrimSpace demo (strings_ToUpper demo ''post''))
      ''http://h/xml'' [] [] (with_content_type ''text/xml'' None) None None 0) = None \<and>
      buf (sendHttpReq_p0 demo (strings_TrimSpace demo (strings_ToUpper demo ''post''))
          ''http://h/xml'' [] [] (with_content_type ''text/xml'' None) None None 0) = Some
          ''<Ok>true</Ok>'' \<and>
      httpStatus (sendHttpReq_p0 demo (strings_TrimSpace demo (strings_ToUpper demo ''post''))
          ''http://h/xml'' [] [] (with_content_type ''text/xml'' None) None None 0) = 200"
    by (simp add: sendHttpReq_p0_eq sendHttpReq_p1_eq sendHttpReq_hu_eq demo_eval
        ascii_TrimSpace_def ascii_upper_def ascii_space_def with_content_type_def
        with_content_type_if_absent_def text_fields_def)
  have o2: "decoded (HttpReqAuthXML_p0 demo ''post'' ''http://h/xml'' [] [] None None None 0 (Some
      False)) =
     Some (XML, ''<Ok>true</Ok>'') \<and>
   err (HttpReqAuthXML_p0 demo ''post'' ''http://h/xml'' [] [] None None None 0 (Some False)) =
       None \<and>
   target (HttpReqAuthXML_p0 demo ''post'' ''http://h/xml'' [] [] None None None 0 (Some False)) =
       Some True \<and>
   httpStatus (HttpReqAuthXML_p0 demo ''post'' ''http://h/xml'' [] [] None None None 0 (Some
       False)) = 200"
    using TB [THEN conjunct2, THEN conjunct2, THEN conjunct2, THEN conjunct2, THEN conjunct2, THEN
        conjunct2, THEN conjunct2, THEN conjunct1] do2 f
    by (simp add: decode_after_def demo_def demo_xml_Unmarshal_def)
  have dx2: "err (sendHttpReq_p0 demo (strings_TrimSpace demo (strings_ToUpper demo ''post''))
      ''http://h/ok'' [] [] (with_content_type ''text/xml'' None) None None 0) = None \<and>
      buf (sendHttpReq_p0 demo (strings_TrimSpace demo (strings_ToUpper demo ''post''))
          ''http://h/ok'' [] [] (with_content_type ''text/xml'' None) None None 0) = Some ''true''
          \<and>
      httpStatus (sendHttpReq_p0 demo (strings_TrimSpace demo (strings_ToUpper demo ''post''))
          ''http://h/ok'' [] [] (with_content_type ''text/xml'' None) None None 0) = 200"
    by (simp add: sendHttpReq_p0_eq sendHttpReq_p1_eq sendHttpReq_hu_eq demo_eval
        ascii_TrimSpace_def ascii_upper_def ascii_space_def with_content_type_def
        with_content_type_if_absent_def text_fields_def)
  have x2: "decoded (HttpReqAuthXML_p0 demo ''post'' ''http://h/ok'' [] [] None None None 0 (Some
      False)) =
     Some (XML, ''true'') \<and>
   err (HttpReqAuthXML_p0 demo ''post'' ''http://h/ok'' [] [] None None None 0 (Some False)) =
     Some (RawErr (Cause ''xml: cannot decode the input'')) \<and>
   httpStatus (HttpReqAuthXML_p0 demo ''post'' ''http://h/ok'' [] [] None None None 0 (Some
       False)) = 200"
    using TA [THEN conjunct2, THEN conjunct2, THEN conjunct2, THEN conjunct2, THEN conjunct2, THEN
        conjunct2, THEN conjunct2, THEN conjunct1] dx2 f
    by (simp add: decode_after_def demo_def demo_xml_Unmarshal_def)
  have do3: "err (sendHttpReq_p0 demo (strings_TrimSpace demo (strings_ToUpper demo ''post''))
      ''http://h/ok'' [] [] (with_content_type ''application/json'' None) None None 0) = None \<and>
      buf (sendHttpReq_p0 demo (strings_TrimSpace demo (strings_ToUpper demo ''post''))
          ''http://h/ok'' [] [] (with_content_type ''application/json'' None) None None 0) = Some
          ''true'' \<and>
      httpStatus (sendHttpReq_p0 demo (strings_TrimSpace demo (strings_ToUpper demo ''post''))
          ''http://h/ok'' [] [] (with_content_type ''application/json'' None) None None 0) = 200"
    by (simp add: sendHttpReq_p0_eq sendHttpReq_p1_eq sendHttpReq_hu_eq demo_eval
        ascii_TrimSpace_def ascii_upper_def ascii_space_def with_content_type_def
        with_content_type_if_absent_def text_fields_def)
  have o3: "decoded (HttpReqAuthJSON_p0 demo ''post'' ''http://h/ok'' [] [] None None None 0 (Some
      False)) =
     Some (JSON, ''true'') \<and>
   err (HttpReqAuthJSON_p0 demo ''post'' ''http://h/ok'' [] [] None None None 0 (Some False)) =
       None \<and>
   target (HttpReqAuthJSON_p0 demo ''post'' ''http://h/ok'' [] [] None None None 0 (Some False)) =
       Some True \<and>
   httpStatus (HttpReqAuthJSON_p0 demo ''post'' ''http://h/ok'' [] [] None None None 0 (Some
       False)) = 200"
    using TA [THEN conjunct2, THEN conjunct2, THEN conjunct2, THEN conjunct2, THEN conjunct2, THEN
        conjunct2, THEN conjunct2, THEN conjunct2, THEN conjunct2, THEN conjunct1] do3 f
    by (simp add: decode_after_def demo_def demo_json_Unmarshal_def)
  have dx3: "err (sendHttpReq_p0 demo (strings_TrimSpace demo (strings_ToUpper demo ''post''))
      ''http://h/bad'' [] [] (with_content_type ''application/json'' None) None None 0) = None \<and>
      buf (sendHttpReq_p0 demo (strings_TrimSpace demo (strings_ToUpper demo ''post''))
          ''http://h/bad'' [] [] (with_content_type ''application/json'' None) None None 0) = Some
          ''tru'' \<and>
      httpStatus (sendHttpReq_p0 demo (strings_TrimSpace demo (strings_ToUpper demo ''post''))
          ''http://h/bad'' [] [] (with_content_type ''application/json'' None) None None 0) = 200"
    by (simp add: sendHttpReq_p0_eq sendHttpReq_p1_eq sendHttpReq_hu_eq demo_eval
        ascii_TrimSpace_def ascii_upper_def ascii_space_def with_content_type_def
        with_content_type_if_absent_def text_fields_def)
  have x3: "decoded (HttpReqAuthJSON_p0 demo ''post'' ''http://h/bad'' [] [] None None None 0
      (Some False)) =
     Some (JSON, ''tru'') \<and>
   err (HttpReqAuthJSON_p0 demo ''post'' ''http://h/bad'' [] [] None None None 0 (Some False)) =
     Some (RawErr (Cause ''json: cannot decode the input'')) \<and>
   httpStatus (HttpReqAuthJSON_p0 demo ''post'' ''http://h/bad'' [] [] None None None 0 (Some
       False)) = 200"
    using TC [THEN conjunct2, THEN conjunct2, THEN conjunct2, THEN conjunct2, THEN conjunct2, THEN
        conjunct2, THEN conjunct2, THEN conjunct2, THEN conjunct2, THEN conjunct1] dx3 f
    by (simp add: decode_after_def demo_def demo_json_Unmarshal_def)
  have do4: "err (sendHttpReq_p0 demo (strings_TrimSpace demo (strings_ToUpper demo ''post''))
      ''http://h/xml'' [] [] (with_content_type ''text/xml'' None) None None 0) = None \<and>
      buf (sendHttpReq_p0 demo (strings_TrimSpace demo (strings_ToUpper demo ''post''))
          ''http://h/xml'' [] [] (with_content_type ''text/xml'' None) None None 0) = Some
          ''<Ok>true</Ok>'' \<and>
      httpStatus (sendHttpReq_p0 demo (strings_TrimSpace demo (strings_ToUpper demo ''post''))
          ''http://h/xml'' [] [] (with_content_type ''text/xml'' None) None None 0) = 200"
    by (simp add: sendHttpReq_p0_eq sendHttpReq_p1_eq sendHttpReq_hu_eq demo_eval
        ascii_TrimSpace_def ascii_upper_def ascii_space_def with_content_type_def
        with_content_type_if_absent_def text_fields_def)
  have o4: "decoded (HttpReqXML_p0 demo ''post'' ''http://h/xml'' [] None None None 0 (Some
      False)) =
     Some (XML, ''<Ok>true</Ok>'') \<and>
   err (HttpReqXML_p0 demo ''post'' ''http://h/xml'' [] None None None 0 (Some False)) = None \<and>
   target (HttpReqXML_p0 demo ''post'' ''http://h/xml'' [] None None None 0 (Some False)) = Some
       True \<and>
   httpStatus (HttpReqXML_p0 demo ''post'' ''http://h/xml'' [] None None None 0 (Some False)) =
       200"
    using TB [THEN conjunct2, THEN conjunct2, THEN conjunct2, THEN conjunct2, THEN conjunct2, THEN
        conjunct2, THEN conjunct2, THEN conjunct2, THEN conjunct2, THEN conjunct2, THEN conjunct2,
        THEN conjunct1] do4 f
    by (simp add: decode_after_def demo_def demo_xml_Unmarshal_def)
  have dx4: "err (sendHttpReq_p0 demo (strings_TrimSpace demo (strings_ToUpper demo ''post''))
      ''http://h/ok'' [] [] (with_content_type ''text/xml'' None) None None 0) = None \<and>
      buf (sendHttpReq_p0 demo (strings_TrimSpace demo (strings_ToUpper demo ''post''))
          ''http://h/ok'' [] [] (with_content_type ''text/xml'' None) None None 0) = Some ''true''
          \<and>
      httpStatus (sendHttpReq_p0 demo (strings_TrimSpace demo (strings_ToUpper demo ''post''))
          ''http://h/ok'' [] [] (with_content_type ''text/xml'' None) None None 0) = 200"
    by (simp add: sendHttpReq_p0_eq sendHttpReq_p1_eq sendHttpReq_hu_eq demo_eval
        ascii_TrimSpace_def ascii_upper_def ascii_space_def with_content_type_def
        with_content_type_if_absent_def text_fields_def)
  have x4: "decoded (HttpReqXML_p0 demo ''post'' ''http://h/ok'' [] None None None 0 (Some False))
      =
     Some (XML, ''true'') \<and>
   err (HttpReqXML_p0 demo ''post'' ''http://h/ok'' [] None None None 0 (Some False)) =
     Some (RawErr (Cause ''xml: cannot decode the input'')) \<and>
   httpStatus (HttpReqXML_p0 demo ''post'' ''http://h/ok'' [] None None None 0 (Some False)) =
       200"
    using TA [THEN conjunct2, THEN conjunct2, THEN conjunct2, THEN conjunct2, THEN conjunct2, THEN
        conjunct2, THEN conjunct2, THEN conjunct2, THEN conjunct2, THEN conjunct2, THEN conjunct2,
        THEN conjunct1] dx4 f
    by (simp add: decode_after_def demo_def demo_xml_Unmarshal_def)
  have do5: "err (sendHttpReq_p0 demo (strings_TrimSpace demo (strings_ToUpper demo ''post''))
      ''http://h/ok'' [] [] (with_content_type ''application/json'' None) None None 0) = None \<and>
      buf (sendHttpReq_p0 demo (strings_TrimSpace demo (strings_ToUpper demo ''post''))
          ''http://h/ok'' [] [] (with_content_type ''application/json'' None) None None 0) = Some
          ''true'' \<and>
      httpStatus (sendHttpReq_p0 demo (strings_TrimSpace demo (strings_ToUpper demo ''post''))
          ''http://h/ok'' [] [] (with_content_type ''application/json'' None) None None 0) = 200"
    by (simp add: sendHttpReq_p0_eq sendHttpReq_p1_eq sendHttpReq_hu_eq demo_eval
        ascii_TrimSpace_def ascii_upper_def ascii_space_def with_content_type_def
        with_content_type_if_absent_def text_fields_def)
  have o5: "decoded (HttpReqJSON_p0 demo ''post'' ''http://h/ok'' [] None None None 0 (Some
      False)) =
     Some (JSON, ''true'') \<and>
   err (HttpReqJSON_p0 demo ''post'' ''http://h/ok'' [] None None None 0 (Some False)) = None \<and>
   target (HttpReqJSON_p0 demo ''post'' ''http://h/ok'' [] None None None 0 (Some False)) = Some
       True \<and>
   httpStatus (HttpReqJSON_p0 demo ''post'' ''http://h/ok'' [] None None None 0 (Some False)) =
       200"
    using TA [THEN conjunct2, THEN conjunct2, THEN conjunct2, THEN conjunct2, THEN conjunct2, THEN
        conjunct2, THEN conjunct2, THEN conjunct2, THEN conjunct2, THEN conjunct2, THEN conjunct2,
        THEN conjunct2, THEN conjunct2, THEN conjunct1] do5 f
    by (simp add: decode_after_def demo_def demo_json_Unmarshal_def)
  have dx5: "err (sendHttpReq_p0 demo (strings_TrimSpace demo (strings_ToUpper demo ''post''))
      ''http://h/bad'' [] [] (with_content_type ''application/json'' None) None None 0) = None \<and>
      buf (sendHttpReq_p0 demo (strings_TrimSpace demo (strings_ToUpper demo ''post''))
          ''http://h/bad'' [] [] (with_content_type ''application/json'' None) None None 0) = Some
          ''tru'' \<and>
      httpStatus (sendHttpReq_p0 demo (strings_TrimSpace demo (strings_ToUpper demo ''post''))
          ''http://h/bad'' [] [] (with_content_type ''application/json'' None) None None 0) = 200"
    by (simp add: sendHttpReq_p0_eq sendHttpReq_p1_eq sendHttpReq_hu_eq demo_eval
        ascii_TrimSpace_def ascii_upper_def ascii_space_def with_content_type_def
        with_content_type_if_absent_def text_fields_def)
  have x5: "decoded (HttpReqJSON_p0 demo ''post'' ''http://h/bad'' [] None None None 0 (Some
      False)) =
     Some (JSON, ''tru'') \<and>
   err (HttpReqJSON_p0 demo ''post'' ''http://h/bad'' [] None None None 0 (Some False)) =
     Some (RawErr (Cause ''json: cannot decode the input'')) \<and>
   httpStatus (HttpReqJSON_p0 demo ''post'' ''http://h/bad'' [] None None None 0 (Some False)) =
       200"
    using TC [THEN conjunct2, THEN conjunct2, THEN conjunct2, THEN conjunct2, THEN conjunct2, THEN
        conjunct2, THEN conjunct2, THEN conjunct2, THEN conjunct2, THEN conjunct2, THEN conjunct2,
        THEN conjunct2, THEN conjunct2, THEN conjunct1] dx5 f
    by (simp add: decode_after_def demo_def demo_json_Unmarshal_def)
  have do6: "err (sendHttpReq_p0 demo ''POST'' ''http://h/ok'' [] [] (with_content_type
      ''application/x-www-form-urlencoded'' None) None None 0) = None \<and>
      buf (sendHttpReq_p0 demo ''POST'' ''http://h/ok'' [] [] (with_content_type
          ''application/x-www-form-urlencoded'' None) None None 0) = Some ''true'' \<and>
      httpStatus (sendHttpReq_p0 demo ''POST'' ''http://h/ok'' [] [] (with_content_type
          ''application/x-www-form-urlencoded'' None) None None 0) = 200"
    by (simp add: sendHttpReq_p0_eq sendHttpReq_p1_eq sendHttpReq_hu_eq demo_eval
        ascii_TrimSpace_def ascii_upper_def ascii_space_def with_content_type_def
        with_content_type_if_absent_def text_fields_def)
  have o6: "decoded (HttpReqPostFormJSON_p0 demo ''http://h/ok'' [] None None None 0 (Some False))
      =
     Some (JSON, ''true'') \<and>
   err (HttpReqPostFormJSON_p0 demo ''http://h/ok'' [] None None None 0 (Some False)) = None \<and>
   target (HttpReqPostFormJSON_p0 demo ''http://h/ok'' [] None None None 0 (Some False)) = Some
       True \<and>
   httpStatus (HttpReqPostFormJSON_p0 demo ''http://h/ok'' [] None None None 0 (Some False)) =
       200"
    using TA [THEN conjunct2, THEN conjunct2, THEN conjunct2, THEN conjunct2, THEN conjunct2, THEN
        conjunct2, THEN conjunct2, THEN conjunct2, THEN conjunct2, THEN conjunct2, THEN conjunct2,
        THEN conjunct2, THEN conjunct2, THEN conjunct2, THEN conjunct2, THEN conjunct1] do6 f
    by (simp add: decode_after_def demo_def demo_json_Unmarshal_def)
  have dx6: "err (sendHttpReq_p0 demo ''POST'' ''http://h/bad'' [] [] (with_content_type
      ''application/x-www-form-urlencoded'' None) None None 0) = None \<and>
      buf (sendHttpReq_p0 demo ''POST'' ''http://h/bad'' [] [] (with_content_type
          ''application/x-www-form-urlencoded'' None) None None 0) = Some ''tru'' \<and>
      httpStatus (sendHttpReq_p0 demo ''POST'' ''http://h/bad'' [] [] (with_content_type
          ''application/x-www-form-urlencoded'' None) None None 0) = 200"
    by (simp add: sendHttpReq_p0_eq sendHttpReq_p1_eq sendHttpReq_hu_eq demo_eval
        ascii_TrimSpace_def ascii_upper_def ascii_space_def with_content_type_def
        with_content_type_if_absent_def text_fields_def)
  have x6: "decoded (HttpReqPostFormJSON_p0 demo ''http://h/bad'' [] None None None 0 (Some
      False)) =
     Some (JSON, ''tru'') \<and>
   err (HttpReqPostFormJSON_p0 demo ''http://h/bad'' [] None None None 0 (Some False)) =
     Some (RawErr (Cause ''json: cannot decode the input'')) \<and>
   httpStatus (HttpReqPostFormJSON_p0 demo ''http://h/bad'' [] None None None 0 (Some False)) =
       200"
    using TC [THEN conjunct2, THEN conjunct2, THEN conjunct2, THEN conjunct2, THEN conjunct2, THEN
        conjunct2, THEN conjunct2, THEN conjunct2, THEN conjunct2, THEN conjunct2, THEN conjunct2,
        THEN conjunct2, THEN conjunct2, THEN conjunct2, THEN conjunct2, THEN conjunct1] dx6 f
    by (simp add: decode_after_def demo_def demo_json_Unmarshal_def)
  have do7: "err (sendHttpReq_p0 demo ''POST'' ''http://h/xml'' [] [] (with_content_type_if_absent
      ''application/x-www-form-urlencoded'' None) None None 0) = None \<and>
      buf (sendHttpReq_p0 demo ''POST'' ''http://h/xml'' [] [] (with_content_type_if_absent
          ''application/x-www-form-urlencoded'' None) None None 0) = Some ''<Ok>true</Ok>'' \<and>
      httpStatus (sendHttpReq_p0 demo ''POST'' ''http://h/xml'' [] [] (with_content_type_if_absent
          ''application/x-www-form-urlencoded'' None) None None 0) = 200"
    by (simp add: sendHttpReq_p0_eq sendHttpReq_p1_eq sendHttpReq_hu_eq demo_eval
        ascii_TrimSpace_def ascii_upper_def ascii_space_def with_content_type_def
        with_content_type_if_absent_def text_fields_def)
  have o7: "decoded (HttpReqPostFormXML_p0 demo ''http://h/xml'' [] None None None 0 (Some False))
      =
     Some (XML, ''<Ok>true</Ok>'') \<and>
   err (HttpReqPostFormXML_p0 demo ''http://h/xml'' [] None None None 0 (Some False)) = None \<and>
   target (HttpReqPostFormXML_p0 demo ''http://h/xml'' [] None None None 0 (Some False)) = Some
       True \<and>
   httpStatus (HttpReqPostFormXML_p0 demo ''http://h/xml'' [] None None None 0 (Some False)) =
       200"
    using TB [THEN conjunct2, THEN conjunct2, THEN conjunct2, THEN conjunct2, THEN conjunct2, THEN
        conjunct2, THEN conjunct2, THEN conjunct2, THEN conjunct2, THEN conjunct2, THEN conjunct2,
        THEN conjunct2, THEN conjunct2, THEN conjunct2, THEN conjunct2, THEN conjunct2, THEN
        conjunct2, THEN conjunct1] do7 f
    by (simp add: decode_after_def demo_def demo_xml_Unmarshal_def)
  have dx7: "err (sendHttpReq_p0 demo ''POST'' ''http://h/ok'' [] [] (with_content_type_if_absent
      ''application/x-www-form-urlencoded'' None) None None 0) = None \<and>
      buf (sendHttpReq_p0 demo ''POST'' ''http://h/ok'' [] [] (with_content_type_if_absent
          ''application/x-www-form-urlencoded'' None) None None 0) = Some ''true'' \<and>
      httpStatus (sendHttpReq_p0 demo ''POST'' ''http://h/ok'' [] [] (with_content_type_if_absent
          ''application/x-www-form-urlencoded'' None) None None 0) = 200"
    by (simp add: sendHttpReq_p0_eq sendHttpReq_p1_eq sendHttpReq_hu_eq demo_eval
        ascii_TrimSpace_def ascii_upper_def ascii_space_def with_content_type_def
        with_content_type_if_absent_def text_fields_def)
  have x7: "decoded (HttpReqPostFormXML_p0 demo ''http://h/ok'' [] None None None 0 (Some False))
      =
     Some (XML, ''true'') \<and>
   err (HttpReqPostFormXML_p0 demo ''http://h/ok'' [] None None None 0 (Some False)) =
     Some (RawErr (Cause ''xml: cannot decode the input'')) \<and>
   httpStatus (HttpReqPostFormXML_p0 demo ''http://h/ok'' [] None None None 0 (Some False)) = 200"
    using TA [THEN conjunct2, THEN conjunct2, THEN conjunct2, THEN conjunct2, THEN conjunct2, THEN
        conjunct2, THEN conjunct2, THEN conjunct2, THEN conjunct2, THEN conjunct2, THEN conjunct2,
        THEN conjunct2, THEN conjunct2, THEN conjunct2, THEN conjunct2, THEN conjunct2, THEN
        conjunct2, THEN conjunct1] dx7 f
    by (simp add: decode_after_def demo_def demo_xml_Unmarshal_def)
  have do8: "err (sendHttpReq_p1 demo (strings_TrimSpace demo (strings_ToUpper demo ''post''))
      ''http://h/xml'' [] [] (with_content_type ''text/xml'' None) None None) = None \<and>
      buf (sendHttpReq_p1 demo (strings_TrimSpace demo (strings_ToUpper demo ''post''))
          ''http://h/xml'' [] [] (with_content_type ''text/xml'' None) None None) = Some
          ''<Ok>true</Ok>'' \<and>
      httpStatus (sendHttpReq_p1 demo (strings_TrimSpace demo (strings_ToUpper demo ''post''))
          ''http://h/xml'' [] [] (with_content_type ''text/xml'' None) None None) = 200"
    by (simp add: sendHttpReq_p0_eq sendHttpReq_p1_eq sendHttpReq_hu_eq demo_eval
        ascii_TrimSpace_def ascii_upper_def ascii_space_def with_content_type_def
        with_content_type_if_absent_def text_fields_def)
  have o8: "decoded (HttpReqAuthXML_p1 demo ''post'' ''http://h/xml'' [] [] None None None (Some
      False)) =
     Some (XML, ''<Ok>true</Ok>'') \<and>
   err (HttpReqAuthXML_p1 demo ''post'' ''http://h/xml'' [] [] None None None (Some False)) = None
       \<and>
   target (HttpReqAuthXML_p1 demo ''post'' ''http://h/xml'' [] [] None None None (Some False)) =
       Some True \<and>
   httpStatus (HttpReqAuthXML_p1 demo ''post'' ''http://h/xml'' [] [] None None None (Some False))
       = 200"
    using TB [THEN conjunct2, THEN conjunct2, THEN conjunct2, THEN conjunct2, THEN conjunct2, THEN
        conjunct2, THEN conjunct2, THEN conjunct2, THEN conjunct2, THEN conjunct2, THEN conjunct2,
        THEN conjunct2, THEN conjunct2, THEN conjunct2, THEN conjunct2, THEN conjunct2, THEN
        conjunct2, THEN conjunct2, THEN conjunct2, THEN conjunct1] do8 f
    by (simp add: decode_after_def demo_def demo_xml_Unmarshal_def)
  have dx8: "err (sendHttpReq_p1 demo (strings_TrimSpace demo (strings_ToUpper demo ''post''))
      ''http://h/ok'' [] [] (with_content_type ''text/xml'' None) None None) = None \<and>
      buf (sendHttpReq_p1 demo (strings_TrimSpace demo (strings_ToUpper demo ''post''))
          ''http://h/ok'' [] [] (with_content_type ''text/xml'' None) None None) = Some ''true'' \<and>
      httpStatus (sendHttpReq_p1 demo (strings_TrimSpace demo (strings_ToUpper demo ''post''))
          ''http://h/ok'' [] [] (with_content_type ''text/xml'' None) None None) = 200"
    by (simp add: sendHttpReq_p0_eq sendHttpReq_p1_eq sendHttpReq_hu_eq demo_eval
        ascii_TrimSpace_def ascii_upper_def ascii_space_def with_content_type_def
        with_content_type_if_absent_def text_fields_def)
  have x8: "decoded (HttpReqAuthXML_p1 demo ''post'' ''http://h/ok'' [] [] None None None (Some
      False)) =
     Some (XML, ''true'') \<and>
   err (HttpReqAuthXML_p1 demo ''post'' ''http://h/ok'' [] [] None None None (Some False)) =
     Some (RawErr (Cause ''xml: cannot decode the input'')) \<and>
   httpStatus (HttpReqAuthXML_p1 demo ''post'' ''http://h/ok'' [] [] None None None (Some False))
       = 200"
    using TA [THEN conjunct2, THEN conjunct2, THEN conjunct2, THEN conjunct2, THEN conjunct2, THEN
        conjunct2, THEN conjunct2, THEN conjunct2, THEN conjunct2, THEN conjunct2, THEN conjunct2,
        THEN conjunct2, THEN conjunct2, THEN conjunct2, THEN conjunct2, THEN conjunct2, THEN
        conjunct2, THEN conjunct2, THEN conjunct2, THEN conjunct1] dx8 f
    by (simp add: decode_after_def demo_def demo_xml_Unmarshal_def)
  have do9: "err (sendHttpReq_p1 demo (strings_TrimSpace demo (strings_ToUpper demo ''post''))
      ''http://h/ok'' [] [] (with_content_type ''application/json'' None) None None) = None \<and>
      buf (sendHttpReq_p1 demo (strings_TrimSpace demo (strings_ToUpper demo ''post''))
          ''http://h/ok'' [] [] (with_content_type ''application/json'' None) None None) = Some
          ''true'' \<and>
      httpStatus (sendHttpReq_p1 demo (strings_TrimSpace demo (strings_ToUpper demo ''post''))
          ''http://h/ok'' [] [] (with_content_type ''application/json'' None) None None) = 200"
    by (simp add: sendHttpReq_p0_eq sendHttpReq_p1_eq sendHttpReq_hu_eq demo_eval
        ascii_TrimSpace_def ascii_upper_def ascii_space_def with_content_type_def
        with_content_type_if_absent_def text_fields_def)
  have o9: "decoded (HttpReqAuthJSON_p1 demo ''post'' ''http://h/ok'' [] [] None None None (Some
      False)) =
     Some (JSON, ''true'') \<and>
   err (HttpReqAuthJSON_p1 demo ''post'' ''http://h/ok'' [] [] None None None (Some False)) = None
       \<and>
   target (HttpReqAuthJSON_p1 demo ''post'' ''http://h/ok'' [] [] None None None (Some False)) =
       Some True \<and>
   httpStatus (HttpReqAuthJSON_p1 demo ''post'' ''http://h/ok'' [] [] None None None (Some False))
       = 200"
    using TA [THEN conjunct2, THEN conjunct2, THEN conjunct2, THEN conjunct2, THEN conjunct2, THEN
        conjunct2, THEN conjunct2, THEN conjunct2, THEN conjunct2, THEN conjunct2, THEN conjunct2,
        THEN conjunct2, THEN conjunct2, THEN conjunct2, THEN conjunct2, THEN conjunct2, THEN
        conjunct2, THEN conjunct2, THEN conjunct2, THEN conjunct2, THEN conjunct2, THEN conjunct1]
        do9 f
    by (simp add: decode_after_def demo_def demo_json_Unmarshal_def)
  have dx9: "err (sendHttpReq_p1 demo (strings_TrimSpace demo (strings_ToUpper demo ''post''))
      ''http://h/bad'' [] [] (with_content_type ''application/json'' None) None None) = None \<and>
      buf (sendHttpReq_p1 demo (strings_TrimSpace demo (strings_ToUpper demo ''post''))
          ''http://h/bad'' [] [] (with_content_type ''application/json'' None) None None) = Some
          ''tru'' \<and>
      httpStatus (sendHttpReq_p1 demo (strings_TrimSpace demo (strings_ToUpper demo ''post''))
          ''http://h/bad'' [] [] (with_content_type ''application/json'' None) None None) = 200"
    by (simp add: sendHttpReq_p0_eq sendHttpReq_p1_eq sendHttpReq_hu_eq demo_eval
        ascii_TrimSpace_def ascii_upper_def ascii_space_def with_content_type_def
        with_content_type_if_absent_def text_fields_def)
  have x9: "decoded (HttpReqAuthJSON_p1 demo ''post'' ''http://h/bad'' [] [] None None None (Some
      False)) =
     Some (JSON, ''tru'') \<and>
   err (HttpReqAuthJSON_p1 demo ''post'' ''http://h/bad'' [] [] None None None (Some False)) =
     Some (RawErr (Cause ''json: cannot decode the input'')) \<and>
   httpStatus (HttpReqAuthJSON_p1 demo ''post'' ''http://h/bad'' [] [] None None None (Some
       False)) = 200"
    using TC [THEN conjunct2, THEN conjunct2, THEN conjunct2, THEN conjunct2, THEN conjunct2, THEN
        conjunct2, THEN conjunct2, THEN conjunct2, THEN conjunct2, THEN conjunct2, THEN conjunct2,
        THEN conjunct2, THEN conjunct2, THEN conjunct2, THEN conjunct2, THEN conjunct2, THEN
        conjunct2, THEN conjunct2, THEN conjunct2, THEN conjunct2, THEN conjunct2, THEN conjunct1]
        dx9 f
    by (simp add: decode_after_def demo_def demo_json_Unmarshal_def)
  have do10: "err (sendHttpReq_p1 demo (strings_TrimSpace demo (strings_ToUpper demo ''post''))
      ''http://h/xml'' [] [] (with_content_type ''text/xml'' None) None None) = None \<and>
      buf (sendHttpReq_p1 demo (strings_TrimSpace demo (strings_ToUpper demo ''post''))
          ''http://h/xml'' [] [] (with_content_type ''text/xml'' None) None None) = Some
          ''<Ok>true</Ok>'' \<and>
      httpStatus (sendHttpReq_p1 demo (strings_TrimSpace demo (strings_ToUpper demo ''post''))
          ''http://h/xml'' [] [] (with_content_type ''text/xml'' None) None None) = 200"
    by (simp add: sendHttpReq_p0_eq sendHttpReq_p1_eq sendHttpReq_hu_eq demo_eval
        ascii_TrimSpace_def ascii_upper_def ascii_space_def with_content_type_def
        with_content_type_if_absent_def text_fields_def)
  have o10: "decoded (HttpReqXML_p1 demo ''post'' ''http://h/xml'' [] None None None (Some False))
      =
     Some (XML, ''<Ok>true</Ok>'') \<and>
   err (HttpReqXML_p1 demo ''post'' ''http://h/xml'' [] None None None (Some False)) = None \<and>
   target (HttpReqXML_p1 demo ''post'' ''http://h/xml'' [] None None None (Some False)) = Some
       True \<and>
   httpStatus (HttpReqXML_p1 demo ''post'' ''http://h/xml'' [] None None None (Some False)) = 200"
    using TB [THEN conjunct2, THEN conjunct2, THEN conjunct2, THEN conjunct2, THEN conjunct2, THEN
        conjunct2, THEN conjunct2, THEN conjunct2, THEN conjunct2, THEN conjunct2, THEN conjunct2,
        THEN conjunct2, THEN conjunct2, THEN conjunct2, THEN conjunct2, THEN conjunct2, THEN
        conjunct2, THEN conjunct2, THEN conjunct2, THEN conjunct2, THEN conjunct2, THEN conjunct2,
        THEN conjunct2, THEN conjunct1] do10 f
    by (simp add: decode_after_def demo_def demo_xml_Unmarshal_def)
  have dx10: "err (sendHttpReq_p1 demo (strings_TrimSpace demo (strings_ToUpper demo ''post''))
      ''http://h/ok'' [] [] (with_content_type ''text/xml'' None) None None) = None \<and>
      buf (sendHttpReq_p1 demo (strings_TrimSpace demo (strings_ToUpper demo ''post''))
          ''http://h/ok'' [] [] (with_content_type ''text/xml'' None) None None) = Some ''true'' \<and>
      httpStatus (sendHttpReq_p1 demo (strings_TrimSpace demo (strings_ToUpper demo ''post''))
          ''http://h/ok'' [] [] (with_content_type ''text/xml'' None) None None) = 200"
    by (simp add: sendHttpReq_p0_eq sendHttpReq_p1_eq sendHttpReq_hu_eq demo_eval
        ascii_TrimSpace_def ascii_upper_def ascii_space_def with_content_type_def
        with_content_type_if_absent_def text_fields_def)
  have x10: "decoded (HttpReqXML_p1 demo ''post'' ''http://h/ok'' [] None None None (Some False))
      =
     Some (XML, ''true'') \<and>
   err (HttpReqXML_p1 demo ''post'' ''http://h/ok'' [] None None None (Some False)) =
     Some (RawErr (Cause ''xml: cannot decode the input'')) \<and>
   httpStatus (HttpReqXML_p1 demo ''post'' ''http://h/ok'' [] None None None (Some False)) = 200"
    using TA [THEN conjunct2, THEN conjunct2, THEN conjunct2, THEN conjunct2, THEN conjunct2, THEN
        conjunct2, THEN conjunct2, THEN conjunct2, THEN conjunct2, THEN conjunct2, THEN conjunct2,
        THEN conjunct2, THEN conjunct2, THEN conjunct2, THEN conjunct2, THEN conjunct2, THEN
        conjunct2, THEN conjunct2, THEN conjunct2, THEN conjunct2, THEN conjunct2, THEN conjunct2,
        THEN conjunct2, THEN conjunct1] dx10 f
    by (simp add: decode_after_def demo_def demo_xml_Unmarshal_def)
  have do11: "err (sendHttpReq_p1 demo (strings_TrimSpace demo (strings_ToUpper demo ''post''))
      ''http://h/ok'' [] [] (with_content_type ''application/json'' None) None None) = None \<and>
      buf (sendHttpReq_p1 demo (strings_TrimSpace demo (strings_ToUpper demo ''post''))
          ''http://h/ok'' [] [] (with_content_type ''application/json'' None) None None) = Some
          ''true'' \<and>
      httpStatus (sendHttpReq_p1 demo (strings_TrimSpace demo (strings_ToUpper demo ''post''))
          ''http://h/ok'' [] [] (with_content_type ''application/json'' None) None None) = 200"
    by (simp add: sendHttpReq_p0_eq sendHttpReq_p1_eq sendHttpReq_hu_eq demo_eval
        ascii_TrimSpace_def ascii_upper_def ascii_space_def with_content_type_def
        with_content_type_if_absent_def text_fields_def)
  have o11: "decoded (HttpReqJSON_p1 demo ''post'' ''http://h/ok'' [] None None None (Some False))
      =
     Some (JSON, ''true'') \<and>
   err (HttpReqJSON_p1 demo ''post'' ''http://h/ok'' [] None None None (Some False)) = None \<and>
   target (HttpReqJSON_p1 demo ''post'' ''http://h/ok'' [] None None None (Some False)) = Some
       True \<and>
   httpStatus (HttpReqJSON_p1 demo ''post'' ''http://h/ok'' [] None None None (Some False)) = 200"
    using TA [THEN conjunct2, THEN conjunct2, THEN conjunct2, THEN conjunct2, THEN conjunct2, THEN
        conjunct2, THEN conjunct2, THEN conjunct2, THEN conjunct2, THEN conjunct2, THEN conjunct2,
        THEN conjunct2, THEN conjunct2, THEN conjunct2, THEN conjunct2, THEN conjunct2, THEN
        conjunct2, THEN conjunct2, THEN conjunct2, THEN conjunct2, THEN conjunct2, THEN conjunct2,
        THEN conjunct2, THEN conjunct2, THEN conjunct2, THEN conjunct1] do11 f
    by (simp add: decode_after_def demo_def demo_json_Unmarshal_def)
  have dx11: "err (sendHttpReq_p1 demo (strings_TrimSpace demo (strings_ToUpper demo ''post''))
      ''http://h/bad'' [] [] (with_content_type ''application/json'' None) None None) = None \<and>
      buf (sendHttpReq_p1 demo (strings_TrimSpace demo (strings_ToUpper demo ''post''))
          ''http://h/bad'' [] [] (with_content_type ''application/json'' None) None None) = Some
          ''tru'' \<and>
      httpStatus (sendHttpReq_p1 demo (strings_TrimSpace demo (strings_ToUpper demo ''post''))
          ''http://h/bad'' [] [] (with_content_type ''application/json'' None) None None) = 200"
    by (simp add: sendHttpReq_p0_eq sendHttpReq_p1_eq sendHttpReq_hu_eq demo_eval
        ascii_TrimSpace_def ascii_upper_def ascii_space_def with_content_type_def
        with_content_type_if_absent_def text_fields_def)
  have x11: "decoded (HttpReqJSON_p1 demo ''post'' ''http://h/bad'' [] None None None (Some
      False)) =
     Some (JSON, ''tru'') \<and>
   err (HttpReqJSON_p1 demo ''post'' ''http://h/bad'' [] None None None (Some False)) =
     Some (RawErr (Cause ''json: cannot decode the input'')) \<and>
   httpStatus (HttpReqJSON_p1 demo ''post'' ''http://h/bad'' [] None None None (Some False)) =
       200"
    using TC [THEN conjunct2, THEN conjunct2, THEN conjunct2, THEN conjunct2, THEN conjunct2, THEN
        conjunct2, THEN conjunct2, THEN conjunct2, THEN conjunct2, THEN conjunct2, THEN conjunct2,
        THEN conjunct2, THEN conjunct2, THEN conjunct2, THEN conjunct2, THEN conjunct2, THEN
        conjunct2, THEN conjunct2, THEN conjunct2, THEN conjunct2, THEN conjunct2, THEN conjunct2,
        THEN conjunct2, THEN conjunct2, THEN conjunct2, THEN conjunct1] dx11 f
    by (simp add: decode_after_def demo_def demo_json_Unmarshal_def)
  have do12: "err (sendHttpReq_p1 demo ''POST'' ''http://h/ok'' [] [] (with_content_type
      ''application/x-www-form-urlencoded'' None) None None) = None \<and>
      buf (sendHttpReq_p1 demo ''POST'' ''http://h/ok'' [] [] (with_content_type
          ''application/x-www-form-urlencoded'' None) None None) = Some ''true'' \<and>
      httpStatus (sendHttpReq_p1 demo ''POST'' ''http://h/ok'' [] [] (with_content_type
          ''application/x-www-form-urlencoded'' None) None None) = 200"
    by (simp add: sendHttpReq_p0_eq sendHttpReq_p1_eq sendHttpReq_hu_eq demo_eval
        ascii_TrimSpace_def ascii_upper_def ascii_space_def with_content_type_def
        with_content_type_if_absent_def text_fields_def)
  have o12: "decoded (HttpReqPostFormJSON_p1 demo ''http://h/ok'' [] None None None (Some False))
      =
     Some (JSON, ''true'') \<and>
   err (HttpReqPostFormJSON_p1 demo ''http://h/ok'' [] None None None (Some False)) = None \<and>
   target (HttpReqPostFormJSON_p1 demo ''http://h/ok'' [] None None None (Some False)) = Some True
       \<and>
   httpStatus (HttpReqPostFormJSON_p1 demo ''http://h/ok'' [] None None None (Some False)) = 200"
    using TA [THEN conjunct2, THEN conjunct2, THEN conjunct2, THEN conjunct2, THEN conjunct2, THEN
        conjunct2, THEN conjunct2, THEN conjunct2, THEN conjunct2, THEN conjunct2, THEN conjunct2,
        THEN conjunct2, THEN conjunct2, THEN conjunct2, THEN conjunct2, THEN conjunct2, THEN
        conjunct2, THEN conjunct2, THEN conjunct2, THEN conjunct2, THEN conjunct2, THEN conjunct2,
        THEN conjunct2, THEN conjunct2, THEN conjunct2, THEN conjunct2, THEN conjunct2, THEN
        conjunct1] do12 f
    by (simp add: decode_after_def demo_def demo_json_Unmarshal_def)
  have dx12: "err (sendHttpReq_p1 demo ''POST'' ''http://h/bad'' [] [] (with_content_type
      ''application/x-www-form-urlencoded'' None) None None) = None \<and>
      buf (sendHttpReq_p1 demo ''POST'' ''http://h/bad'' [] [] (with_content_type
          ''application/x-www-form-urlencoded'' None) None None) = Some ''tru'' \<and>
      httpStatus (sendHttpReq_p1 demo ''POST'' ''http://h/bad'' [] [] (with_content_type
          ''application/x-www-form-urlencoded'' None) None None) = 200"
    by (simp add: sendHttpReq_p0_eq sendHttpReq_p1_eq sendHttpReq_hu_eq demo_eval
        ascii_TrimSpace_def ascii_upper_def ascii_space_def with_content_type_def
        with_content_type_if_absent_def text_fields_def)
  have x12: "decoded (HttpReqPostFormJSON_p1 demo ''http://h/bad'' [] None None None (Some False))
      =
     Some (JSON, ''tru'') \<and>
   err (HttpReqPostFormJSON_p1 demo ''http://h/bad'' [] None None None (Some False)) =
     Some (RawErr (Cause ''json: cannot decode the input'')) \<and>
   httpStatus (HttpReqPostFormJSON_p1 demo ''http://h/bad'' [] None None None (Some False)) = 200"
    using TC [THEN conjunct2, THEN conjunct2, THEN conjunct2, THEN conjunct2, THEN conjunct2, THEN
        conjunct2, THEN conjunct2, THEN conjunct2, THEN conjunct2, THEN conjunct2, THEN conjunct2,
        THEN conjunct2, THEN conjunct2, THEN conjunct2, THEN conjunct2, THEN conjunct2, THEN
        conjunct2, THEN conjunct2, THEN conjunct2, THEN conjunct2, THEN conjunct2, THEN conjunct2,
        THEN conjunct2, THEN conjunct2, THEN conjunct2, THEN conjunct2, THEN conjunct2, THEN
        conjunct1] dx12 f
    by (simp add: decode_after_def demo_def demo_json_Unmarshal_def)
  have do13: "err (sendHttpReq_p1 demo ''POST'' ''http://h/xml'' [] []
      (with_content_type_if_absent ''application/x-www-form-urlencoded'' None) None None) = None \<and>
      buf (sendHttpReq_p1 demo ''POST'' ''http://h/xml'' [] [] (with_content_type_if_absent
          ''application/x-www-form-urlencoded'' None) None None) = Some ''<Ok>true</Ok>'' \<and>
      httpStatus (sendHttpReq_p1 demo ''POST'' ''http://h/xml'' [] [] (with_content_type_if_absent
          ''application/x-www-form-urlencoded'' None) None None) = 200"
    by (simp add: sendHttpReq_p0_eq sendHttpReq_p1_eq sendHttpReq_hu_eq demo_eval
        ascii_TrimSpace_def ascii_upper_def ascii_space_def with_content_type_def
        with_content_type_if_absent_def text_fields_def)
  have o13: "decoded (HttpReqPostFormXML_p1 demo ''http://h/xml'' [] None None None (Some False))
      =
     Some (XML, ''<Ok>true</Ok>'') \<and>
   err (HttpReqPostFormXML_p1 demo ''http://h/xml'' [] None None None (Some False)) = None \<and>
   target (HttpReqPostFormXML_p1 demo ''http://h/xml'' [] None None None (Some False)) = Some True
       \<and>
   httpStatus (HttpReqPostFormXML_p1 demo ''http://h/xml'' [] None None None (Some False)) = 200"
    using TB [THEN conjunct2, THEN conjunct2, THEN conjunct2, THEN conjunct2, THEN conjunct2, THEN
        conjunct2, THEN conjunct2, THEN conjunct2, THEN conjunct2, THEN conjunct2, THEN conjunct2,
        THEN conjunct2, THEN conjunct2, THEN conjunct2, THEN conjunct2, THEN conjunct2, THEN
        conjunct2, THEN conjunct2, THEN conjunct2, THEN conjunct2, THEN conjunct2, THEN conjunct2,
        THEN conjunct2, THEN conjunct2, THEN conjunct2, THEN conjunct2, THEN conjunct2, THEN
        conjunct2, THEN conjunct2, THEN conjunct1] do13 f
    by (simp add: decode_after_def demo_def demo_xml_Unmarshal_def)
  have dx13: "err (sendHttpReq_p1 demo ''POST'' ''http://h/ok'' [] [] (with_content_type_if_absent
      ''application/x-www-form-urlencoded'' None) None None) = None \<and>
      buf (sendHttpReq_p1 demo ''POST'' ''http://h/ok'' [] [] (with_content_type_if_absent
          ''application/x-www-form-urlencoded'' None) None None) = Some ''true'' \<and>
      httpStatus (sendHttpReq_p1 demo ''POST'' ''http://h/ok'' [] [] (with_content_type_if_absent
          ''application/x-www-form-urlencoded'' None) None None) = 200"
    by (simp add: sendHttpReq_p0_eq sendHttpReq_p1_eq sendHttpReq_hu_eq demo_eval
        ascii_TrimSpace_def ascii_upper_def ascii_space_def with_content_type_def
        with_content_type_if_absent_def text_fields_def)
  have x13: "decoded (HttpReqPostFormXML_p1 demo ''http://h/ok'' [] None None None (Some False)) =
     Some (XML, ''true'') \<and>
   err (HttpReqPostFormXML_p1 demo ''http://h/ok'' [] None None None (Some False)) =
     Some (RawErr (Cause ''xml: cannot decode the input'')) \<and>
   httpStatus (HttpReqPostFormXML_p1 demo ''http://h/ok'' [] None None None (Some False)) = 200"
    using TA [THEN conjunct2, THEN conjunct2, THEN conjunct2, THEN conjunct2, THEN conjunct2, THEN
        conjunct2, THEN conjunct2, THEN conjunct2, THEN conjunct2, THEN conjunct2, THEN conjunct2,
        THEN conjunct2, THEN conjunct2, THEN conjunct2, THEN conjunct2, THEN conjunct2, THEN
        conjunct2, THEN conjunct2, THEN conjunct2, THEN conjunct2, THEN conjunct2, THEN conjunct2,
        THEN conjunct2, THEN conjunct2, THEN conjunct2, THEN conjunct2, THEN conjunct2, THEN
        conjunct2, THEN conjunct2, THEN conjunct1] dx13 f
    by (simp add: decode_after_def demo_def demo_xml_Unmarshal_def)
  have do14: "err (sendHttpReq_p0 demo ''POST'' ''http://h/ok'' [] (multipart_Bytes demo
      (text_fields [] @ [CreateFormFile (Key \<lparr>Key = ''file'', FileName = ''f.txt'', Content =
      ''hi''\<rparr>) (FileName \<lparr>Key = ''file'', FileName = ''f.txt'', Content = ''hi''\<rparr>), Write (Content
      \<lparr>Key = ''file'', FileName = ''f.txt'', Content = ''hi''\<rparr>), Close])) (with_content_type
      (multipart_FormDataContentType demo) None) None None 0) = None \<and>
      buf (sendHttpReq_p0 demo ''POST'' ''http://h/ok'' [] (multipart_Bytes demo (text_fields [] @
          [CreateFormFile (Key \<lparr>Key = ''file'', FileName = ''f.txt'', Content = ''hi''\<rparr>) (FileName
          \<lparr>Key = ''file'', FileName = ''f.txt'', Content = ''hi''\<rparr>), Write (Content \<lparr>Key =
          ''file'', FileName = ''f.txt'', Content = ''hi''\<rparr>), Close])) (with_content_type
          (multipart_FormDataContentType demo) None) None None 0) = Some ''true'' \<and>
      httpStatus (sendHttpReq_p0 demo ''POST'' ''http://h/ok'' [] (multipart_Bytes demo
          (text_fields [] @ [CreateFormFile (Key \<lparr>Key = ''file'', FileName = ''f.txt'', Content =
          ''hi''\<rparr>) (FileName \<lparr>Key = ''file'', FileName = ''f.txt'', Content = ''hi''\<rparr>), Write
          (Content \<lparr>Key = ''file'', FileName = ''f.txt'', Content = ''hi''\<rparr>), Close]))
          (with_content_type (multipart_FormDataContentType demo) None) None None 0) = 200"
    by (simp add: sendHttpReq_p0_eq sendHttpReq_p1_eq sendHttpReq_hu_eq demo_eval
        ascii_TrimSpace_def ascii_upper_def ascii_space_def with_content_type_def
        with_content_type_if_absent_def text_fields_def)
  have o14: "decoded (HttpReqPostFile_p0 demo ''http://h/ok'' [] \<lparr>Key = ''file'', FileName =
      ''f.txt'', Content = ''hi''\<rparr> None None None 0 (Some False)) =
     Some (JSON, ''true'') \<and>
   err (HttpReqPostFile_p0 demo ''http://h/ok'' [] \<lparr>Key = ''file'', FileName = ''f.txt'', Content
       = ''hi''\<rparr> None None None 0 (Some False)) = None \<and>
   target (HttpReqPostFile_p0 demo ''http://h/ok'' [] \<lparr>Key = ''file'', FileName = ''f.txt'',
       Content = ''hi''\<rparr> None None None 0 (Some False)) = Some True \<and>
   httpStatus (HttpReqPostFile_p0 demo ''http://h/ok'' [] \<lparr>Key = ''file'', FileName = ''f.txt'',
       Content = ''hi''\<rparr> None None None 0 (Some False)) = 200"
    using TA [THEN conjunct2, THEN conjunct2, THEN conjunct2, THEN conjunct2, THEN conjunct2, THEN
        conjunct2, THEN conjunct2, THEN conjunct2, THEN conjunct2, THEN conjunct2, THEN conjunct2,
        THEN conjunct2, THEN conjunct2, THEN conjunct2, THEN conjunct2, THEN conjunct2, THEN
        conjunct2, THEN conjunct2, THEN conjunct2, THEN conjunct2, THEN conjunct2, THEN conjunct2,
        THEN conjunct2, THEN conjunct2, THEN conjunct2, THEN conjunct2, THEN conjunct2, THEN
        conjunct2, THEN conjunct2, THEN conjunct2, THEN conjunct2, THEN conjunct1] do14 f
    by (simp add: decode_after_def demo_def demo_json_Unmarshal_def)
  have dx14: "err (sendHttpReq_p0 demo ''POST'' ''http://h/bad'' [] (multipart_Bytes demo
      (text_fields [] @ [CreateFormFile (Key \<lparr>Key = ''file'', FileName = ''f.txt'', Content =
      ''hi''\<rparr>) (FileName \<lparr>Key = ''file'', FileName = ''f.txt'', Content = ''hi''\<rparr>), Write (Content
      \<lparr>Key = ''file'', FileName = ''f.txt'', Content = ''hi''\<rparr>), Close])) (with_content_type
      (multipart_FormDataContentType demo) None) None None 0) = None \<and>
      buf (sendHttpReq_p0 demo ''POST'' ''http://h/bad'' [] (multipart_Bytes demo (text_fields []
          @ [CreateFormFile (Key \<lparr>Key = ''file'', FileName = ''f.txt'', Content = ''hi''\<rparr>)
          (FileName \<lparr>Key = ''file'', FileName = ''f.txt'', Content = ''hi''\<rparr>), Write (Content \<lparr>Key
          = ''file'', FileName = ''f.txt'', Content = ''hi''\<rparr>), Close])) (with_content_type
          (multipart_FormDataContentType demo) None) None None 0) = Some ''tru'' \<and>
      httpStatus (sendHttpReq_p0 demo ''POST'' ''http://h/bad'' [] (multipart_Bytes demo
          (text_fields [] @ [CreateFormFile (Key \<lparr>Key = ''file'', FileName = ''f.txt'', Content =
          ''hi''\<rparr>) (FileName \<lparr>Key = ''file'', FileName = ''f.txt'', Content = ''hi''\<rparr>), Write
          (Content \<lparr>Key = ''file'', FileName = ''f.txt'', Content = ''hi''\<rparr>), Close]))
          (with_content_type (multipart_FormDataContentType demo) None) None None 0) = 200"
    by (simp add: sendHttpReq_p0_eq sendHttpReq_p1_eq sendHttpReq_hu_eq demo_eval
        ascii_TrimSpace_def ascii_upper_def ascii_space_def with_content_type_def
        with_content_type_if_absent_def text_fields_def)
  have x14: "decoded (HttpReqPostFile_p0 demo ''http://h/bad'' [] \<lparr>Key = ''file'', FileName =
      ''f.txt'', Content = ''hi''\<rparr> None None None 0 (Some False)) =
     Some (JSON, ''tru'') \<and>
   err (HttpReqPostFile_p0 demo ''http://h/bad'' [] \<lparr>Key = ''file'', FileName = ''f.txt'', Content
       = ''hi''\<rparr> None None None 0 (Some False)) =
     Some (RawErr (Cause ''json: cannot decode the input'')) \<and>
   httpStatus (HttpReqPostFile_p0 demo ''http://h/bad'' [] \<lparr>Key = ''file'', FileName = ''f.txt'',
       Content = ''hi''\<rparr> None None None 0 (Some False)) = 200"
    using TC [THEN conjunct2, THEN conjunct2, THEN conjunct2, THEN conjunct2, THEN conjunct2, THEN
        conjunct2, THEN conjunct2, THEN conjunct2, THEN conjunct2, THEN conjunct2, THEN conjunct2,
        THEN conjunct2, THEN conjunct2, THEN conjunct2, THEN conjunct2, THEN conjunct2, THEN
        conjunct2, THEN conjunct2, THEN conjunct2, THEN conjunct2, THEN conjunct2, THEN conjunct2,
        THEN conjunct2, THEN conjunct2, THEN conjunct2, THEN conjunct2, THEN conjunct2, THEN
        conjunct2, THEN conjunct2, THEN conjunct2, THEN conjunct2, THEN conjunct1] dx14 f
    by (simp add: decode_after_def demo_def demo_json_Unmarshal_def)
  have do15: "err (sendHttpReq_p0 demo ''post'' ''http://h/ok'' [] (multipart_Bytes demo
      (text_fields [] @ [CreateFormFile (Key \<lparr>Key = ''file'', FileName = ''f.txt'', Content =
      ''hi''\<rparr>) (FileName \<lparr>Key = ''file'', FileName = ''f.txt'', Content = ''hi''\<rparr>), Write (Content
      \<lparr>Key = ''file'', FileName = ''f.txt'', Content = ''hi''\<rparr>), Close])) (with_content_type
      (multipart_FormDataContentType demo) None) None None 0) = None \<and>
      buf (sendHttpReq_p0 demo ''post'' ''http://h/ok'' [] (multipart_Bytes demo (text_fields [] @
          [CreateFormFile (Key \<lparr>Key = ''file'', FileName = ''f.txt'', Content = ''hi''\<rparr>) (FileName
          \<lparr>Key = ''file'', FileName = ''f.txt'', Content = ''hi''\<rparr>), Write (Content \<lparr>Key =
          ''file'', FileName = ''f.txt'', Content = ''hi''\<rparr>), Close])) (with_content_type
          (multipart_FormDataContentType demo) None) None None 0) = Some ''true'' \<and>
      httpStatus (sendHttpReq_p0 demo ''post'' ''http://h/ok'' [] (multipart_Bytes demo
          (text_fields [] @ [CreateFormFile (Key \<lparr>Key = ''file'', FileName = ''f.txt'', Content =
          ''hi''\<rparr>) (FileName \<lparr>Key = ''file'', FileName = ''f.txt'', Content = ''hi''\<rparr>), Write
          (Content \<lparr>Key = ''file'', FileName = ''f.txt'', Content = ''hi''\<rparr>), Close]))
          (with_content_type (multipart_FormDataContentType demo) None) None None 0) = 200"
    by (simp add: sendHttpReq_p0_eq sendHttpReq_p1_eq sendHttpReq_hu_eq demo_eval
        ascii_TrimSpace_def ascii_upper_def ascii_space_def with_content_type_def
        with_content_type_if_absent_def text_fields_def)
  have o15: "decoded (httpReqAuthFile_p0 demo ''post'' ''http://h/ok'' [] [] \<lparr>Key = ''file'',
      FileName = ''f.txt'', Content = ''hi''\<rparr> None None None 0 (Some False)) =
     Some (JSON, ''true'') \<and>
   err (httpReqAuthFile_p0 demo ''post'' ''http://h/ok'' [] [] \<lparr>Key = ''file'', FileName =
       ''f.txt'', Content = ''hi''\<rparr> None None None 0 (Some False)) = None \<and>
   target (httpReqAuthFile_p0 demo ''post'' ''http://h/ok'' [] [] \<lparr>Key = ''file'', FileName =
       ''f.txt'', Content = ''hi''\<rparr> None None None 0 (Some False)) = Some True \<and>
   httpStatus (httpReqAuthFile_p0 demo ''post'' ''http://h/ok'' [] [] \<lparr>Key = ''file'', FileName =
       ''f.txt'', Content = ''hi''\<rparr> None None None 0 (Some False)) = 200"
    using TA [THEN conjunct2, THEN conjunct2, THEN conjunct2, THEN conjunct2, THEN conjunct2, THEN
        conjunct2, THEN conjunct2, THEN conjunct2, THEN conjunct2, THEN conjunct2, THEN conjunct2,
        THEN conjunct2, THEN conjunct2, THEN conjunct2, THEN conjunct2, THEN conjunct2, THEN
        conjunct2, THEN conjunct2, THEN conjunct2, THEN conjunct2, THEN conjunct2, THEN conjunct2,
        THEN conjunct2, THEN conjunct2, THEN conjunct2, THEN conjunct2, THEN conjunct2, THEN
        conjunct2, THEN conjunct2, THEN conjunct2, THEN conjunct2, THEN conjunct2, THEN conjunct2,
        THEN conjunct1] do15 f
    by (simp add: decode_after_def demo_def demo_json_Unmarshal_def)
  have dx15: "err (sendHttpReq_p0 demo ''post'' ''http://h/bad'' [] (multipart_Bytes demo
      (text_fields [] @ [CreateFormFile (Key \<lparr>Key = ''file'', FileName = ''f.txt'', Content =
      ''hi''\<rparr>) (FileName \<lparr>Key = ''file'', FileName = ''f.txt'', Content = ''hi''\<rparr>), Write (Content
      \<lparr>Key = ''file'', FileName = ''f.txt'', Content = ''hi''\<rparr>), Close])) (with_content_type
      (multipart_FormDataContentType demo) None) None None 0) = None \<and>
      buf (sendHttpReq_p0 demo ''post'' ''http://h/bad'' [] (multipart_Bytes demo (text_fields []
          @ [CreateFormFile (Key \<lparr>Key = ''file'', FileName = ''f.txt'', Content = ''hi''\<rparr>)
          (FileName \<lparr>Key = ''file'', FileName = ''f.txt'', Content = ''hi''\<rparr>), Write (Content \<lparr>Key
          = ''file'', FileName = ''f.txt'', Content = ''hi''\<rparr>), Close])) (with_content_type
          (multipart_FormDataContentType demo) None) None None 0) = Some ''tru'' \<and>
      httpStatus (sendHttpReq_p0 demo ''post'' ''http://h/bad'' [] (multipart_Bytes demo
          (text_fields [] @ [CreateFormFile (Key \<lparr>Key = ''file'', FileName = ''f.txt'', Content =
          ''hi''\<rparr>) (FileName \<lparr>Key = ''file'', FileName = ''f.txt'', Content = ''hi''\<rparr>), Write
          (Content \<lparr>Key = ''file'', FileName = ''f.txt'', Content = ''hi''\<rparr>), Close]))
          (with_content_type (multipart_FormDataContentType demo) None) None None 0) = 200"
    by (simp add: sendHttpReq_p0_eq sendHttpReq_p1_eq sendHttpReq_hu_eq demo_eval
        ascii_TrimSpace_def ascii_upper_def ascii_space_def with_content_type_def
        with_content_type_if_absent_def text_fields_def)
  have x15: "decoded (httpReqAuthFile_p0 demo ''post'' ''http://h/bad'' [] [] \<lparr>Key = ''file'',
      FileName = ''f.txt'', Content = ''hi''\<rparr> None None None 0 (Some False)) =
     Some (JSON, ''tru'') \<and>
   err (httpReqAuthFile_p0 demo ''post'' ''http://h/bad'' [] [] \<lparr>Key = ''file'', FileName =
       ''f.txt'', Content = ''hi''\<rparr> None None None 0 (Some False)) =
     Some (RawErr (Cause ''json: cannot decode the input'')) \<and>
   httpStatus (httpReqAuthFile_p0 demo ''post'' ''http://h/bad'' [] [] \<lparr>Key = ''file'', FileName =
       ''f.txt'', Content = ''hi''\<rparr> None None None 0 (Some False)) = 200"
    using TC [THEN conjunct2, THEN conjunct2, THEN conjunct2, THEN conjunct2, THEN conjunct2, THEN
        conjunct2, THEN conjunct2, THEN conjunct2, THEN conjunct2, THEN conjunct2, THEN conjunct2,
        THEN conjunct2, THEN conjunct2, THEN conjunct2, THEN conjunct2, THEN conjunct2, THEN
        conjunct2, THEN conjunct2, THEN conjunct2, THEN conjunct2, THEN conjunct2, THEN conjunct2,
        THEN conjunct2, THEN conjunct2, THEN conjunct2, THEN conjunct2, THEN conjunct2, THEN
        conjunct2, THEN conjunct2, THEN conjunct2, THEN conjunct2, THEN conjunct2, THEN conjunct2,
        THEN conjunct1] dx15 f
    by (simp add: decode_after_def demo_def demo_json_Unmarshal_def)
  have do16: "err (sendHttpReq_p0 demo ''PUT'' ''http://h/ok'' [] (multipart_Bytes demo
      (text_fields [] @ [CreateFormFile (Key \<lparr>Key = ''file'', FileName = ''f.txt'', Content =
      ''hi''\<rparr>) (FileName \<lparr>Key = ''file'', FileName = ''f.txt'', Content = ''hi''\<rparr>), Write (Content
      \<lparr>Key = ''file'', FileName = ''f.txt'', Content = ''hi''\<rparr>), Close])) (with_content_type
      (multipart_FormDataContentType demo) None) None None 0) = None \<and>
      buf (sendHttpReq_p0 demo ''PUT'' ''http://h/ok'' [] (multipart_Bytes demo (text_fields [] @
          [CreateFormFile (Key \<lparr>Key = ''file'', FileName = ''f.txt'', Content = ''hi''\<rparr>) (FileName
          \<lparr>Key = ''file'', FileName = ''f.txt'', Content = ''hi''\<rparr>), Write (Content \<lparr>Key =
          ''file'', FileName = ''f.txt'', Content = ''hi''\<rparr>), Close])) (with_content_type
          (multipart_FormDataContentType demo) None) None None 0) = Some ''true'' \<and>
      httpStatus (sendHttpReq_p0 demo ''PUT'' ''http://h/ok'' [] (multipart_Bytes demo
          (text_fields [] @ [CreateFormFile (Key \<lparr>Key = ''file'', FileName = ''f.txt'', Content =
          ''hi''\<rparr>) (FileName \<lparr>Key = ''file'', FileName = ''f.txt'', Content = ''hi''\<rparr>), Write
          (Content \<lparr>Key = ''file'', FileName = ''f.txt'', Content = ''hi''\<rparr>), Close]))
          (with_content_type (multipart_FormDataContentType demo) None) None None 0) = 200"
    by (simp add: sendHttpReq_p0_eq sendHttpReq_p1_eq sendHttpReq_hu_eq demo_eval
        ascii_TrimSpace_def ascii_upper_def ascii_space_def with_content_type_def
        with_content_type_if_absent_def text_fields_def)
  have o16: "decoded (HttpReqAuthPutFile_p0 demo ''http://h/ok'' [] [] \<lparr>Key = ''file'', FileName =
      ''f.txt'', Content = ''hi''\<rparr> None None None 0 (Some False)) =
     Some (JSON, ''true'') \<and>
   err (HttpReqAuthPutFile_p0 demo ''http://h/ok'' [] [] \<lparr>Key = ''file'', FileName = ''f.txt'',
       Content = ''hi''\<rparr> None None None 0 (Some False)) = None \<and>
   target (HttpReqAuthPutFile_p0 demo ''http://h/ok'' [] [] \<lparr>Key = ''file'', FileName = ''f.txt'',
       Content = ''hi''\<rparr> None None None 0 (Some False)) = Some True \<and>
   httpStatus (HttpReqAuthPutFile_p0 demo ''http://h/ok'' [] [] \<lparr>Key = ''file'', FileName =
       ''f.txt'', Content = ''hi''\<rparr> None None None 0 (Some False)) = 200"
    using TA [THEN conjunct2, THEN conjunct2, THEN conjunct2, THEN conjunct2, THEN conjunct2, THEN
        conjunct2, THEN conjunct2, THEN conjunct2, THEN conjunct2, THEN conjunct2, THEN conjunct2,
        THEN conjunct2, THEN conjunct2, THEN conjunct2, THEN conjunct2, THEN conjunct2, THEN
        conjunct2, THEN conjunct2, THEN conjunct2, THEN conjunct2, THEN conjunct2, THEN conjunct2,
        THEN conjunct2, THEN conjunct2, THEN conjunct2, THEN conjunct2, THEN conjunct2, THEN
        conjunct2, THEN conjunct2, THEN conjunct2, THEN conjunct2, THEN conjunct2, THEN conjunct2,
        THEN conjunct2, THEN conjunct2, THEN conjunct1] do16 f
    by (simp add: decode_after_def demo_def demo_json_Unmarshal_def)
  have dx16: "err (sendHttpReq_p0 demo ''PUT'' ''http://h/bad'' [] (multipart_Bytes demo
      (text_fields [] @ [CreateFormFile (Key \<lparr>Key = ''file'', FileName = ''f.txt'', Content =
      ''hi''\<rparr>) (FileName \<lparr>Key = ''file'', FileName = ''f.txt'', Content = ''hi''\<rparr>), Write (Content
      \<lparr>Key = ''file'', FileName = ''f.txt'', Content = ''hi''\<rparr>), Close])) (with_content_type
      (multipart_FormDataContentType demo) None) None None 0) = None \<and>
      buf (sendHttpReq_p0 demo ''PUT'' ''http://h/bad'' [] (multipart_Bytes demo (text_fields [] @
          [CreateFormFile (Key \<lparr>Key = ''file'', FileName = ''f.txt'', Content = ''hi''\<rparr>) (FileName
          \<lparr>Key = ''file'', FileName = ''f.txt'', Content = ''hi''\<rparr>), Write (Content \<lparr>Key =
          ''file'', FileName = ''f.txt'', Content = ''hi''\<rparr>), Close])) (with_content_type
          (multipart_FormDataContentType demo) None) None None 0) = Some ''tru'' \<and>
      httpStatus (sendHttpReq_p0 demo ''PUT'' ''http://h/bad'' [] (multipart_Bytes demo
          (text_fields [] @ [CreateFormFile (Key \<lparr>Key = ''file'', FileName = ''f.txt'', Content =
          ''hi''\<rparr>) (FileName \<lparr>Key = ''file'', FileName = ''f.txt'', Content = ''hi''\<rparr>), Write
          (Content \<lparr>Key = ''file'', FileName = ''f.txt'', Content = ''hi''\<rparr>), Close]))
          (with_content_type (multipart_FormDataContentType demo) None) None None 0) = 200"
    by (simp add: sendHttpReq_p0_eq sendHttpReq_p1_eq sendHttpReq_hu_eq demo_eval
        ascii_TrimSpace_def ascii_upper_def ascii_space_def with_content_type_def
        with_content_type_if_absent_def text_fields_def)
  have x16: "decoded (HttpReqAuthPutFile_p0 demo ''http://h/bad'' [] [] \<lparr>Key = ''file'', FileName
      = ''f.txt'', Content = ''hi''\<rparr> None None None 0 (Some False)) =
     Some (JSON, ''tru'') \<and>
   err (HttpReqAuthPutFile_p0 demo ''http://h/bad'' [] [] \<lparr>Key = ''file'', FileName = ''f.txt'',
       Content = ''hi''\<rparr> None None None 0 (Some False)) =
     Some (RawErr (Cause ''json: cannot decode the input'')) \<and>
   httpStatus (HttpReqAuthPutFile_p0 demo ''http://h/bad'' [] [] \<lparr>Key = ''file'', FileName =
       ''f.txt'', Content = ''hi''\<rparr> None None None 0 (Some False)) = 200"
    using TC [THEN conjunct2, THEN conjunct2, THEN conjunct2, THEN conjunct2, THEN conjunct2, THEN
        conjunct2, THEN conjunct2, THEN conjunct2, THEN conjunct2, THEN conjunct2, THEN conjunct2,
        THEN conjunct2, THEN conjunct2, THEN conjunct2, THEN conjunct2, THEN conjunct2, THEN
        conjunct2, THEN conjunct2, THEN conjunct2, THEN conjunct2, THEN conjunct2, THEN conjunct2,
        THEN conjunct2, THEN conjunct2, THEN conjunct2, THEN conjunct2, THEN conjunct2, THEN
        conjunct2, THEN conjunct2, THEN conjunct2, THEN conjunct2, THEN conjunct2, THEN conjunct2,
        THEN conjunct2, THEN conjunct2, THEN conjunct1] dx16 f
    by (simp add: decode_after_def demo_def demo_json_Unmarshal_def)
  have do17: "err (sendHttpReq_p0 demo ''POST'' ''http://h/ok'' [] (multipart_Bytes demo
      (text_fields [] @ [CreateFormFile (Key \<lparr>Key = ''file'', FileName = ''f.txt'', Content =
      ''hi''\<rparr>) (FileName \<lparr>Key = ''file'', FileName = ''f.txt'', Content = ''hi''\<rparr>), Write (Content
      \<lparr>Key = ''file'', FileName = ''f.txt'', Content = ''hi''\<rparr>), Close])) (with_content_type
      (multipart_FormDataContentType demo) None) None None 0) = None \<and>
      buf (sendHttpReq_p0 demo ''POST'' ''http://h/ok'' [] (multipart_Bytes demo (text_fields [] @
          [CreateFormFile (Key \<lparr>Key = ''file'', FileName = ''f.txt'', Content = ''hi''\<rparr>) (FileName
          \<lparr>Key = ''file'', FileName = ''f.txt'', Content = ''hi''\<rparr>), Write (Content \<lparr>Key =
          ''file'', FileName = ''f.txt'', Content = ''hi''\<rparr>), Close])) (with_content_type
          (multipart_FormDataContentType demo) None) None None 0) = Some ''true'' \<and>
      httpStatus (sendHttpReq_p0 demo ''POST'' ''http://h/ok'' [] (multipart_Bytes demo
          (text_fields [] @ [CreateFormFile (Key \<lparr>Key = ''file'', FileName = ''f.txt'', Content =
          ''hi''\<rparr>) (FileName \<lparr>Key = ''file'', FileName = ''f.txt'', Content = ''hi''\<rparr>), Write
          (Content \<lparr>Key = ''file'', FileName = ''f.txt'', Content = ''hi''\<rparr>), Close]))
          (with_content_type (multipart_FormDataContentType demo) None) None None 0) = 200"
    by (simp add: sendHttpReq_p0_eq sendHttpReq_p1_eq sendHttpReq_hu_eq demo_eval
        ascii_TrimSpace_def ascii_upper_def ascii_space_def with_content_type_def
        with_content_type_if_absent_def text_fields_def)
  have o17: "decoded (HttpReqAuthPostFile_p0 demo ''http://h/ok'' [] [] \<lparr>Key = ''file'', FileName
      = ''f.txt'', Content = ''hi''\<rparr> None None None 0 (Some False)) =
     Some (JSON, ''true'') \<and>
   err (HttpReqAuthPostFile_p0 demo ''http://h/ok'' [] [] \<lparr>Key = ''file'', FileName = ''f.txt'',
       Content = ''hi''\<rparr> None None None 0 (Some False)) = None \<and>
   target (HttpReqAuthPostFile_p0 demo ''http://h/ok'' [] [] \<lparr>Key = ''file'', FileName =
       ''f.txt'', Content = ''hi''\<rparr> None None None 0 (Some False)) = Some True \<and>
   httpStatus (HttpReqAuthPostFile_p0 demo ''http://h/ok'' [] [] \<lparr>Key = ''file'', FileName =
       ''f.txt'', Content = ''hi''\<rparr> None None None 0 (Some False)) = 200"
    using TA [THEN conjunct2, THEN conjunct2, THEN conjunct2, THEN conjunct2, THEN conjunct2, THEN
        conjunct2, THEN conjunct2, THEN conjunct2, THEN conjunct2, THEN conjunct2, THEN conjunct2,
        THEN conjunct2, THEN conjunct2, THEN conjunct2, THEN conjunct2, THEN conjunct2, THEN
        conjunct2, THEN conjunct2, THEN conjunct2, THEN conjunct2, THEN conjunct2, THEN conjunct2,
        THEN conjunct2, THEN conjunct2, THEN conjunct2, THEN conjunct2, THEN conjunct2, THEN
        conjunct2, THEN conjunct2, THEN conjunct2, THEN conjunct2, THEN conjunct2, THEN conjunct2,
        THEN conjunct2, THEN conjunct2, THEN conjunct2, THEN conjunct2, THEN conjunct1] do17 f
    by (simp add: decode_after_def demo_def demo_json_Unmarshal_def)
  have dx17: "err (sendHttpReq_p0 demo ''POST'' ''http://h/bad'' [] (multipart_Bytes demo
      (text_fields [] @ [CreateFormFile (Key \<lparr>Key = ''file'', FileName = ''f.txt'', Content =
      ''hi''\<rparr>) (FileName \<lparr>Key = ''file'', FileName = ''f.txt'', Content = ''hi''\<rparr>), Write (Content
      \<lparr>Key = ''file'', FileName = ''f.txt'', Content = ''hi''\<rparr>), Close])) (with_content_type
      (multipart_FormDataContentType demo) None) None None 0) = None \<and>
      buf (sendHttpReq_p0 demo ''POST'' ''http://h/bad'' [] (multipart_Bytes demo (text_fields []
          @ [CreateFormFile (Key \<lparr>Key = ''file'', FileName = ''f.txt'', Content = ''hi''\<rparr>)
          (FileName \<lparr>Key = ''file'', FileName = ''f.txt'', Content = ''hi''\<rparr>), Write (Content \<lparr>Key
          = ''file'', FileName = ''f.txt'', Content = ''hi''\<rparr>), Close])) (with_content_type
          (multipart_FormDataContentType demo) None) None None 0) = Some ''tru'' \<and>
      httpStatus (sendHttpReq_p0 demo ''POST'' ''http://h/bad'' [] (multipart_Bytes demo
          (text_fields [] @ [CreateFormFile (Key \<lparr>Key = ''file'', FileName = ''f.txt'', Content =
          ''hi''\<rparr>) (FileName \<lparr>Key = ''file'', FileName = ''f.txt'', Content = ''hi''\<rparr>), Write
          (Content \<lparr>Key = ''file'', FileName = ''f.txt'', Content = ''hi''\<rparr>), Close]))
          (with_content_type (multipart_FormDataContentType demo) None) None None 0) = 200"
    by (simp add: sendHttpReq_p0_eq sendHttpReq_p1_eq sendHttpReq_hu_eq demo_eval
        ascii_TrimSpace_def ascii_upper_def ascii_space_def with_content_type_def
        with_content_type_if_absent_def text_fields_def)
  have x17: "decoded (HttpReqAuthPostFile_p0 demo ''http://h/bad'' [] [] \<lparr>Key = ''file'', FileName
      = ''f.txt'', Content = ''hi''\<rparr> None None None 0 (Some False)) =
     Some (JSON, ''tru'') \<and>
   err (HttpReqAuthPostFile_p0 demo ''http://h/bad'' [] [] \<lparr>Key = ''file'', FileName = ''f.txt'',
       Content = ''hi''\<rparr> None None None 0 (Some False)) =
     Some (RawErr (Cause ''json: cannot decode the input'')) \<and>
   httpStatus (HttpReqAuthPostFile_p0 demo ''http://h/bad'' [] [] \<lparr>Key = ''file'', FileName =
       ''f.txt'', Content = ''hi''\<rparr> None None None 0 (Some False)) = 200"
    using TC [THEN conjunct2, THEN conjunct2, THEN conjunct2, THEN conjunct2, THEN conjunct2, THEN
        conjunct2, THEN conjunct2, THEN conjunct2, THEN conjunct2, THEN conjunct2, THEN conjunct2,
        THEN conjunct2, THEN conjunct2, THEN conjunct2, THEN conjunct2, THEN conjunct2, THEN
        conjunct2, THEN conjunct2, THEN conjunct2, THEN conjunct2, THEN conjunct2, THEN conjunct2,
        THEN conjunct2, THEN conjunct2, THEN conjunct2, THEN conjunct2, THEN conjunct2, THEN
        conjunct2, THEN conjunct2, THEN conjunct2, THEN conjunct2, THEN conjunct2, THEN conjunct2,
        THEN conjunct2, THEN conjunct2, THEN conjunct2, THEN conjunct2, THEN conjunct1] dx17 f
    by (simp add: decode_after_def demo_def demo_json_Unmarshal_def)
  show ?thesis
    using f o0 x0 o1 x1 o2 x2 o3 x3 o4 x4 o5 x5 o6 x6 o7 x7 o8 x8 o9 x9 o10 x10 o11 x11 o12 x12
        o13 x13 o14 x14 o15 x15 o16 x16 o17 x17
    by simp
qed

section \<open>The upload functions\<close>




end
